theory Spec2Isabelle
  imports Complex_Main
begin

section \<open>JavaScript values\<close>

text \<open>
  The scripts are dynamically typed, and nearly every value they handle comes out of
  \<^verbatim>\<open>JSON.parse\<close>: a JSON value, or \<^verbatim>\<open>undefined\<close> when a
  property is missing.  Numbers are modelled by their exact rational value plus
  \<^verbatim>\<open>NaN\<close>; the scripts never do arithmetic on them.  Strings are lists of 8-bit
  characters, read as code units below 256.  An object is the list of its own properties in
  insertion order; a lookup takes the first entry of a key.
\<close>

datatype jsval =
    JUndefined
  | JNull
  | JBool bool
  | JNum rat
  | JNaN
  | JStr string
  | JArr "jsval list"
  | JObj "(string \<times> jsval) list"

type_synonym js_object = "(string \<times> jsval) list"

text \<open>Everything the scripts can throw or have thrown at them.\<close>

datatype error =
    TypeError
  | SyntaxError
  | ApiError int
  | InvalidResponseStructure
  | ConfigError string
  | ServiceException string
  | NotConfigured string

text \<open>\<^verbatim>\<open>ToBoolean\<close>: what \<^verbatim>\<open>!v\<close>, \<^verbatim>\<open>a || b\<close> and
  \<^verbatim>\<open>a && b\<close> test.\<close>

fun truthy :: "jsval \<Rightarrow> bool" where
  "truthy JUndefined = False"
| "truthy JNull = False"
| "truthy (JBool b) = b"
| "truthy (JNum q) = (q \<noteq> 0)"
| "truthy JNaN = False"
| "truthy (JStr s) = (s \<noteq> [])"
| "truthy (JArr xs) = True"
| "truthy (JObj kvs) = True"

definition js_or :: "jsval \<Rightarrow> jsval \<Rightarrow> jsval" where
  "js_or a b = (if truthy a then a else b)"

text \<open>\<^verbatim>\<open>o[k]\<close> on an object: the property's value, \<^verbatim>\<open>undefined\<close>
  when the object has no such property.\<close>

definition obj_get :: "js_object \<Rightarrow> string \<Rightarrow> jsval" where
  "obj_get kvs k = (case map_of kvs k of Some v \<Rightarrow> v | None \<Rightarrow> JUndefined)"

text \<open>\<^verbatim>\<open>v.k\<close> on any value, for the property names the scripts read (none of
  them a built-in property of strings, arrays or \<^verbatim>\<open>Object.prototype\<close>): reading a
  property of \<^verbatim>\<open>null\<close> or \<^verbatim>\<open>undefined\<close> throws a TypeError, a primitive
  or an array has no such property.\<close>

fun get_prop :: "jsval \<Rightarrow> string \<Rightarrow> error + jsval" where
  "get_prop JUndefined k = Inl TypeError"
| "get_prop JNull k = Inl TypeError"
| "get_prop (JObj kvs) k = Inr (obj_get kvs k)"
| "get_prop v k = Inr JUndefined"

text \<open>\<^verbatim>\<open>v[0]\<close> on a truthy value.\<close>

fun get_index0 :: "jsval \<Rightarrow> jsval" where
  "get_index0 (JArr []) = JUndefined"
| "get_index0 (JArr (x # xs)) = x"
| "get_index0 (JStr []) = JUndefined"
| "get_index0 (JStr (c # cs)) = JStr [c]"
| "get_index0 (JObj kvs) = obj_get kvs ''0''"
| "get_index0 v = JUndefined"

text \<open>\<^verbatim>\<open>String.prototype.trim\<close> strips white space and line terminators from
  both ends; below code unit 256 these are TAB, LF, VT, FF, CR, SP and NBSP.\<close>

definition js_whitespace :: "char \<Rightarrow> bool" where
  "js_whitespace c = ((of_char c :: nat) \<in> {9, 10, 11, 12, 13, 32, 160})"

definition js_trim :: "string \<Rightarrow> string" where
  "js_trim s = rev (dropWhile js_whitespace (rev (dropWhile js_whitespace s)))"

text \<open>The guard \<^verbatim>\<open>!text || text.trim() === ''\<close> that opens every stage but the
  batch normalizer.  A truthy value that is not a string has no \<^verbatim>\<open>trim\<close> method, and
  the call throws.\<close>

definition text_is_blank :: "jsval \<Rightarrow> error + bool" where
  "text_is_blank v =
     (if \<not> truthy v then Inr True
      else (case v of JStr s \<Rightarrow> Inr (js_trim s = []) | _ \<Rightarrow> Inl TypeError))"

section \<open>The platform and the world\<close>

text \<open>
  A JSON schema as the stages write it: the declared properties with their admitted types.
  Every stage lists all its properties as required and sets
  \<^verbatim>\<open>additionalProperties: false\<close>.
\<close>

datatype jtype = TNumber | TInteger | TString | TNull

text \<open>What a spreadsheet cell holds: text, a number or a boolean (dates are left out).  An
  empty cell reads as the empty string.\<close>

datatype cell = CStr string | CNum rat | CBool bool

type_synonym schema = "(string \<times> jtype list) list"

text \<open>One request to the classification service.  The instruction text of a prompt is a
  fixed template; the request keeps the template's first sentence and the values
  interpolated into it, in order.\<close>

record request =
  schemaName :: string
  schema :: schema
  template :: string
  inputs :: "jsval list"

record http_response =
  responseCode :: int
  contentText :: string

text \<open>
  What the Apps Script runtime and the outside services provide.  \<open>fetch\<close> is
  \<^verbatim>\<open>UrlFetchApp.fetch\<close>: its answer may depend on how many requests went before, and
  it may throw.  \<open>JSON_parse\<close> is \<^verbatim>\<open>JSON.parse\<close> applied to a value (\<open>None\<close>: a
  SyntaxError).  \<open>getText\<close> is
  \<^verbatim>\<open>DocumentApp.openById(id).getBody().getText()\<close>.  \<open>text_match\<close> is
  \<^verbatim>\<open>text.match(pattern)[1]\<close> for the pattern of a field label of
  \<^verbatim>\<open>extractRawFieldsFromDoc\<close> (\<open>None\<close>: no match).  \<open>getUuid n\<close> is the
  \<open>n\<close>-th identifier \<^verbatim>\<open>Utilities.getUuid()\<close> hands out, \<open>toISOString t\<close> and
  \<open>getFullYear t\<close> read a \<^verbatim>\<open>new Date()\<close> made at clock reading \<open>t\<close>.
  \<open>Number_toString\<close> and \<open>StringToNumber\<close> are the runtime's conversions between numbers
  and strings (\<open>None\<close>: \<^verbatim>\<open>NaN\<close>).  \<open>cell_text\<close> is the text a cell ends up
  with when a value that is no string, number, boolean, \<^verbatim>\<open>null\<close> or
  \<^verbatim>\<open>undefined\<close> is written to it.  The two script properties are \<open>None\<close> when
  unset; \<open>folders\<close> lists, for each subfolder of the master folder, the ids of its Google
  Docs files.
\<close>

record platform =
  getText :: "string \<Rightarrow> error + string"
  text_match :: "string \<Rightarrow> string \<Rightarrow> string option"
  fetch :: "nat \<Rightarrow> request \<Rightarrow> error + http_response"
  JSON_parse :: "jsval \<Rightarrow> jsval option"
  getUuid :: "nat \<Rightarrow> string"
  toISOString :: "nat \<Rightarrow> string"
  getFullYear :: "nat \<Rightarrow> int"
  Number_toString :: "rat \<Rightarrow> string"
  StringToNumber :: "string \<Rightarrow> rat option"
  cell_text :: "jsval \<Rightarrow> string"
  SPREADSHEET_ID :: "string option"
  MASTER_FOLDER_ID :: "string option"
  folders :: "string list list"

text \<open>
  The mutable state: the requests sent to the classification service so far, the number of
  identifiers handed out, the clock, and the grid of the sheet named "Companies" (\<open>None\<close>
  while the spreadsheet has no such sheet).  \<^verbatim>\<open>Logger.log\<close> only writes to the
  execution log and is left out.
\<close>

record world =
  fetch_log :: "request list"
  uuid_count :: nat
  clock :: nat
  sheet :: "cell list list option"

type_synonym 'a result = "(error + 'a) \<times> world"

section \<open>The classification call\<close>

text \<open>\<^verbatim>\<open>result.output.find(item => item.type === "message")\<close>: the callback reads
  \<^verbatim>\<open>item.type\<close> of each item up to the first hit, and throws on a
  \<^verbatim>\<open>null\<close> item.\<close>

fun find_message_item :: "jsval list \<Rightarrow> error + jsval" where
  "find_message_item [] = Inr JUndefined"
| "find_message_item (item # items) =
     (case get_prop item ''type'' of
        Inl e \<Rightarrow> Inl e
      | Inr t \<Rightarrow> if t = JStr ''message'' then Inr item else find_message_item items)"

text \<open>Only an array has a \<^verbatim>\<open>find\<close> method.\<close>

definition find_message :: "jsval \<Rightarrow> error + jsval" where
  "find_message res =
     (case get_prop res ''output'' of
        Inl e \<Rightarrow> Inl e
      | Inr out \<Rightarrow> (case out of JArr items \<Rightarrow> find_message_item items | _ \<Rightarrow> Inl TypeError))"

text \<open>What \<^verbatim>\<open>callOpenAIStructured\<close> makes of the service's answer, after
  \<^verbatim>\<open>UrlFetchApp.fetch\<close> has returned or thrown.\<close>

definition read_response :: "platform \<Rightarrow> error + http_response \<Rightarrow> error + jsval" where
  "read_response p answer =
     (case answer of
        Inl e \<Rightarrow> Inl e
      | Inr response \<Rightarrow>
          if responseCode response \<noteq> 200 then Inl (ApiError (responseCode response))
          else (case JSON_parse p (JStr (contentText response)) of
                  None \<Rightarrow> Inl SyntaxError
                | Some res \<Rightarrow>
                    (case find_message res of
                       Inl e \<Rightarrow> Inl e
                     | Inr message \<Rightarrow>
                         if \<not> truthy message then Inl InvalidResponseStructure
                         else (case get_prop message ''content'' of
                                 Inl e \<Rightarrow> Inl e
                               | Inr content \<Rightarrow>
                                   if \<not> truthy content \<or> \<not> truthy (get_index0 content)
                                   then Inl InvalidResponseStructure
                                   else (case get_prop (get_index0 content) ''text'' of
                                           Inl e \<Rightarrow> Inl e
                                         | Inr txt \<Rightarrow>
                                             (case JSON_parse p txt of
                                                None \<Rightarrow> Inl SyntaxError
                                              | Some payload \<Rightarrow> Inr payload))))))"

text \<open>The \<open>n\<close>-th call of the service with request \<open>req\<close>, as
  \<^verbatim>\<open>callOpenAIStructured\<close> sees it.\<close>

definition call_outcome :: "platform \<Rightarrow> nat \<Rightarrow> request \<Rightarrow> error + jsval" where
  "call_outcome p n req = read_response p (fetch p n req)"

text \<open>\<^verbatim>\<open>callOpenAIStructured(prompt, schema, schemaName)\<close>: every call is logged in
  the world; the \<^verbatim>\<open>catch\<close> block rethrows what it caught.\<close>

definition callOpenAIStructured :: "platform \<Rightarrow> request \<Rightarrow> world \<Rightarrow> jsval result" where
  "callOpenAIStructured p req w =
     (call_outcome p (length (fetch_log w)) req, w\<lparr>fetch_log := fetch_log w @ [req]\<rparr>)"

text \<open>Sequencing inside a \<^verbatim>\<open>try\<close> block: a throw skips the rest.\<close>

definition and_then :: "'a result \<Rightarrow> ('a \<Rightarrow> world \<Rightarrow> 'b result) \<Rightarrow> 'b result" where
  "and_then r f = (case r of (Inl e, w) \<Rightarrow> (Inl e, w) | (Inr x, w) \<Rightarrow> f x w)"

section \<open>The stages, first version of parse-company.js\<close>

definition acv_schema :: schema where
  "acv_schema = [(''acv'', [TNumber, TNull]), (''acv_2'', [TNumber, TNull])]"

definition customer_schema :: schema where
  "customer_schema =
     [(''customer_count'', [TInteger, TNull]), (''customer_count_2'', [TInteger, TNull])]"

definition churn_schema :: schema where
  "churn_schema = [(''logo_churn_annual'', [TNumber, TNull])]"

definition burn_schema :: schema where
  "burn_schema = [(''monthly_burn'', [TNumber, TNull])]"

definition valuation_schema :: schema where
  "valuation_schema = [(''last_round_valuation'', [TNumber, TNull])]"

definition not_provided :: "js_object \<Rightarrow> string \<Rightarrow> jsval" where
  "not_provided context k = js_or (obj_get context k) (JStr ''Not provided'')"

definition acv_request :: "jsval \<Rightarrow> js_object \<Rightarrow> request" where
  "acv_request acvRawText context =
     \<lparr>schemaName = ''acv_complexity_analysis'', schema = acv_schema,
      template = ''You are analyzing ACV (Annual Contract Value) data for venture capital investment analysis.'',
      inputs = [not_provided context ''revenue_notes'', not_provided context ''arr_run_rate'',
                not_provided context ''customer_count'', acvRawText]\<rparr>"

definition analyzeACVComplexity :: "platform \<Rightarrow> jsval \<Rightarrow> js_object \<Rightarrow> world \<Rightarrow> jsval result" where
  "analyzeACVComplexity p acvRawText context w =
     (case text_is_blank acvRawText of
        Inl e \<Rightarrow> (Inl e, w)
      | Inr True \<Rightarrow> (Inr (JObj [(''acv'', JNull), (''acv_2'', JNull)]), w)
      | Inr False \<Rightarrow> callOpenAIStructured p (acv_request acvRawText context) w)"

definition customer_request :: "jsval \<Rightarrow> js_object \<Rightarrow> request" where
  "customer_request customerRawText context =
     \<lparr>schemaName = ''customer_complexity_analysis'', schema = customer_schema,
      template = ''You are analyzing customer count data for venture capital investment analysis.'',
      inputs = [not_provided context ''customer_notes'', not_provided context ''acv'',
                not_provided context ''revenue_notes'', customerRawText]\<rparr>"

definition analyzeCustomerComplexity :: "platform \<Rightarrow> jsval \<Rightarrow> js_object \<Rightarrow> world \<Rightarrow> jsval result" where
  "analyzeCustomerComplexity p customerRawText context w =
     (case text_is_blank customerRawText of
        Inl e \<Rightarrow> (Inl e, w)
      | Inr True \<Rightarrow> (Inr (JObj [(''customer_count'', JNull), (''customer_count_2'', JNull)]), w)
      | Inr False \<Rightarrow> callOpenAIStructured p (customer_request customerRawText context) w)"

text \<open>The three single-field stages end alike: they read one property of the parsed
  payload and wrap it in a fresh object.\<close>

definition rewrap :: "string \<Rightarrow> jsval \<Rightarrow> world \<Rightarrow> jsval result" where
  "rewrap k res w =
     (case get_prop res k of Inl e \<Rightarrow> (Inl e, w) | Inr v \<Rightarrow> (Inr (JObj [(k, v)]), w))"

definition churn_request :: "jsval \<Rightarrow> request" where
  "churn_request churnRawText =
     \<lparr>schemaName = ''churn_temporal_conversion'', schema = churn_schema,
      template = ''You are converting logo churn rates to annual rates using proper temporal mathematics.'',
      inputs = [churnRawText]\<rparr>"

definition convertChurnToAnnual :: "platform \<Rightarrow> jsval \<Rightarrow> world \<Rightarrow> jsval result" where
  "convertChurnToAnnual p churnRawText w =
     (case text_is_blank churnRawText of
        Inl e \<Rightarrow> (Inl e, w)
      | Inr True \<Rightarrow> (Inr (JObj [(''logo_churn_annual'', JNull)]), w)
      | Inr False \<Rightarrow>
          and_then (callOpenAIStructured p (churn_request churnRawText) w)
            (rewrap ''logo_churn_annual''))"

definition burn_request :: "jsval \<Rightarrow> request" where
  "burn_request burnRawText =
     \<lparr>schemaName = ''monthly_burn_normalization'', schema = burn_schema,
      template = ''You are normalizing monthly burn rate data with special rules for qualitative descriptions.'',
      inputs = [burnRawText]\<rparr>"

definition normalizeMonthlyBurn :: "platform \<Rightarrow> jsval \<Rightarrow> world \<Rightarrow> jsval result" where
  "normalizeMonthlyBurn p burnRawText w =
     (case text_is_blank burnRawText of
        Inl e \<Rightarrow> (Inl e, w)
      | Inr True \<Rightarrow> (Inr (JObj [(''monthly_burn'', JNull)]), w)
      | Inr False \<Rightarrow>
          and_then (callOpenAIStructured p (burn_request burnRawText) w)
            (rewrap ''monthly_burn''))"

definition valuation_request :: "jsval \<Rightarrow> js_object \<Rightarrow> request" where
  "valuation_request fundingNotesText context =
     \<lparr>schemaName = ''valuation_extraction'', schema = valuation_schema,
      template = ''You are extracting post-money valuation data from venture capital funding notes.'',
      inputs = [not_provided context ''raised'', not_provided context ''raising'',
                fundingNotesText]\<rparr>"

definition extractLastRoundValuation :: "platform \<Rightarrow> jsval \<Rightarrow> js_object \<Rightarrow> world \<Rightarrow> jsval result" where
  "extractLastRoundValuation p fundingNotesText context w =
     (case text_is_blank fundingNotesText of
        Inl e \<Rightarrow> (Inl e, w)
      | Inr True \<Rightarrow> (Inr (JObj [(''last_round_valuation'', JNull)]), w)
      | Inr False \<Rightarrow>
          and_then (callOpenAIStructured p (valuation_request fundingNotesText context) w)
            (rewrap ''last_round_valuation''))"

text \<open>The labelled lines \<^verbatim>\<open>extractRawFieldsFromDoc\<close> looks for, one pattern
  each, in the order of \<^verbatim>\<open>fieldPatterns\<close>.\<close>

definition field_labels :: "string list" where
  "field_labels =
     [''Company Name'', ''URL'', ''Description'', ''Location'', ''Year founded'', ''Team size'',
      ''ARR Run Rate'', ''2024 rev'', ''2023 rev'', ''2022 rev'', ''Revenue Notes'',
      ''% SaaS Recurring'', ''Gross Margin'', ''# of Customers'', ''Customer Notes'',
      ''Competition'', ''ACV'', ''Logo Churn Annual'', ''Net Revenue Retention'',
      ''Blended CAC'', ''Payback Period'', ''Monthly Burn'', ''Cash'', ''Runway'', ''Raising'',
      ''Raised'', ''Active round / fundraise Notes'', ''Other Funding Notes'', ''Good'',
      ''Challenges'', ''Needs Action'']"

text \<open>\<^verbatim>\<open>rawFields[fieldName] = match ? match[1].trim() : ''\<close>, for every label.
  Opening or reading the document may throw.\<close>

definition extractRawFieldsFromDoc :: "platform \<Rightarrow> string \<Rightarrow> error + (string \<times> string) list" where
  "extractRawFieldsFromDoc p docId =
     (case getText p docId of
        Inl e \<Rightarrow> Inl e
      | Inr text \<Rightarrow>
          Inr (map (\<lambda>fieldName.
                 (fieldName, (case text_match p fieldName text of
                                Some m \<Rightarrow> js_trim m
                              | None \<Rightarrow> [])))
               field_labels))"

text \<open>\<^verbatim>\<open>rawFields[k] || ''\<close> on the extracted fields, all of them strings.\<close>

definition raw_text :: "(string \<times> string) list \<Rightarrow> string \<Rightarrow> string" where
  "raw_text rawFields k = (case map_of rawFields k of Some s \<Rightarrow> s | None \<Rightarrow> [])"

definition raw_object :: "(string \<times> string) list \<Rightarrow> jsval" where
  "raw_object rawFields = JObj (map (\<lambda>(k, s). (k, JStr s)) rawFields)"

definition simple_schema :: schema where
  "simple_schema =
     [(''arr_run_rate'', [TNumber, TNull]), (''carr'', [TNumber, TNull]),
      (''revenue_2024'', [TNumber, TNull]), (''revenue_2023'', [TNumber, TNull]),
      (''revenue_2022'', [TNumber, TNull]), (''cash'', [TNumber, TNull]),
      (''runway'', [TNumber, TNull]), (''raising'', [TNumber, TNull]),
      (''raised'', [TNumber, TNull]), (''cac'', [TNumber, TNull]),
      (''payback_period'', [TNumber, TNull]), (''ltv_to_cac'', [TNumber, TNull]),
      (''gross_margin'', [TNumber, TNull]), (''saas_recurring_percent'', [TNumber, TNull]),
      (''nrr'', [TNumber, TNull]), (''team_size'', [TInteger, TNull]),
      (''year_founded'', [TInteger, TNull]), (''location'', [TString, TNull]),
      (''description'', [TString, TNull]), (''competition'', [TString, TNull]),
      (''revenue_notes'', [TString, TNull]), (''funding_notes'', [TString, TNull]),
      (''good'', [TString, TNull]), (''challenges'', [TString, TNull]),
      (''needs_action'', [TString, TNull])]"

definition simple_request :: "schema \<Rightarrow> jsval \<Rightarrow> request" where
  "simple_request sch source =
     \<lparr>schemaName = ''simple_fields_batch'', schema = sch,
      template = ''You are a financial data analyst normalizing venture capital due diligence notes into a structured database.'',
      inputs = [source]\<rparr>"

definition parseSimpleFieldsBatch :: "platform \<Rightarrow> jsval \<Rightarrow> world \<Rightarrow> jsval result" where
  "parseSimpleFieldsBatch p rawFields w =
     callOpenAIStructured p (simple_request simple_schema rawFields) w"

text \<open>An object literal whose properties are read off stage outputs, \<^verbatim>\<open>k: source.k\<close>,
  evaluated in order; the first read of a \<^verbatim>\<open>null\<close> or \<^verbatim>\<open>undefined\<close>
  source throws.\<close>

fun read_props :: "(jsval \<times> string) list \<Rightarrow> error + js_object" where
  "read_props [] = Inr []"
| "read_props ((source, k) # rest) =
     (case get_prop source k of
        Inl e \<Rightarrow> Inl e
      | Inr v \<Rightarrow> (case read_props rest of Inl e \<Rightarrow> Inl e | Inr kvs \<Rightarrow> Inr ((k, v) # kvs)))"

definition doc_url :: "string \<Rightarrow> string" where
  "doc_url docId = ''https://docs.google.com/document/d/'' @ docId"

definition assembleCompleteRecord ::
  "platform \<Rightarrow> string \<Rightarrow> jsval \<Rightarrow> jsval \<Rightarrow> jsval \<Rightarrow> jsval \<Rightarrow> jsval \<Rightarrow> jsval \<Rightarrow> jsval \<Rightarrow> world
     \<Rightarrow> js_object result" where
  "assembleCompleteRecord p docId rawFields simpleFields acvData customerData churnData
       burnData valuationData w =
     (let w' = w\<lparr>uuid_count := uuid_count w + 1\<rparr> in
      (case get_prop rawFields ''Company Name'' of
         Inl e \<Rightarrow> (Inl e, w')
       | Inr name \<Rightarrow>
           (case read_props
                   [(simpleFields, ''arr_run_rate''), (simpleFields, ''carr''),
                    (simpleFields, ''revenue_2024''), (simpleFields, ''revenue_2023''),
                    (simpleFields, ''revenue_2022''), (burnData, ''monthly_burn''),
                    (simpleFields, ''cash''), (simpleFields, ''runway''),
                    (simpleFields, ''raising''), (simpleFields, ''raised''),
                    (valuationData, ''last_round_valuation''),
                    (acvData, ''acv''), (acvData, ''acv_2''),
                    (customerData, ''customer_count''), (customerData, ''customer_count_2''),
                    (churnData, ''logo_churn_annual''),
                    (simpleFields, ''cac''), (simpleFields, ''payback_period''),
                    (simpleFields, ''ltv_to_cac''), (simpleFields, ''gross_margin''),
                    (simpleFields, ''saas_recurring_percent''), (simpleFields, ''nrr''),
                    (simpleFields, ''team_size''), (simpleFields, ''year_founded''),
                    (simpleFields, ''location''), (simpleFields, ''description''),
                    (simpleFields, ''competition''), (simpleFields, ''revenue_notes''),
                    (simpleFields, ''funding_notes''), (simpleFields, ''good''),
                    (simpleFields, ''challenges''), (simpleFields, ''needs_action'')] of
              Inl e \<Rightarrow> (Inl e, w')
            | Inr metrics \<Rightarrow>
                (Inr ([(''id'', JStr (getUuid p (uuid_count w))),
                       (''company_name'', js_or name JNull),
                       (''doc_url'', JStr (doc_url docId)),
                       (''date_created'', JStr (toISOString p (clock w)))] @ metrics), w'))))"

definition parseCompanyFromDoc :: "platform \<Rightarrow> string \<Rightarrow> world \<Rightarrow> js_object result" where
  "parseCompanyFromDoc p docId w =
     (case extractRawFieldsFromDoc p docId of
        Inl e \<Rightarrow> (Inl e, w)
      | Inr rawFields \<Rightarrow>
          and_then (parseSimpleFieldsBatch p (raw_object rawFields) w) (\<lambda>simpleFields w.
          and_then (analyzeACVComplexity p (JStr (raw_text rawFields ''ACV''))
                      [(''revenue_notes'', JStr (raw_text rawFields ''Revenue Notes'')),
                       (''arr_run_rate'', JStr (raw_text rawFields ''ARR Run Rate'')),
                       (''customer_count'', JStr (raw_text rawFields ''# of Customers''))] w)
            (\<lambda>acvData w.
          and_then (analyzeCustomerComplexity p (JStr (raw_text rawFields ''# of Customers''))
                      [(''customer_notes'', JStr (raw_text rawFields ''Customer Notes'')),
                       (''acv'', JStr (raw_text rawFields ''ACV'')),
                       (''revenue_notes'', JStr (raw_text rawFields ''Revenue Notes''))] w)
            (\<lambda>customerData w.
          and_then (convertChurnToAnnual p (JStr (raw_text rawFields ''Logo Churn Annual'')) w)
            (\<lambda>churnData w.
          and_then (normalizeMonthlyBurn p (JStr (raw_text rawFields ''Monthly Burn'')) w)
            (\<lambda>burnData w.
          and_then (extractLastRoundValuation p
                      (JStr (raw_text rawFields ''Active round / fundraise Notes'' @ '' '' @
                             raw_text rawFields ''Other Funding Notes''))
                      [(''raised'', JStr (raw_text rawFields ''Raised'')),
                       (''raising'', JStr (raw_text rawFields ''Raising''))] w)
            (\<lambda>valuationData w.
          assembleCompleteRecord p docId (raw_object rawFields) simpleFields acvData
            customerData churnData burnData valuationData w)))))))"

section \<open>The stages, second version of parse-company.js\<close>

text \<open>The second version hands the whole document text to every stage; the batch normalizer
  also extracts the company's name and URL.\<close>

definition simple_schema_v2 :: schema where
  "simple_schema_v2 =
     [(''company_name'', [TString, TNull]), (''url'', [TString, TNull])] @ simple_schema"

definition parseSimpleFieldsBatch_v2 :: "platform \<Rightarrow> jsval \<Rightarrow> world \<Rightarrow> jsval result" where
  "parseSimpleFieldsBatch_v2 p docText w =
     callOpenAIStructured p (simple_request simple_schema_v2 docText) w"

definition acv_request_v2 :: "jsval \<Rightarrow> request" where
  "acv_request_v2 docText =
     \<lparr>schemaName = ''acv_complexity_analysis'', schema = acv_schema,
      template = ''You are analyzing ACV (Annual Contract Value) data for venture capital investment analysis.'',
      inputs = [docText]\<rparr>"

definition analyzeACVComplexity_v2 :: "platform \<Rightarrow> jsval \<Rightarrow> world \<Rightarrow> jsval result" where
  "analyzeACVComplexity_v2 p docText w =
     (case text_is_blank docText of
        Inl e \<Rightarrow> (Inl e, w)
      | Inr True \<Rightarrow> (Inr (JObj [(''acv'', JNull), (''acv_2'', JNull)]), w)
      | Inr False \<Rightarrow> callOpenAIStructured p (acv_request_v2 docText) w)"

definition customer_request_v2 :: "jsval \<Rightarrow> request" where
  "customer_request_v2 docText =
     \<lparr>schemaName = ''customer_complexity_analysis'', schema = customer_schema,
      template = ''You are analyzing customer count data for venture capital investment analysis.'',
      inputs = [docText]\<rparr>"

definition analyzeCustomerComplexity_v2 :: "platform \<Rightarrow> jsval \<Rightarrow> world \<Rightarrow> jsval result" where
  "analyzeCustomerComplexity_v2 p docText w =
     (case text_is_blank docText of
        Inl e \<Rightarrow> (Inl e, w)
      | Inr True \<Rightarrow> (Inr (JObj [(''customer_count'', JNull), (''customer_count_2'', JNull)]), w)
      | Inr False \<Rightarrow> callOpenAIStructured p (customer_request_v2 docText) w)"

definition churn_request_v2 :: "jsval \<Rightarrow> request" where
  "churn_request_v2 docText =
     \<lparr>schemaName = ''churn_temporal_conversion'', schema = churn_schema,
      template = ''You are converting a logo churn rate to an annual rate using proper temporal mathematics.'',
      inputs = [docText]\<rparr>"

definition convertChurnToAnnual_v2 :: "platform \<Rightarrow> jsval \<Rightarrow> world \<Rightarrow> jsval result" where
  "convertChurnToAnnual_v2 p docText w =
     (case text_is_blank docText of
        Inl e \<Rightarrow> (Inl e, w)
      | Inr True \<Rightarrow> (Inr (JObj [(''logo_churn_annual'', JNull)]), w)
      | Inr False \<Rightarrow>
          and_then (callOpenAIStructured p (churn_request_v2 docText) w)
            (rewrap ''logo_churn_annual''))"

definition burn_request_v2 :: "jsval \<Rightarrow> request" where
  "burn_request_v2 docText =
     \<lparr>schemaName = ''monthly_burn_normalization'', schema = burn_schema,
      template = ''You are normalizing monthly burn rate data, with special rules for qualitative descriptions.'',
      inputs = [docText]\<rparr>"

definition normalizeMonthlyBurn_v2 :: "platform \<Rightarrow> jsval \<Rightarrow> world \<Rightarrow> jsval result" where
  "normalizeMonthlyBurn_v2 p docText w =
     (case text_is_blank docText of
        Inl e \<Rightarrow> (Inl e, w)
      | Inr True \<Rightarrow> (Inr (JObj [(''monthly_burn'', JNull)]), w)
      | Inr False \<Rightarrow>
          and_then (callOpenAIStructured p (burn_request_v2 docText) w)
            (rewrap ''monthly_burn''))"

definition valuation_request_v2 :: "jsval \<Rightarrow> request" where
  "valuation_request_v2 docText =
     \<lparr>schemaName = ''valuation_extraction'', schema = valuation_schema,
      template = ''You are extracting post-money valuation data from venture capital funding notes.'',
      inputs = [docText]\<rparr>"

definition extractLastRoundValuation_v2 :: "platform \<Rightarrow> jsval \<Rightarrow> world \<Rightarrow> jsval result" where
  "extractLastRoundValuation_v2 p docText w =
     (case text_is_blank docText of
        Inl e \<Rightarrow> (Inl e, w)
      | Inr True \<Rightarrow> (Inr (JObj [(''last_round_valuation'', JNull)]), w)
      | Inr False \<Rightarrow>
          and_then (callOpenAIStructured p (valuation_request_v2 docText) w)
            (rewrap ''last_round_valuation''))"

definition assembleCompleteRecord_v2 ::
  "platform \<Rightarrow> string \<Rightarrow> jsval \<Rightarrow> jsval \<Rightarrow> jsval \<Rightarrow> jsval \<Rightarrow> jsval \<Rightarrow> jsval \<Rightarrow> world
     \<Rightarrow> js_object result" where
  "assembleCompleteRecord_v2 p docId simpleFields acvData customerData churnData burnData
       valuationData w =
     (let w' = w\<lparr>uuid_count := uuid_count w + 1\<rparr> in
      (case get_prop simpleFields ''company_name'' of
         Inl e \<Rightarrow> (Inl e, w')
       | Inr name \<Rightarrow>
           (case read_props
                   [(simpleFields, ''arr_run_rate''), (simpleFields, ''carr''),
                    (simpleFields, ''revenue_2024''), (simpleFields, ''revenue_2023''),
                    (simpleFields, ''revenue_2022''), (burnData, ''monthly_burn''),
                    (simpleFields, ''cash''), (simpleFields, ''runway''),
                    (simpleFields, ''raising''), (simpleFields, ''raised''),
                    (valuationData, ''last_round_valuation''),
                    (acvData, ''acv''), (acvData, ''acv_2''),
                    (customerData, ''customer_count''), (customerData, ''customer_count_2''),
                    (churnData, ''logo_churn_annual''),
                    (simpleFields, ''cac''), (simpleFields, ''payback_period''),
                    (simpleFields, ''ltv_to_cac''), (simpleFields, ''gross_margin''),
                    (simpleFields, ''saas_recurring_percent''), (simpleFields, ''nrr''),
                    (simpleFields, ''team_size''), (simpleFields, ''year_founded''),
                    (simpleFields, ''location''), (simpleFields, ''description''),
                    (simpleFields, ''url''),
                    (simpleFields, ''competition''), (simpleFields, ''revenue_notes''),
                    (simpleFields, ''funding_notes''), (simpleFields, ''good''),
                    (simpleFields, ''challenges''), (simpleFields, ''needs_action'')] of
              Inl e \<Rightarrow> (Inl e, w')
            | Inr metrics \<Rightarrow>
                (Inr ([(''id'', JStr (getUuid p (uuid_count w))),
                       (''company_name'', name),
                       (''doc_url'', JStr (doc_url docId)),
                       (''date_created'', JStr (toISOString p (clock w)))] @ metrics), w'))))"

definition parseCompanyFromDoc_v2 :: "platform \<Rightarrow> string \<Rightarrow> world \<Rightarrow> js_object result" where
  "parseCompanyFromDoc_v2 p docId w =
     (case getText p docId of
        Inl e \<Rightarrow> (Inl e, w)
      | Inr docText \<Rightarrow>
          and_then (parseSimpleFieldsBatch_v2 p (JStr docText) w) (\<lambda>simpleFields w.
          and_then (analyzeACVComplexity_v2 p (JStr docText) w) (\<lambda>acvData w.
          and_then (analyzeCustomerComplexity_v2 p (JStr docText) w) (\<lambda>customerData w.
          and_then (convertChurnToAnnual_v2 p (JStr docText) w) (\<lambda>churnData w.
          and_then (normalizeMonthlyBurn_v2 p (JStr docText) w) (\<lambda>burnData w.
          and_then (extractLastRoundValuation_v2 p (JStr docText) w) (\<lambda>valuationData w.
          assembleCompleteRecord_v2 p docId simpleFields acvData customerData churnData
            burnData valuationData w)))))))"

section \<open>The sheet and save-to-db.js\<close>

text \<open>
  A sheet is a grid of cells without bounds; the model keeps the rows that were ever written,
  each as far as it was written, and every other cell is empty.  Rows and columns count
  from 1.  Text is stored as it is written (the spreadsheet's reading of number-like or
  date-like text is not modelled).
\<close>

type_synonym grid = "cell list list"

definition blank :: cell where
  "blank = CStr []"

fun cell_value :: "cell \<Rightarrow> jsval" where
  "cell_value (CStr s) = JStr s"
| "cell_value (CNum q) = JNum q"
| "cell_value (CBool b) = JBool b"

text \<open>Writing \<^verbatim>\<open>null\<close> or \<^verbatim>\<open>undefined\<close> empties the cell.\<close>

fun to_cell :: "platform \<Rightarrow> jsval \<Rightarrow> cell" where
  "to_cell p JUndefined = blank"
| "to_cell p JNull = blank"
| "to_cell p (JStr s) = CStr s"
| "to_cell p (JNum q) = CNum q"
| "to_cell p (JBool b) = CBool b"
| "to_cell p v = CStr (cell_text p v)"

text \<open>The position of the last element with content, 0 when there is none.\<close>

fun last_pos :: "('a \<Rightarrow> bool) \<Rightarrow> 'a list \<Rightarrow> nat" where
  "last_pos P [] = 0"
| "last_pos P (x # xs) =
     (let n = last_pos P xs in if n = 0 then (if P x then 1 else 0) else Suc n)"

definition has_content :: "cell list \<Rightarrow> bool" where
  "has_content row = list_ex (\<lambda>c. c \<noteq> blank) row"

definition getLastRow :: "grid \<Rightarrow> nat" where
  "getLastRow g = last_pos has_content g"

definition getLastColumn :: "grid \<Rightarrow> nat" where
  "getLastColumn g = fold (\<lambda>row m. max m (last_pos (\<lambda>c. c \<noteq> blank) row)) g 0"

definition cell_at :: "grid \<Rightarrow> nat \<Rightarrow> nat \<Rightarrow> cell" where
  "cell_at g r c =
     (if 1 \<le> r \<and> r \<le> length g \<and> 1 \<le> c \<and> c \<le> length (g ! (r - 1))
      then g ! (r - 1) ! (c - 1) else blank)"

text \<open>\<^verbatim>\<open>sheet.getRange(row, column, numRows, numColumns).getValues()\<close>; a range
  needs a positive start and extent.\<close>

definition getValues :: "grid \<Rightarrow> nat \<Rightarrow> nat \<Rightarrow> nat \<Rightarrow> nat \<Rightarrow> error + cell list list" where
  "getValues g row col numRows numColumns =
     (if row < 1 \<or> col < 1 \<or> numRows < 1 \<or> numColumns < 1
      then Inl (ServiceException ''The coordinates or dimensions of the range are invalid.'')
      else Inr (map (\<lambda>r. map (\<lambda>c. cell_at g r c) [col ..< col + numColumns])
                  [row ..< row + numRows]))"

text \<open>Row \<open>row\<close> with its first cells overwritten by \<open>vals\<close>.\<close>

definition write_row :: "platform \<Rightarrow> grid \<Rightarrow> nat \<Rightarrow> jsval list \<Rightarrow> grid" where
  "write_row p g row vals =
     (let g' = g @ replicate (row - length g) []
      in g'[row - 1 := map (to_cell p) vals @ drop (length vals) (g' ! (row - 1))])"

text \<open>\<^verbatim>\<open>sheet.getRange(row, 1, 1, vals.length).setValues([vals])\<close>.\<close>

definition setRowValues :: "platform \<Rightarrow> grid \<Rightarrow> nat \<Rightarrow> jsval list \<Rightarrow> error + grid" where
  "setRowValues p g row vals =
     (if row < 1 \<or> length vals < 1
      then Inl (ServiceException ''The coordinates or dimensions of the range are invalid.'')
      else Inr (write_row p g row vals))"

text \<open>\<^verbatim>\<open>sheet.appendRow(vals)\<close> writes below the last row that has content.\<close>

definition appendRow :: "platform \<Rightarrow> grid \<Rightarrow> jsval list \<Rightarrow> grid" where
  "appendRow p g vals = write_row p g (Suc (getLastRow g)) vals"

definition getHeaders :: "grid \<Rightarrow> error + cell list" where
  "getHeaders g =
     (if getLastRow g = 0 then Inr []
      else (case getValues g 1 1 1 (getLastColumn g) of
              Inl e \<Rightarrow> Inl e
            | Inr rows \<Rightarrow> Inr (concat (take 1 rows))))"

text \<open>\<^verbatim>\<open>setHeaders\<close> writes the header row; freezing it changes no cell.\<close>

definition setHeaders :: "platform \<Rightarrow> grid \<Rightarrow> string list \<Rightarrow> error + grid" where
  "setHeaders p g headers = setRowValues p g 1 (map JStr headers)"

text \<open>\<^verbatim>\<open>===\<close> between a value read from a cell and any value.\<close>

fun strict_equals :: "cell \<Rightarrow> jsval \<Rightarrow> bool" where
  "strict_equals (CStr s) (JStr t) = (s = t)"
| "strict_equals (CNum q) (JNum r) = (q = r)"
| "strict_equals (CBool a) (JBool b) = (a = b)"
| "strict_equals c v = False"

text \<open>\<^verbatim>\<open>Array.prototype.indexOf\<close>: the first index, from 0, or -1.\<close>

fun indexOf :: "cell list \<Rightarrow> jsval \<Rightarrow> int" where
  "indexOf [] v = - 1"
| "indexOf (c # cs) v =
     (if strict_equals c v then 0
      else (let i = indexOf cs v in if i < 0 then - 1 else i + 1))"

text \<open>The property name a header cell stands for in \<^verbatim>\<open>companyRecord[header]\<close>.\<close>

fun property_key :: "platform \<Rightarrow> cell \<Rightarrow> string" where
  "property_key p (CStr s) = s"
| "property_key p (CNum q) = Number_toString p q"
| "property_key p (CBool b) = (if b then ''true'' else ''false'')"

definition row_of_record :: "platform \<Rightarrow> cell list \<Rightarrow> js_object \<Rightarrow> jsval list" where
  "row_of_record p headers companyRecord =
     map (\<lambda>header. if obj_get companyRecord (property_key p header) \<noteq> JUndefined
                    then obj_get companyRecord (property_key p header) else JNull) headers"

text \<open>
  \<^verbatim>\<open>Object.keys(o)\<close>: first the keys that are array indices (the decimal numerals
  of the integers from 0 to 4294967294, without leading zeros) in ascending order, then the
  other keys in the order in which they were first set.
\<close>

definition digit_value :: "char \<Rightarrow> int" where
  "digit_value c = of_char c - 48"

definition index_value :: "string \<Rightarrow> int" where
  "index_value s = foldl (\<lambda>n c. 10 * n + digit_value c) 0 s"

definition is_array_index :: "string \<Rightarrow> bool" where
  "is_array_index s =
     (s \<noteq> [] \<and> list_all (\<lambda>c. c \<in> set ''0123456789'') s
      \<and> (hd s \<noteq> CHR ''0'' \<or> length s = 1) \<and> index_value s \<le> 4294967294)"

fun own_keys :: "js_object \<Rightarrow> string list" where
  "own_keys [] = []"
| "own_keys ((k, v) # kvs) = k # filter (\<lambda>x. x \<noteq> k) (own_keys kvs)"

definition Object_keys :: "js_object \<Rightarrow> string list" where
  "Object_keys obj =
     sort_key index_value (filter is_array_index (own_keys obj))
       @ filter (\<lambda>k. \<not> is_array_index k) (own_keys obj)"

text \<open>
  \<^verbatim>\<open>saveCompanyRecord(companyRecord)\<close>.  \<^verbatim>\<open>getOrCreateSheet\<close> inserts an empty
  sheet when there is none.  \<^verbatim>\<open>headers\<close> is declared \<^verbatim>\<open>const\<close>: on a sheet
  without a header row the script writes the record's keys as headers and then assigns to
  \<^verbatim>\<open>headers\<close>, which throws a TypeError.  The \<^verbatim>\<open>catch\<close> block rethrows.
\<close>

definition saveCompanyRecord :: "platform \<Rightarrow> js_object \<Rightarrow> world \<Rightarrow> unit result" where
  "saveCompanyRecord p companyRecord w =
     (if SPREADSHEET_ID p = None \<or> SPREADSHEET_ID p = Some []
      then (Inl (ConfigError (''SPREADSHEET_ID is not set in Script Properties. '' @
                             ''Please configure the target Google Sheet ID.'')), w)
      else
        (let g = (case sheet w of None \<Rightarrow> [] | Some g \<Rightarrow> g) in
         (case getHeaders g of
            Inl e \<Rightarrow> (Inl e, w\<lparr>sheet := Some g\<rparr>)
          | Inr headers \<Rightarrow>
              if length headers = 0 then
                (case setHeaders p g (Object_keys companyRecord) of
                   Inl e \<Rightarrow> (Inl e, w\<lparr>sheet := Some g\<rparr>)
                 | Inr g' \<Rightarrow> (Inl TypeError, w\<lparr>sheet := Some g'\<rparr>))
              else
                (let newRow = row_of_record p headers companyRecord;
                     idColumnIndex = indexOf headers (JStr ''id'') + 1
                 in if idColumnIndex > 0 then
                      (case getValues g 2 (nat idColumnIndex) (getLastRow g) 1 of
                         Inl e \<Rightarrow> (Inl e, w\<lparr>sheet := Some g\<rparr>)
                       | Inr idColumn \<Rightarrow>
                           (let existingRowIndex =
                                  indexOf (concat idColumn) (obj_get companyRecord ''id'') + 2
                            in if existingRowIndex > 1 then
                                 (case setRowValues p g (nat existingRowIndex) newRow of
                                    Inl e \<Rightarrow> (Inl e, w\<lparr>sheet := Some g\<rparr>)
                                  | Inr g' \<Rightarrow> (Inr (), w\<lparr>sheet := Some g'\<rparr>))
                               else (Inr (), w\<lparr>sheet := Some (appendRow p g newRow)\<rparr>)))
                    else (Inr (), w\<lparr>sheet := Some (appendRow p g newRow)\<rparr>)))))"

section \<open>The batch driver, main.js\<close>

text \<open>The driver's two counters.\<close>

record counters =
  processedCount :: nat
  errorCount :: nat

text \<open>
  The body of the inner loop, for one document.  \<open>parse\<close> is either version of
  \<^verbatim>\<open>parseCompanyFromDoc\<close>.  What the \<^verbatim>\<open>try\<close> block throws is caught and
  counted; the effects it had before stay.
\<close>

definition process_document ::
  "(platform \<Rightarrow> string \<Rightarrow> world \<Rightarrow> js_object result) \<Rightarrow> platform \<Rightarrow> string
     \<Rightarrow> counters \<times> world \<Rightarrow> counters \<times> world" where
  "process_document parse p docId st =
     (case st of (n, w) \<Rightarrow>
        (case parse p docId w of
           (Inl e, w1) \<Rightarrow> (n\<lparr>errorCount := errorCount n + 1\<rparr>, w1)
         | (Inr companyRecord, w1) \<Rightarrow>
             if truthy (JObj companyRecord) \<and> truthy (obj_get companyRecord ''company_name'')
             then (case saveCompanyRecord p companyRecord w1 of
                     (Inl e, w2) \<Rightarrow> (n\<lparr>errorCount := errorCount n + 1\<rparr>, w2)
                   | (Inr u, w2) \<Rightarrow> (n\<lparr>processedCount := processedCount n + 1\<rparr>, w2))
             else (n, w1)))"

text \<open>The inner loop over the files of a folder, and the outer loop over the subfolders.\<close>

fun process_files ::
  "(platform \<Rightarrow> string \<Rightarrow> world \<Rightarrow> js_object result) \<Rightarrow> platform \<Rightarrow> string list
     \<Rightarrow> counters \<times> world \<Rightarrow> counters \<times> world" where
  "process_files parse p [] st = st"
| "process_files parse p (docId # files) st =
     process_files parse p files (process_document parse p docId st)"

fun process_folders ::
  "(platform \<Rightarrow> string \<Rightarrow> world \<Rightarrow> js_object result) \<Rightarrow> platform \<Rightarrow> string list list
     \<Rightarrow> counters \<times> world \<Rightarrow> counters \<times> world" where
  "process_folders parse p [] st = st"
| "process_folders parse p (folder # subfolders) st =
     process_folders parse p subfolders (process_files parse p folder st)"

text \<open>\<^verbatim>\<open>processAllCompaniesInMasterFolder()\<close>; the counters it logs at the end are
  its result here.\<close>

definition processAllCompaniesInMasterFolder ::
  "(platform \<Rightarrow> string \<Rightarrow> world \<Rightarrow> js_object result) \<Rightarrow> platform \<Rightarrow> world \<Rightarrow> counters result" where
  "processAllCompaniesInMasterFolder parse p w =
     (if MASTER_FOLDER_ID p = None \<or> MASTER_FOLDER_ID p = Some []
      then (Inl (ConfigError (''MASTER_FOLDER_ID is not set in Script Properties. '' @
                             ''Please configure the ID of the master Google Drive folder.'')), w)
      else (case process_folders parse p (folders p)
                   (\<lparr>processedCount = 0, errorCount = 0\<rparr>, w) of
              (n, w') \<Rightarrow> (Inr n, w')))"

text \<open>What became of one document, and of each document of a list in turn.\<close>

datatype outcome = Processed | Skipped | Failed

definition document_outcome ::
  "(platform \<Rightarrow> string \<Rightarrow> world \<Rightarrow> js_object result) \<Rightarrow> platform \<Rightarrow> string \<Rightarrow> world \<Rightarrow> outcome" where
  "document_outcome parse p docId w =
     (case parse p docId w of
        (Inl e, w1) \<Rightarrow> Failed
      | (Inr companyRecord, w1) \<Rightarrow>
          if truthy (JObj companyRecord) \<and> truthy (obj_get companyRecord ''company_name'')
          then (case saveCompanyRecord p companyRecord w1 of
                  (Inl e, w2) \<Rightarrow> Failed
                | (Inr u, w2) \<Rightarrow> Processed)
          else Skipped)"

fun outcomes ::
  "(platform \<Rightarrow> string \<Rightarrow> world \<Rightarrow> js_object result) \<Rightarrow> platform \<Rightarrow> string list
     \<Rightarrow> counters \<times> world \<Rightarrow> outcome list" where
  "outcomes parse p [] st = []"
| "outcomes parse p (docId # files) st =
     document_outcome parse p docId (snd st)
       # outcomes parse p files (process_document parse p docId st)"

section \<open>The database utility (validation, sanitizing, saving)\<close>

text \<open>\<^verbatim>\<open>ToString\<close>.  An array joins its elements with commas, \<^verbatim>\<open>null\<close> and
  \<^verbatim>\<open>undefined\<close> elements as empty text.  A parsed object answers
  \<^verbatim>\<open>[object Object]\<close>, unless it has a property of its own called
  \<^verbatim>\<open>toString\<close>, which is no function: then the conversion throws.\<close>

fun join_strings :: "(error + string) list \<Rightarrow> error + string" where
  "join_strings [] = Inr []"
| "join_strings [x] = x"
| "join_strings (x # y # ys) =
     (case x of
        Inl e \<Rightarrow> Inl e
      | Inr s \<Rightarrow> (case join_strings (y # ys) of Inl e \<Rightarrow> Inl e | Inr t \<Rightarrow> Inr (s @ '','' @ t)))"

fun js_toString :: "platform \<Rightarrow> jsval \<Rightarrow> error + string" where
  "js_toString p JUndefined = Inr ''undefined''"
| "js_toString p JNull = Inr ''null''"
| "js_toString p (JBool b) = Inr (if b then ''true'' else ''false'')"
| "js_toString p (JNum q) = Inr (Number_toString p q)"
| "js_toString p JNaN = Inr ''NaN''"
| "js_toString p (JStr s) = Inr s"
| "js_toString p (JArr xs) =
     join_strings (map (\<lambda>x. if x = JNull \<or> x = JUndefined then Inr [] else js_toString p x) xs)"
| "js_toString p (JObj kvs) =
     (if map_of kvs ''toString'' = None then Inr ''[object Object]'' else Inl TypeError)"

text \<open>\<^verbatim>\<open>ToNumber\<close>; \<open>None\<close> is \<^verbatim>\<open>NaN\<close>.  Arrays and objects go through their
  text.\<close>

fun js_toNumber :: "platform \<Rightarrow> jsval \<Rightarrow> error + rat option" where
  "js_toNumber p JUndefined = Inr None"
| "js_toNumber p JNull = Inr (Some 0)"
| "js_toNumber p (JBool b) = Inr (Some (if b then 1 else 0))"
| "js_toNumber p (JNum q) = Inr (Some q)"
| "js_toNumber p JNaN = Inr None"
| "js_toNumber p (JStr s) = Inr (StringToNumber p s)"
| "js_toNumber p v = (case js_toString p v of Inl e \<Rightarrow> Inl e | Inr s \<Rightarrow> Inr (StringToNumber p s))"

fun number_value :: "rat option \<Rightarrow> jsval" where
  "number_value None = JNaN"
| "number_value (Some q) = JNum q"

text \<open>\<^verbatim>\<open>typeof v === 'number'\<close> and \<^verbatim>\<open>Number.isInteger(v)\<close>.\<close>

fun is_number :: "jsval \<Rightarrow> bool" where
  "is_number (JNum q) = True"
| "is_number JNaN = True"
| "is_number v = False"

fun is_integer :: "jsval \<Rightarrow> bool" where
  "is_integer (JNum q) = (q = of_int \<lfloor>q\<rfloor>)"
| "is_integer v = False"

text \<open>\<^verbatim>\<open>v < lo || v > hi\<close> against two numbers: each comparison converts \<open>v\<close> to a
  number and is false on \<^verbatim>\<open>NaN\<close>.\<close>

definition out_of_range :: "platform \<Rightarrow> jsval \<Rightarrow> rat \<Rightarrow> rat \<Rightarrow> error + bool" where
  "out_of_range p v lo hi =
     (case js_toNumber p v of
        Inl e \<Rightarrow> Inl e
      | Inr None \<Rightarrow> Inr False
      | Inr (Some q) \<Rightarrow> Inr (q < lo \<or> q > hi))"

text \<open>A \<^verbatim>\<open>forEach\<close> whose callback pushes a message when a test holds, and may
  throw.\<close>

fun collect_errors :: "('a \<Rightarrow> error + bool) \<Rightarrow> ('a \<Rightarrow> string) \<Rightarrow> 'a list \<Rightarrow> error + string list" where
  "collect_errors bad msg [] = Inr []"
| "collect_errors bad msg (x # xs) =
     (case bad x of
        Inl e \<Rightarrow> Inl e
      | Inr b \<Rightarrow>
          (case collect_errors bad msg xs of
             Inl e \<Rightarrow> Inl e
           | Inr es \<Rightarrow> Inr ((if b then [msg x] else []) @ es)))"

text \<open>The messages of consecutive checks, up to the first check that throws.\<close>

fun concat_results :: "(error + string list) list \<Rightarrow> error + string list" where
  "concat_results [] = Inr []"
| "concat_results (r # rs) =
     (case r of
        Inl e \<Rightarrow> Inl e
      | Inr es \<Rightarrow> (case concat_results rs of Inl e \<Rightarrow> Inl e | Inr fs \<Rightarrow> Inr (es @ fs)))"

definition requiredFields :: "string list" where
  "requiredFields = [''id'', ''company_name'', ''doc_url'', ''date_created'']"

definition numericFields :: "string list" where
  "numericFields =
     [''arr_run_rate'', ''carr'', ''revenue_2024'', ''revenue_2023'', ''revenue_2022'',
      ''monthly_burn'', ''cash'', ''runway'', ''raising'', ''raised'', ''last_round_valuation'',
      ''acv'', ''acv_2'', ''customer_count'', ''customer_count_2'', ''logo_churn_annual'',
      ''cac'', ''payback_period'', ''ltv_to_cac'', ''gross_margin'', ''saas_recurring_percent'',
      ''nrr'']"

definition percentageFields :: "string list" where
  "percentageFields = [''gross_margin'', ''saas_recurring_percent'', ''logo_churn_annual'']"

definition integerFields :: "string list" where
  "integerFields = [''team_size'', ''year_founded'', ''customer_count'', ''customer_count_2'']"

definition required_missing :: "platform \<Rightarrow> js_object \<Rightarrow> string \<Rightarrow> error + bool" where
  "required_missing p companyRecord field =
     (if \<not> truthy (obj_get companyRecord field) then Inr True
      else (case js_toString p (obj_get companyRecord field) of
              Inl e \<Rightarrow> Inl e
            | Inr s \<Rightarrow> Inr (js_trim s = [])))"

definition numeric_invalid :: "platform \<Rightarrow> js_object \<Rightarrow> string \<Rightarrow> error + bool" where
  "numeric_invalid p companyRecord field =
     (let v = obj_get companyRecord field
      in if v \<noteq> JNull \<and> v \<noteq> JUndefined
         then (case js_toNumber p v of
                 Inl e \<Rightarrow> Inl e
               | Inr n \<Rightarrow> Inr (n = None \<or> \<not> is_number v))
         else Inr False)"

definition percentage_invalid :: "platform \<Rightarrow> js_object \<Rightarrow> string \<Rightarrow> error + bool" where
  "percentage_invalid p companyRecord field =
     (let v = obj_get companyRecord field
      in if v \<noteq> JNull \<and> v \<noteq> JUndefined then out_of_range p v 0 5 else Inr False)"

definition integer_invalid :: "js_object \<Rightarrow> string \<Rightarrow> error + bool" where
  "integer_invalid companyRecord field =
     (let v = obj_get companyRecord field
      in Inr (v \<noteq> JNull \<and> v \<noteq> JUndefined \<and> \<not> is_integer v))"

definition year_errors :: "platform \<Rightarrow> world \<Rightarrow> js_object \<Rightarrow> error + string list" where
  "year_errors p w companyRecord =
     (let y = obj_get companyRecord ''year_founded''
      in if y \<noteq> JNull \<and> y \<noteq> JUndefined
         then (let currentYear = getFullYear p (clock w)
               in (case out_of_range p y 1800 (of_int currentYear) of
                     Inl e \<Rightarrow> Inl e
                   | Inr b \<Rightarrow>
                       Inr (if b then [''Invalid year_founded: must be between 1800 and '' @
                                        Number_toString p (of_int currentYear)]
                            else [])))
         else Inr [])"

text \<open>The last two checks of \<^verbatim>\<open>validateCompanyRecord\<close>: a secondary segment value
  that is not \<^verbatim>\<open>null\<close> beside a primary that is \<^verbatim>\<open>null\<close>.\<close>

definition consistency_errors :: "js_object \<Rightarrow> string list" where
  "consistency_errors companyRecord =
     (if obj_get companyRecord ''acv_2'' \<noteq> JNull \<and> obj_get companyRecord ''acv'' = JNull
      then [''Invalid ACV data: acv_2 exists but primary acv is null''] else []) @
     (if obj_get companyRecord ''customer_count_2'' \<noteq> JNull \<and>
         obj_get companyRecord ''customer_count'' = JNull
      then [''Invalid customer count data: customer_count_2 exists but primary customer_count is null'']
      else [])"

record validation =
  isValid :: bool
  errors :: "string list"

definition validateCompanyRecord :: "platform \<Rightarrow> world \<Rightarrow> js_object \<Rightarrow> error + validation" where
  "validateCompanyRecord p w companyRecord =
     (case concat_results
             [collect_errors (required_missing p companyRecord)
                (\<lambda>field. ''Missing required field: '' @ field) requiredFields,
              collect_errors (numeric_invalid p companyRecord)
                (\<lambda>field. ''Invalid numeric value for field: '' @ field) numericFields,
              collect_errors (percentage_invalid p companyRecord)
                (\<lambda>field. ''Invalid percentage value for field '' @ field @
                          '': must be between 0 and 5 (as decimal)'') percentageFields,
              collect_errors (integer_invalid companyRecord)
                (\<lambda>field. ''Invalid integer value for field: '' @ field) integerFields,
              year_errors p w companyRecord,
              Inr (consistency_errors companyRecord)] of
        Inl e \<Rightarrow> Inl e
      | Inr es \<Rightarrow> Inr \<lparr>isValid = (length es = 0), errors = es\<rparr>)"

text \<open>Assignment to a property: in place when the object has it, at the end otherwise.\<close>

fun obj_set :: "js_object \<Rightarrow> string \<Rightarrow> jsval \<Rightarrow> js_object" where
  "obj_set [] k v = [(k, v)]"
| "obj_set ((k', v') # kvs) k v =
     (if k' = k then (k, v) # kvs else (k', v') # obj_set kvs k v)"

fun fold_checked :: "('a \<Rightarrow> 'b \<Rightarrow> error + 'b) \<Rightarrow> 'a list \<Rightarrow> 'b \<Rightarrow> error + 'b" where
  "fold_checked f [] acc = Inr acc"
| "fold_checked f (x # xs) acc =
     (case f x acc of Inl e \<Rightarrow> Inl e | Inr acc' \<Rightarrow> fold_checked f xs acc')"

definition sanitize_string :: "string \<Rightarrow> js_object \<Rightarrow> js_object" where
  "sanitize_string field sanitized =
     (case obj_get sanitized field of
        JStr s \<Rightarrow>
          if s \<noteq> [] then obj_set sanitized field (if js_trim s = [] then JNull else JStr (js_trim s))
          else sanitized
      | _ \<Rightarrow> sanitized)"

definition sanitize_number :: "platform \<Rightarrow> string \<Rightarrow> js_object \<Rightarrow> error + js_object" where
  "sanitize_number p field sanitized =
     (let v = obj_get sanitized field
      in if v \<noteq> JNull \<and> v \<noteq> JUndefined
         then (case js_toNumber p v of
                 Inl e \<Rightarrow> Inl e
               | Inr n \<Rightarrow> Inr (obj_set sanitized field (number_value n)))
         else Inr sanitized)"

text \<open>\<^verbatim>\<open>Math.round\<close> rounds halves up.\<close>

definition sanitize_integer :: "platform \<Rightarrow> string \<Rightarrow> js_object \<Rightarrow> error + js_object" where
  "sanitize_integer p field sanitized =
     (let v = obj_get sanitized field
      in if v \<noteq> JNull \<and> v \<noteq> JUndefined
         then (case js_toNumber p v of
                 Inl e \<Rightarrow> Inl e
               | Inr n \<Rightarrow>
                   Inr (obj_set sanitized field
                          (number_value (map_option (\<lambda>q. of_int \<lfloor>q + 1 / 2\<rfloor>) n))))
         else Inr sanitized)"

definition sanitizeCompanyRecord :: "platform \<Rightarrow> js_object \<Rightarrow> error + js_object" where
  "sanitizeCompanyRecord p companyRecord =
     (case fold_checked (sanitize_number p)
             [''arr_run_rate'', ''carr'', ''revenue_2024'', ''revenue_2023'', ''revenue_2022'',
              ''monthly_burn'', ''cash'', ''runway'', ''raising'', ''raised'',
              ''last_round_valuation'', ''acv'', ''acv_2'', ''logo_churn_annual'', ''cac'',
              ''payback_period'', ''ltv_to_cac'', ''gross_margin'', ''saas_recurring_percent'',
              ''nrr'']
             (fold sanitize_string
                [''company_name'', ''location'', ''description'', ''competition'',
                 ''revenue_notes'', ''funding_notes'', ''good'', ''challenges'', ''needs_action'']
                companyRecord) of
        Inl e \<Rightarrow> Inl e
      | Inr sanitized \<Rightarrow> fold_checked (sanitize_integer p) integerFields sanitized)"

text \<open>An integer as a template literal prints it, in decimal.\<close>

definition digit_char :: "int \<Rightarrow> char" where
  "digit_char d = char_of (48 + d)"

function show_digits :: "int \<Rightarrow> string" where
  "show_digits n =
     (if n < 10 then [digit_char n]
      else show_digits (n div 10) @ [digit_char (n mod 10)])"
  by pat_completeness auto
termination
  by (relation "measure nat") auto

definition show_int :: "int \<Rightarrow> string" where
  "show_int i = (if i < 0 then CHR ''-'' # show_digits (- i) else show_digits i)"

text \<open>What an error prints as (\<^verbatim>\<open>error.toString()\<close>); only used for the text of a
  failure result.  For an error the engine throws (a TypeError, a SyntaxError) the text is
  the error's name followed by a message of the engine's; the name alone stands for it.\<close>

fun error_toString :: "error \<Rightarrow> string" where
  "error_toString TypeError = ''TypeError''"
| "error_toString SyntaxError = ''SyntaxError''"
| "error_toString (ApiError c) = ''Error: OpenAI API error: '' @ show_int c"
| "error_toString InvalidResponseStructure = ''Error: Invalid API response structure''"
| "error_toString (ConfigError m) = ''Error: '' @ m"
| "error_toString (ServiceException m) = ''Exception: '' @ m"
| "error_toString (NotConfigured m) = ''Error: '' @ m"

text \<open>The result objects of the save functions and of the parse-and-save workflow: the
  fields the callers read.\<close>

record op_result =
  success :: bool
  error_text :: "string option"

record db_result = op_result +
  action :: "string option"
  validation_errors :: "string list"

text \<open>The database operations are placeholders that throw; the duplicate check is a
  placeholder that finds nothing.\<close>

definition insertNewCompany :: "js_object \<Rightarrow> error + jsval" where
  "insertNewCompany companyRecord =
     Inl (NotConfigured ''Database connection not yet configured. Please implement database-specific insert.'')"

definition performDatabaseUpdate :: "jsval \<Rightarrow> js_object \<Rightarrow> error + unit" where
  "performDatabaseUpdate companyId updatedRecord =
     Inl (NotConfigured ''Database connection not yet configured. Please implement database-specific update.'')"

definition findExistingCompany :: "js_object \<Rightarrow> js_object option" where
  "findExistingCompany companyRecord = None"

definition db_failure :: "string \<Rightarrow> string list \<Rightarrow> db_result" where
  "db_failure msg ds =
     \<lparr>success = False, error_text = Some msg, action = None, validation_errors = ds\<rparr>"

definition updateExistingCompany :: "platform \<Rightarrow> world \<Rightarrow> jsval \<Rightarrow> js_object \<Rightarrow> db_result" where
  "updateExistingCompany p w companyId updatedRecord =
     (case performDatabaseUpdate companyId
             (obj_set updatedRecord ''date_updated'' (JStr (toISOString p (clock w)))) of
        Inl e \<Rightarrow> db_failure (error_toString e) []
      | Inr u \<Rightarrow>
          \<lparr>success = True, error_text = None, action = Some ''updated'',
           validation_errors = []\<rparr>)"

definition saveCompanyToDatabase :: "platform \<Rightarrow> world \<Rightarrow> js_object \<Rightarrow> db_result" where
  "saveCompanyToDatabase p w companyRecord =
     (case validateCompanyRecord p w companyRecord of
        Inl e \<Rightarrow> db_failure (error_toString e) []
      | Inr validationResult \<Rightarrow>
          if \<not> isValid validationResult
          then db_failure ''Validation failed'' (errors validationResult)
          else (case findExistingCompany companyRecord of
                  Some existingCompany \<Rightarrow>
                    updateExistingCompany p w (obj_get existingCompany ''id'') companyRecord
                | None \<Rightarrow>
                    (case insertNewCompany companyRecord of
                       Inl e \<Rightarrow> db_failure (error_toString e) []
                     | Inr newId \<Rightarrow>
                         \<lparr>success = True, error_text = None, action = Some ''created'',
                          validation_errors = []\<rparr>)))"

text \<open>\<^verbatim>\<open>parseAndSaveCompany(docId)\<close>: everything happens inside one
  \<^verbatim>\<open>try\<close> block whose \<^verbatim>\<open>catch\<close> turns a throw into a failure result.\<close>

definition parseAndSaveCompany ::
  "(platform \<Rightarrow> string \<Rightarrow> world \<Rightarrow> js_object result) \<Rightarrow> platform \<Rightarrow> string \<Rightarrow> world
     \<Rightarrow> op_result \<times> world" where
  "parseAndSaveCompany parse p docId w =
     (case parse p docId w of
        (Inl e, w1) \<Rightarrow> (\<lparr>success = False, error_text = Some (error_toString e)\<rparr>, w1)
      | (Inr parsedData, w1) \<Rightarrow>
          (case sanitizeCompanyRecord p parsedData of
             Inl e \<Rightarrow> (\<lparr>success = False, error_text = Some (error_toString e)\<rparr>, w1)
           | Inr sanitizedData \<Rightarrow>
               (\<lparr>success = success (saveCompanyToDatabase p w1 sanitizedData),
                 error_text = None\<rparr>, w1)))"

record batch_results =
  total_count :: nat
  successful :: nat
  failed :: nat
  details :: "op_result list"

text \<open>The callback of \<^verbatim>\<open>docIds.forEach\<close> in \<^verbatim>\<open>batchParseAndSave\<close>, and the
  loop.\<close>

definition batch_step ::
  "(platform \<Rightarrow> string \<Rightarrow> world \<Rightarrow> js_object result) \<Rightarrow> platform \<Rightarrow> string
     \<Rightarrow> batch_results \<times> world \<Rightarrow> batch_results \<times> world" where
  "batch_step parse p docId st =
     (case st of (results, w) \<Rightarrow>
        (case parseAndSaveCompany parse p docId w of
           (r, w') \<Rightarrow>
             ((if success r then results\<lparr>successful := successful results + 1\<rparr>
               else results\<lparr>failed := failed results + 1\<rparr>)
                \<lparr>details := details results @ [r]\<rparr>, w')))"

definition batchParseAndSave ::
  "(platform \<Rightarrow> string \<Rightarrow> world \<Rightarrow> js_object result) \<Rightarrow> platform \<Rightarrow> string list \<Rightarrow> world
     \<Rightarrow> batch_results \<times> world" where
  "batchParseAndSave parse p docIds w =
     fold (batch_step parse p) docIds
       (\<lparr>total_count = length docIds, successful = 0, failed = 0, details = []\<rparr>, w)"

section \<open>Notions the properties are stated with\<close>

text \<open>A value matches a closed schema when it is an object with exactly the declared
  properties, each of an admitted type.\<close>

fun has_type :: "jsval \<Rightarrow> jtype \<Rightarrow> bool" where
  "has_type (JNum q) TNumber = True"
| "has_type (JNum q) TInteger = (q = of_int \<lfloor>q\<rfloor>)"
| "has_type (JStr s) TString = True"
| "has_type JNull TNull = True"
| "has_type v t = False"

definition conforms :: "schema \<Rightarrow> jsval \<Rightarrow> bool" where
  "conforms sch v =
     (case v of
        JObj kvs \<Rightarrow>
          distinct (map fst kvs) \<and> set (map fst kvs) = set (map fst sch) \<and>
          list_all (\<lambda>(k, ts). list_ex (has_type (obj_get kvs k)) ts) sch
      | _ \<Rightarrow> False)"

text \<open>A field of the record a run returned; \<open>None\<close> when the run threw.\<close>

definition field_of :: "js_object result \<Rightarrow> string \<Rightarrow> jsval option" where
  "field_of res k = (case fst res of Inl e \<Rightarrow> None | Inr companyRecord \<Rightarrow> Some (obj_get companyRecord k))"

text \<open>A record without the fields of the given names.\<close>

definition drop_fields :: "string list \<Rightarrow> js_object \<Rightarrow> js_object" where
  "drop_fields ks companyRecord = filter (\<lambda>(k, v). k \<notin> set ks) companyRecord"

text \<open>
  A run that started in world \<open>w\<close> and ended with \<open>res\<close> propagates classification failures
  when it only added requests to the log and the failure of any of them is the run's own
  failure.
\<close>

definition propagates :: "platform \<Rightarrow> world \<Rightarrow> 'a result \<Rightarrow> bool" where
  "propagates p w res =
     (\<exists>new. fetch_log (snd res) = fetch_log w @ new \<and>
        (\<forall>i < length new. \<forall>e.
           call_outcome p (length (fetch_log w) + i) (new ! i) = Inl e \<longrightarrow> fst res = Inl e))"

text \<open>The keys of an assembled record, in order, in the first and in the second version.\<close>

definition record_keys :: "string list" where
  "record_keys =
     [''id'', ''company_name'', ''doc_url'', ''date_created'',
      ''arr_run_rate'', ''carr'', ''revenue_2024'', ''revenue_2023'', ''revenue_2022'',
      ''monthly_burn'', ''cash'', ''runway'', ''raising'', ''raised'', ''last_round_valuation'',
      ''acv'', ''acv_2'', ''customer_count'', ''customer_count_2'', ''logo_churn_annual'',
      ''cac'', ''payback_period'', ''ltv_to_cac'', ''gross_margin'', ''saas_recurring_percent'',
      ''nrr'', ''team_size'', ''year_founded'', ''location'', ''description'', ''competition'',
      ''revenue_notes'', ''funding_notes'', ''good'', ''challenges'', ''needs_action'']"

definition record_keys_v2 :: "string list" where
  "record_keys_v2 =
     [''id'', ''company_name'', ''doc_url'', ''date_created'',
      ''arr_run_rate'', ''carr'', ''revenue_2024'', ''revenue_2023'', ''revenue_2022'',
      ''monthly_burn'', ''cash'', ''runway'', ''raising'', ''raised'', ''last_round_valuation'',
      ''acv'', ''acv_2'', ''customer_count'', ''customer_count_2'', ''logo_churn_annual'',
      ''cac'', ''payback_period'', ''ltv_to_cac'', ''gross_margin'', ''saas_recurring_percent'',
      ''nrr'', ''team_size'', ''year_founded'', ''location'', ''description'', ''url'',
      ''competition'', ''revenue_notes'', ''funding_notes'', ''good'', ''challenges'',
      ''needs_action'']"

text \<open>The data rows (from row 2 to the last row with content) whose cell in column \<open>c\<close> is
  strictly equal to \<open>v\<close>.\<close>

definition rows_with_id :: "grid \<Rightarrow> nat \<Rightarrow> jsval \<Rightarrow> nat list" where
  "rows_with_id g c v = filter (\<lambda>r. strict_equals (cell_at g r c) v) [2 ..< Suc (getLastRow g)]"

text \<open>A value that a cell gives back as it was written and that does not leave the cell
  empty: text that is not empty, a number, a boolean.\<close>

definition kept_as_written :: "platform \<Rightarrow> jsval \<Rightarrow> bool" where
  "kept_as_written p v = (strict_equals (to_cell p v) v \<and> to_cell p v \<noteq> blank)"

text \<open>The results of \<^verbatim>\<open>parseAndSaveCompany\<close> on the documents of a list, one after
  the other, each in the world the documents before it left; and the world after the last.\<close>

fun results_in_turn ::
  "(platform \<Rightarrow> string \<Rightarrow> world \<Rightarrow> js_object result) \<Rightarrow> platform \<Rightarrow> string list \<Rightarrow> world
     \<Rightarrow> op_result list \<times> world" where
  "results_in_turn parse p [] w = ([], w)"
| "results_in_turn parse p (docId # docIds) w =
     (case parseAndSaveCompany parse p docId w of
        (r, w1) \<Rightarrow>
          (case results_in_turn parse p docIds w1 of
             (rs, w2) \<Rightarrow> (r # rs, w2)))"

text \<open>A stage output that is no object at all: \<^verbatim>\<open>undefined\<close> (the argument was
  left out) or \<^verbatim>\<open>null\<close>.\<close>

definition structurally_missing :: "jsval \<Rightarrow> bool" where
  "structurally_missing v = (v = JUndefined \<or> v = JNull)"

text \<open>The compounding rule the churn prompt states for a monthly rate:
  \<^verbatim>\<open>Annual = 1 - (1 - monthly_rate)^12\<close>.\<close>

definition annualize_monthly :: "rat \<Rightarrow> rat" where
  "annualize_monthly m = 1 - (1 - m) ^ 12"

text \<open>Two outcomes of a run agree except on the fields \<open>ks\<close>: both threw the same error, or
  both returned a record and the records coincide once the fields \<open>ks\<close> are removed.\<close>

definition agree_except :: "string list \<Rightarrow> error + js_object \<Rightarrow> error + js_object \<Rightarrow> bool" where
  "agree_except ks a b = (map_sum id (drop_fields ks) a = map_sum id (drop_fields ks) b)"

section \<open>A scripted platform for concrete runs\<close>

text \<open>
  A stand-in for the outside world, used to run the scripts on concrete inputs: a table of
  documents, and a table with the payload the classification service answers per schema
  name.  The service answers 200 with the body \<open>#name\<close>, which parses to a response
  envelope whose message text is \<open>name\<close>, which parses to the payload of the table (no entry:
  unparsable).  A labelled line is matched at the start of a line.
\<close>

fun split_lines :: "string \<Rightarrow> string list" where
  "split_lines [] = [[]]"
| "split_lines (c # cs) =
     (if c = CHR 0x0A then [] # split_lines cs
      else (case split_lines cs of [] \<Rightarrow> [[c]] | l # ls \<Rightarrow> (c # l) # ls))"

definition line_match :: "string \<Rightarrow> string \<Rightarrow> string option" where
  "line_match label text =
     (case filter (\<lambda>line. take (Suc (length label)) line = label @ '':'') (split_lines text) of
        [] \<Rightarrow> None
      | line # _ \<Rightarrow> Some (drop (Suc (length label)) line))"

definition envelope :: "string \<Rightarrow> jsval" where
  "envelope t =
     JObj [(''output'',
            JArr [JObj [(''type'', JStr ''message''),
                        (''content'', JArr [JObj [(''type'', JStr ''output_text''),
                                                   (''text'', JStr t)]])]])]"

fun scripted_parse :: "(string \<times> jsval) list \<Rightarrow> jsval \<Rightarrow> jsval option" where
  "scripted_parse answers (JStr []) = None"
| "scripted_parse answers (JStr (c # cs)) =
     (if c = CHR ''#'' then Some (envelope cs) else map_of answers (c # cs))"
| "scripted_parse answers v = None"

definition scripted_platform :: "(string \<times> string) list \<Rightarrow> (string \<times> jsval) list \<Rightarrow> platform" where
  "scripted_platform docs answers =
     \<lparr>getText = (\<lambda>docId. case map_of docs docId of
                            Some t \<Rightarrow> Inr t
                          | None \<Rightarrow> Inl (ServiceException ''Document is missing'')),
      text_match = line_match,
      fetch = (\<lambda>n req. Inr \<lparr>responseCode = 200, contentText = CHR ''#'' # schemaName req\<rparr>),
      JSON_parse = scripted_parse answers,
      getUuid = (\<lambda>n. ''uuid-'' @ replicate n (CHR ''i'')),
      toISOString = (\<lambda>t. ''2025-01-01T00:00:00.000Z''),
      getFullYear = (\<lambda>t. 2025),
      Number_toString = (\<lambda>q. ''0''),
      StringToNumber = (\<lambda>s. None),
      cell_text = (\<lambda>v. ''[object Object]''),
      SPREADSHEET_ID = Some ''sheet-1'',
      MASTER_FOLDER_ID = Some ''folder-1'',
      folders = [map fst docs]\<rparr>"

definition null_payload :: "schema \<Rightarrow> jsval" where
  "null_payload sch = JObj (map (\<lambda>(k, ts). (k, JNull)) sch)"

definition world0 :: world where
  "world0 = \<lparr>fetch_log = [], uuid_count = 0, clock = 0, sheet = None\<rparr>"

text \<open>A note with a monthly churn figure and a two-segment ACV line.\<close>

definition acme_note :: string where
  "acme_note =
     ''Company Name: Acme'' @ [CHR 0x0A] @
     ''ACV: 3 enterprise customers at $250k each, 300 SMB customers at $800 each'' @ [CHR 0x0A] @
     ''# of Customers: 303'' @ [CHR 0x0A] @
     ''Logo Churn Annual: 2% monthly'' @ [CHR 0x0A]"

text \<open>Answers that match every stage's schema; the churn answer scales the monthly rate
  linearly, the ACV answer names a secondary segment without a primary one.\<close>

definition odd_answers :: "(string \<times> jsval) list" where
  "odd_answers =
     [(''simple_fields_batch'', null_payload simple_schema),
      (''acv_complexity_analysis'', JObj [(''acv'', JNull), (''acv_2'', JNum 800)]),
      (''customer_complexity_analysis'',
         JObj [(''customer_count'', JNum 3), (''customer_count_2'', JNum 300)]),
      (''churn_temporal_conversion'', JObj [(''logo_churn_annual'', JNum (24 / 100))]),
      (''monthly_burn_normalization'', null_payload burn_schema),
      (''valuation_extraction'', null_payload valuation_schema)]"

definition odd_platform :: platform where
  "odd_platform = scripted_platform [(''doc-a'', acme_note), (''doc-b'', acme_note)] odd_answers"

text \<open>A service that answers every request with the empty object.\<close>

definition empty_answers :: "(string \<times> jsval) list" where
  "empty_answers =
     [(''simple_fields_batch'', JObj []), (''acv_complexity_analysis'', JObj []),
      (''customer_complexity_analysis'', JObj []), (''churn_temporal_conversion'', JObj []),
      (''monthly_burn_normalization'', JObj []), (''valuation_extraction'', JObj [])]"

definition lax_platform :: platform where
  "lax_platform = scripted_platform [(''doc-a'', acme_note)] empty_answers"

text \<open>A service that follows the compounding rule on a monthly rate of 2%.\<close>

definition compounding_answers :: "(string \<times> jsval) list" where
  "compounding_answers =
     [(''churn_temporal_conversion'',
         JObj [(''logo_churn_annual'', JNum (annualize_monthly (2 / 100)))])]"

definition compounding_platform :: platform where
  "compounding_platform = scripted_platform [] compounding_answers"

text \<open>The same service, out of order for the ACV request.\<close>

definition outage_platform :: platform where
  "outage_platform =
     odd_platform\<lparr>fetch := (\<lambda>n req.
        if schemaName req = ''acv_complexity_analysis''
        then Inr \<lparr>responseCode = 503, contentText = ''Service Unavailable''\<rparr>
        else fetch odd_platform n req)\<rparr>"

text \<open>The same documents and service at a later time: other identifiers, another clock.\<close>

definition later_platform :: platform where
  "later_platform =
     odd_platform\<lparr>getUuid := (\<lambda>n. ''later-'' @ replicate n (CHR ''i'')),
                   toISOString := (\<lambda>t. ''2026-06-30T12:00:00.000Z'')\<rparr>"

definition world1 :: world where
  "world1 = \<lparr>fetch_log = [churn_request (JStr ''1% monthly'')], uuid_count = 5, clock = 9,
              sheet = None\<rparr>"

text \<open>The record \<^verbatim>\<open>testDatabaseSave\<close> builds to try the validation.\<close>

definition testCompany :: "platform \<Rightarrow> world \<Rightarrow> js_object" where
  "testCompany p w =
     [(''id'', JStr (getUuid p (uuid_count w))),
      (''company_name'', JStr ''Test Company Inc''),
      (''doc_url'', JStr ''https://docs.google.com/document/d/test123''),
      (''date_created'', JStr (toISOString p (clock w))),
      (''arr_run_rate'', JNum 1000000), (''acv'', JNum 50000), (''customer_count'', JNum 20),
      (''team_size'', JNum 25), (''year_founded'', JNum 2020),
      (''location'', JStr ''San Francisco, CA''),
      (''description'', JStr ''Test company for database validation''),
      (''monthly_burn'', JNum 100000), (''cash'', JNum 2000000),
      (''gross_margin'', JNum (8 / 10)),
      (''carr'', JNull), (''revenue_2024'', JNull), (''revenue_2023'', JNull),
      (''revenue_2022'', JNull), (''runway'', JNull), (''raising'', JNull),
      (''raised'', JNull), (''last_round_valuation'', JNull), (''acv_2'', JNull),
      (''customer_count_2'', JNull), (''logo_churn_annual'', JNull), (''cac'', JNull),
      (''payback_period'', JNull), (''ltv_to_cac'', JNull),
      (''saas_recurring_percent'', JNull), (''nrr'', JNull), (''competition'', JNull),
      (''revenue_notes'', JNull), (''funding_notes'', JNull), (''good'', JNull),
      (''challenges'', JNull), (''needs_action'', JNull)]"

text \<open>A note without a "Company Name" line, and a master folder of two subfolders, one of
  whose files cannot be opened.\<close>

definition nameless_platform :: platform where
  "nameless_platform = scripted_platform [(''doc-x'', ''ACV: $10k'')] odd_answers"

definition batch_platform :: platform where
  "batch_platform = odd_platform\<lparr>folders := [[''doc-a'', ''doc-gone''], [''doc-b'']]\<rparr>"

text \<open>A sheet with a header row and two companies, a record for the first of them, and a
  record of a company the sheet does not have.\<close>

definition companies_sheet :: grid where
  "companies_sheet =
     [[CStr ''id'', CStr ''company_name'', CStr ''acv''],
      [CStr ''u1'', CStr ''Acme'', CNum 800],
      [CStr ''u2'', CStr ''Bolt'', CNum 1200]]"

definition acme_update :: js_object where
  "acme_update = [(''id'', JStr ''u1''), (''company_name'', JStr ''Acme Inc''), (''acv'', JNum 900)]"

definition new_company :: js_object where
  "new_company = [(''id'', JStr ''u3''), (''company_name'', JStr ''Crest'')]"

section \<open>Properties\<close>

lemma js_trim_empty_iff: "js_trim s = [] \<longleftrightarrow> (\<forall>c \<in> set s. js_whitespace c)"
proof
  assume "js_trim s = []"
  then have all: "\<forall>x \<in> set (dropWhile js_whitespace s). js_whitespace x"
    by (simp add: js_trim_def dropWhile_eq_Nil_conv)
  have "dropWhile js_whitespace s = []"
  proof (rule ccontr)
    assume ne: "dropWhile js_whitespace s \<noteq> []"
    then have "\<not> js_whitespace (hd (dropWhile js_whitespace s))"
      by (rule hd_dropWhile)
    moreover from ne all have "js_whitespace (hd (dropWhile js_whitespace s))"
      by simp
    ultimately show False by simp
  qed
  then show "\<forall>c \<in> set s. js_whitespace c"
    by (simp add: dropWhile_eq_Nil_conv)
next
  assume "\<forall>c \<in> set s. js_whitespace c"
  then have dw: "dropWhile js_whitespace s = []"
    by (simp add: dropWhile_eq_Nil_conv)
  show "js_trim s = []"
    by (simp only: js_trim_def dw rev.simps dropWhile.simps)
qed

lemma text_is_blank_whitespace:
  "\<forall>c \<in> set s. js_whitespace c \<Longrightarrow> text_is_blank (JStr s) = Inr True"
  by (simp add: text_is_blank_def js_trim_empty_iff)

lemma callOpenAIStructured_logs:
  "fetch_log (snd (callOpenAIStructured p req w)) = fetch_log w @ [req]"
  by (simp add: callOpenAIStructured_def)

subsection \<open>Empty input of the Segmentation Analyzer\<close>

text \<open>
  Claim C3.  When the text handed to \<^verbatim>\<open>analyzeACVComplexity\<close> or
  \<^verbatim>\<open>analyzeCustomerComplexity\<close> (either version) is empty or consists of white space
  only, the stage returns its primary and its secondary output as \<^verbatim>\<open>null\<close>, does not
  throw, and leaves the world as it was: no request reaches the classification service,
  whose every call would be added to the log.
\<close>

theorem segmentation_blank_short_circuit:
  assumes "\<forall>c \<in> set s. js_whitespace c"
  shows "analyzeACVComplexity p (JStr s) context w
           = (Inr (JObj [(''acv'', JNull), (''acv_2'', JNull)]), w)
       \<and> analyzeCustomerComplexity p (JStr s) context w
           = (Inr (JObj [(''customer_count'', JNull), (''customer_count_2'', JNull)]), w)
       \<and> analyzeACVComplexity_v2 p (JStr s) w
           = (Inr (JObj [(''acv'', JNull), (''acv_2'', JNull)]), w)
       \<and> analyzeCustomerComplexity_v2 p (JStr s) w
           = (Inr (JObj [(''customer_count'', JNull), (''customer_count_2'', JNull)]), w)"
  using text_is_blank_whitespace [OF assms]
  by (simp add: analyzeACVComplexity_def analyzeCustomerComplexity_def
      analyzeACVComplexity_v2_def analyzeCustomerComplexity_v2_def)

text \<open>On a text of a space, a tab and a line feed, and on the empty text, nothing is sent;
  on the text \<open>$25k\<close> the ACV stage sends its request.\<close>

theorem segmentation_blank_short_circuit_witness:
  "analyzeACVComplexity odd_platform (JStr [CHR '' '', CHR 0x09, CHR 0x0A]) [] world0
           = (Inr (JObj [(''acv'', JNull), (''acv_2'', JNull)]), world0)
       \<and> analyzeCustomerComplexity odd_platform (JStr [CHR '' '', CHR 0x09, CHR 0x0A]) [] world0
           = (Inr (JObj [(''customer_count'', JNull), (''customer_count_2'', JNull)]), world0)
       \<and> fetch_log (snd (analyzeACVComplexity_v2 odd_platform (JStr []) world0)) = []
       \<and> fetch_log (snd (analyzeACVComplexity odd_platform (JStr ''$25k'') [] world0))
           = [acv_request (JStr ''$25k'') []]"
proof -
  have ws: "\<forall>c \<in> set [CHR '' '', CHR 0x09, CHR 0x0A]. js_whitespace c"
    by (simp add: js_whitespace_def)
  have ws0: "\<forall>c \<in> set []. js_whitespace c"
    by simp
  have nb: "text_is_blank (JStr ''$25k'') = Inr False"
    by (simp add: text_is_blank_def js_trim_def js_whitespace_def)
  show ?thesis
    using segmentation_blank_short_circuit [OF ws, of odd_platform "[]" world0]
      segmentation_blank_short_circuit [OF ws0, of odd_platform "[]" world0]
    by (simp add: world0_def analyzeACVComplexity_def nb callOpenAIStructured_def)
qed

subsection \<open>The Record Assembler\<close>

lemma get_prop_missing: "structurally_missing v \<Longrightarrow> get_prop v k = Inl TypeError"
  by (auto simp: structurally_missing_def)

lemma get_prop_present: "\<not> structurally_missing v \<Longrightarrow> \<exists>x. get_prop v k = Inr x"
  by (cases v) (auto simp: structurally_missing_def)

lemma read_props_missing:
  "\<exists>x \<in> set ps. structurally_missing (fst x) \<Longrightarrow> read_props ps = Inl TypeError"
proof (induction ps)
  case Nil
  then show ?case by simp
next
  case (Cons a ps)
  obtain source k where a: "a = (source, k)" by (cases a)
  show ?case
  proof (cases "structurally_missing source")
    case True
    then show ?thesis by (simp add: a get_prop_missing)
  next
    case False
    with Cons.prems a have "\<exists>x \<in> set ps. structurally_missing (fst x)" by auto
    then have "read_props ps = Inl TypeError" by (rule Cons.IH)
    moreover from False obtain x where "get_prop source k = Inr x"
      using get_prop_present by blast
    ultimately show ?thesis by (simp add: a)
  qed
qed

lemma read_props_present:
  "\<forall>x \<in> set ps. \<not> structurally_missing (fst x) \<Longrightarrow>
     \<exists>kvs. read_props ps = Inr kvs \<and> map fst kvs = map snd ps"
proof (induction ps)
  case Nil
  then show ?case by simp
next
  case (Cons a ps)
  obtain source k where a: "a = (source, k)" by (cases a)
  from Cons.prems a obtain x where x: "get_prop source k = Inr x"
    using get_prop_present by fastforce
  from Cons.prems obtain kvs where "read_props ps = Inr kvs" "map fst kvs = map snd ps"
    using Cons.IH by auto
  with x show ?case by (simp add: a)
qed

declare read_props.simps [simp del]

text \<open>
  Claim C7.  \<^verbatim>\<open>assembleCompleteRecord\<close> (either version) throws exactly when one of
  the stage outputs it is given is structurally missing, that is \<^verbatim>\<open>undefined\<close> or
  \<^verbatim>\<open>null\<close>, and then it throws a TypeError.  On every other input, whatever the
  objects hold (all their fields may be \<^verbatim>\<open>null\<close> or absent), it returns a record
  with exactly the keys of the closed schema, whose \<open>id\<close> is the identifier
  \<^verbatim>\<open>Utilities.getUuid()\<close> hands out at this call and whose \<open>date_created\<close> is the
  time of the call.  Each call takes one identifier.
\<close>

theorem assembleCompleteRecord_fails_only_when_missing:
  "(if list_ex structurally_missing
         [rawFields, simpleFields, acvData, customerData, churnData, burnData, valuationData]
    then fst (assembleCompleteRecord p docId rawFields simpleFields acvData customerData
                churnData burnData valuationData w) = Inl TypeError
    else (\<exists>companyRecord.
            fst (assembleCompleteRecord p docId rawFields simpleFields acvData customerData
                   churnData burnData valuationData w) = Inr companyRecord
          \<and> map fst companyRecord = record_keys
          \<and> obj_get companyRecord ''id'' = JStr (getUuid p (uuid_count w))
          \<and> obj_get companyRecord ''date_created'' = JStr (toISOString p (clock w))))
   \<and> snd (assembleCompleteRecord p docId rawFields simpleFields acvData customerData
             churnData burnData valuationData w) = w\<lparr>uuid_count := uuid_count w + 1\<rparr>
   \<and> (if list_ex structurally_missing
            [simpleFields, acvData, customerData, churnData, burnData, valuationData]
       then fst (assembleCompleteRecord_v2 p docId simpleFields acvData customerData
                   churnData burnData valuationData w) = Inl TypeError
       else (\<exists>companyRecord.
               fst (assembleCompleteRecord_v2 p docId simpleFields acvData customerData
                      churnData burnData valuationData w) = Inr companyRecord
             \<and> map fst companyRecord = record_keys_v2
             \<and> obj_get companyRecord ''id'' = JStr (getUuid p (uuid_count w))
             \<and> obj_get companyRecord ''date_created'' = JStr (toISOString p (clock w))))
   \<and> snd (assembleCompleteRecord_v2 p docId simpleFields acvData customerData
             churnData burnData valuationData w) = w\<lparr>uuid_count := uuid_count w + 1\<rparr>"
proof -
  let ?ps = "[(simpleFields, ''arr_run_rate''), (simpleFields, ''carr''),
                    (simpleFields, ''revenue_2024''), (simpleFields, ''revenue_2023''),
                    (simpleFields, ''revenue_2022''), (burnData, ''monthly_burn''),
                    (simpleFields, ''cash''), (simpleFields, ''runway''),
                    (simpleFields, ''raising''), (simpleFields, ''raised''),
                    (valuationData, ''last_round_valuation''),
                    (acvData, ''acv''), (acvData, ''acv_2''),
                    (customerData, ''customer_count''), (customerData, ''customer_count_2''),
                    (churnData, ''logo_churn_annual''),
                    (simpleFields, ''cac''), (simpleFields, ''payback_period''),
                    (simpleFields, ''ltv_to_cac''), (simpleFields, ''gross_margin''),
                    (simpleFields, ''saas_recurring_percent''), (simpleFields, ''nrr''),
                    (simpleFields, ''team_size''), (simpleFields, ''year_founded''),
                    (simpleFields, ''location''), (simpleFields, ''description''),
                    (simpleFields, ''competition''), (simpleFields, ''revenue_notes''),
                    (simpleFields, ''funding_notes''), (simpleFields, ''good''),
                    (simpleFields, ''challenges''), (simpleFields, ''needs_action'')]"
  let ?qs = "[(simpleFields, ''arr_run_rate''), (simpleFields, ''carr''),
                    (simpleFields, ''revenue_2024''), (simpleFields, ''revenue_2023''),
                    (simpleFields, ''revenue_2022''), (burnData, ''monthly_burn''),
                    (simpleFields, ''cash''), (simpleFields, ''runway''),
                    (simpleFields, ''raising''), (simpleFields, ''raised''),
                    (valuationData, ''last_round_valuation''),
                    (acvData, ''acv''), (acvData, ''acv_2''),
                    (customerData, ''customer_count''), (customerData, ''customer_count_2''),
                    (churnData, ''logo_churn_annual''),
                    (simpleFields, ''cac''), (simpleFields, ''payback_period''),
                    (simpleFields, ''ltv_to_cac''), (simpleFields, ''gross_margin''),
                    (simpleFields, ''saas_recurring_percent''), (simpleFields, ''nrr''),
                    (simpleFields, ''team_size''), (simpleFields, ''year_founded''),
                    (simpleFields, ''location''), (simpleFields, ''description''),
                    (simpleFields, ''url''),
                    (simpleFields, ''competition''), (simpleFields, ''revenue_notes''),
                    (simpleFields, ''funding_notes''), (simpleFields, ''good''),
                    (simpleFields, ''challenges''), (simpleFields, ''needs_action'')]"
  let ?stage_missing = "list_ex structurally_missing
            [simpleFields, acvData, customerData, churnData, burnData, valuationData]"
  have miss: "?stage_missing \<longleftrightarrow> (\<exists>x \<in> set ?ps. structurally_missing (fst x))"
    by (simp add: disj_ac)
  have missq: "?stage_missing \<longleftrightarrow> (\<exists>x \<in> set ?qs. structurally_missing (fst x))"
    by (simp add: disj_ac)
  have snd1: "snd (assembleCompleteRecord p docId rawFields simpleFields acvData customerData
             churnData burnData valuationData w) = w\<lparr>uuid_count := uuid_count w + 1\<rparr>"
    by (simp add: assembleCompleteRecord_def Let_def split: sum.splits)
  have snd2: "snd (assembleCompleteRecord_v2 p docId simpleFields acvData customerData
             churnData burnData valuationData w) = w\<lparr>uuid_count := uuid_count w + 1\<rparr>"
    by (simp add: assembleCompleteRecord_v2_def Let_def split: sum.splits)
  have v1: "(if list_ex structurally_missing
         [rawFields, simpleFields, acvData, customerData, churnData, burnData, valuationData]
    then fst (assembleCompleteRecord p docId rawFields simpleFields acvData customerData
                churnData burnData valuationData w) = Inl TypeError
    else (\<exists>companyRecord.
            fst (assembleCompleteRecord p docId rawFields simpleFields acvData customerData
                   churnData burnData valuationData w) = Inr companyRecord
          \<and> map fst companyRecord = record_keys
          \<and> obj_get companyRecord ''id'' = JStr (getUuid p (uuid_count w))
          \<and> obj_get companyRecord ''date_created'' = JStr (toISOString p (clock w))))"
  proof (cases "structurally_missing rawFields")
    case True
    then show ?thesis
      by (simp add: assembleCompleteRecord_def Let_def get_prop_missing)
  next
    case raw: False
    then obtain name where name: "get_prop rawFields ''Company Name'' = Inr name"
      using get_prop_present by blast
    show ?thesis
    proof (cases ?stage_missing)
      case True
      then have "read_props ?ps = Inl TypeError"
        using miss read_props_missing by blast
      with True name show ?thesis
        by (simp add: assembleCompleteRecord_def Let_def)
    next
      case False
      then have "\<forall>x \<in> set ?ps. \<not> structurally_missing (fst x)"
        using miss by blast
      then obtain kvs where kvs: "read_props ?ps = Inr kvs" "map fst kvs = map snd ?ps"
        using read_props_present by blast
      from False raw have "\<not> list_ex structurally_missing
         [rawFields, simpleFields, acvData, customerData, churnData, burnData, valuationData]"
        by simp
      with kvs name show ?thesis
        by (simp add: assembleCompleteRecord_def Let_def record_keys_def obj_get_def)
    qed
  qed
  have v2: "(if ?stage_missing
       then fst (assembleCompleteRecord_v2 p docId simpleFields acvData customerData
                   churnData burnData valuationData w) = Inl TypeError
       else (\<exists>companyRecord.
               fst (assembleCompleteRecord_v2 p docId simpleFields acvData customerData
                      churnData burnData valuationData w) = Inr companyRecord
             \<and> map fst companyRecord = record_keys_v2
             \<and> obj_get companyRecord ''id'' = JStr (getUuid p (uuid_count w))
             \<and> obj_get companyRecord ''date_created'' = JStr (toISOString p (clock w))))"
  proof (cases ?stage_missing)
    case True
    then have rp: "read_props ?qs = Inl TypeError"
      using missq read_props_missing by blast
    show ?thesis
    proof (cases "structurally_missing simpleFields")
      case True
      with \<open>?stage_missing\<close> show ?thesis
        by (simp add: assembleCompleteRecord_v2_def Let_def get_prop_missing)
    next
      case False
      then obtain name where "get_prop simpleFields ''company_name'' = Inr name"
        using get_prop_present by blast
      with rp \<open>?stage_missing\<close> show ?thesis
        by (simp add: assembleCompleteRecord_v2_def Let_def)
    qed
  next
    case False
    then have "\<forall>x \<in> set ?qs. \<not> structurally_missing (fst x)"
      using missq by blast
    then obtain kvs where kvs: "read_props ?qs = Inr kvs" "map fst kvs = map snd ?qs"
      using read_props_present by blast
    from False have "\<not> structurally_missing simpleFields" by simp
    then obtain name where "get_prop simpleFields ''company_name'' = Inr name"
      using get_prop_present by blast
    with kvs False show ?thesis
      by (simp add: assembleCompleteRecord_v2_def Let_def record_keys_v2_def obj_get_def)
  qed
  from v1 snd1 v2 snd2 show ?thesis by blast
qed


text \<open>Stage outputs whose every field is \<^verbatim>\<open>null\<close> assemble; an
  \<^verbatim>\<open>undefined\<close> ACV result does not.\<close>

theorem assembleCompleteRecord_fails_only_when_missing_witness:
  "(\<exists>companyRecord.
      fst (assembleCompleteRecord odd_platform ''doc-a'' (JObj [(''Company Name'', JNull)])
             (null_payload simple_schema) (null_payload acv_schema)
             (null_payload customer_schema) (null_payload churn_schema)
             (null_payload burn_schema) (null_payload valuation_schema) world0)
        = Inr companyRecord
      \<and> map fst companyRecord = record_keys
      \<and> obj_get companyRecord ''id'' = JStr ''uuid-''
      \<and> obj_get companyRecord ''date_created'' = JStr ''2025-01-01T00:00:00.000Z'')
   \<and> fst (assembleCompleteRecord odd_platform ''doc-a'' (JObj [(''Company Name'', JNull)])
             (null_payload simple_schema) JUndefined
             (null_payload customer_schema) (null_payload churn_schema)
             (null_payload burn_schema) (null_payload valuation_schema) world0)
        = Inl TypeError
   \<and> fst (assembleCompleteRecord_v2 odd_platform ''doc-a''
             (null_payload simple_schema_v2) (null_payload acv_schema)
             (null_payload customer_schema) (null_payload churn_schema)
             (null_payload burn_schema) JNull world0)
        = Inl TypeError"
  using assembleCompleteRecord_fails_only_when_missing
          [of "JObj [(''Company Name'', JNull)]" "null_payload simple_schema"
              "null_payload acv_schema" "null_payload customer_schema"
              "null_payload churn_schema" "null_payload burn_schema"
              "null_payload valuation_schema" odd_platform "''doc-a''" world0]
        assembleCompleteRecord_fails_only_when_missing
          [of "JObj [(''Company Name'', JNull)]" "null_payload simple_schema"
              JUndefined "null_payload customer_schema"
              "null_payload churn_schema" "null_payload burn_schema"
              "null_payload valuation_schema" odd_platform "''doc-a''" world0]
        assembleCompleteRecord_fails_only_when_missing
          [of JNull "null_payload simple_schema_v2"
              "null_payload acv_schema" "null_payload customer_schema"
              "null_payload churn_schema" "null_payload burn_schema"
              JNull odd_platform "''doc-a''" world0]
  by (simp add: structurally_missing_def null_payload_def odd_platform_def
      scripted_platform_def world0_def)


subsection \<open>The Temporal Rate Converter\<close>

lemma and_then_Inl [simp]: "and_then (Inl e, w) f = (Inl e, w)"
  by (simp add: and_then_def)

lemma and_then_Inr [simp]: "and_then (Inr x, w) f = f x w"
  by (simp add: and_then_def)

lemma rewrap_object [simp]:
  "rewrap k (JObj payload) w = (Inr (JObj [(k, obj_get payload k)]), w)"
  by (simp add: rewrap_def)

text \<open>
  Against claim C1 as it is worded.  The stage does not compute anything: the scripted
  service below answers \<open>0.24\<close> for "2% monthly", an answer that matches the stage's schema,
  and \<^verbatim>\<open>convertChurnToAnnual\<close> returns \<open>0.24\<close>, which is not the compounded rate.
\<close>

theorem churn_linear_answer_counterexample:
  "conforms churn_schema (JObj [(''logo_churn_annual'', JNum (24 / 100))])
   \<and> call_outcome odd_platform 0 (churn_request (JStr ''2% monthly''))
       = Inr (JObj [(''logo_churn_annual'', JNum (24 / 100))])
   \<and> fst (convertChurnToAnnual odd_platform (JStr ''2% monthly'') world0)
       = Inr (JObj [(''logo_churn_annual'', JNum (24 / 100))])
   \<and> (24 / 100 :: rat) \<noteq> annualize_monthly (2 / 100)"
  by (simp add: conforms_def churn_schema_def obj_get_def convertChurnToAnnual_def
      text_is_blank_def js_trim_def js_whitespace_def callOpenAIStructured_def
      call_outcome_def read_response_def odd_platform_def scripted_platform_def
      odd_answers_def churn_request_def envelope_def find_message_def world0_def
      annualize_monthly_def power_divide)

text \<open>
  Claim C1, amended.  \<^verbatim>\<open>convertChurnToAnnual\<close> (either version) does no arithmetic
  of its own.  On a blank text it returns \<^verbatim>\<open>null\<close> without calling the service.
  Otherwise it returns exactly the \<open>logo_churn_annual\<close> value of the payload the
  classification call yields, and throws what the call throws.  The compounding rule is an
  instruction of the prompt: the output is the compounded rate exactly when the service
  answers it.  For a monthly rate of 2% that rate, \<open>1 - 0.98^12\<close>, lies within \<open>0.00001\<close> of
  \<open>0.21528\<close>, more than \<open>0.0005\<close> away from \<open>0.2158\<close>.
\<close>

theorem convertChurnToAnnual_passes_classifier_value:
  "(text_is_blank text = Inr True \<longrightarrow>
      convertChurnToAnnual p text w = (Inr (JObj [(''logo_churn_annual'', JNull)]), w)
    \<and> convertChurnToAnnual_v2 p text w = (Inr (JObj [(''logo_churn_annual'', JNull)]), w))
   \<and> (text_is_blank text = Inr False \<longrightarrow>
        (\<forall>payload. call_outcome p (length (fetch_log w)) (churn_request text) = Inr (JObj payload)
           \<longrightarrow> fst (convertChurnToAnnual p text w)
                 = Inr (JObj [(''logo_churn_annual'', obj_get payload ''logo_churn_annual'')]))
      \<and> (\<forall>e. call_outcome p (length (fetch_log w)) (churn_request text) = Inl e
           \<longrightarrow> fst (convertChurnToAnnual p text w) = Inl e)
      \<and> (\<forall>payload. call_outcome p (length (fetch_log w)) (churn_request_v2 text) = Inr (JObj payload)
           \<longrightarrow> fst (convertChurnToAnnual_v2 p text w)
                 = Inr (JObj [(''logo_churn_annual'', obj_get payload ''logo_churn_annual'')]))
      \<and> (\<forall>e. call_outcome p (length (fetch_log w)) (churn_request_v2 text) = Inl e
           \<longrightarrow> fst (convertChurnToAnnual_v2 p text w) = Inl e))
   \<and> \<bar>annualize_monthly (2 / 100) - 21528 / 100000\<bar> < 1 / 100000
   \<and> 5 / 10000 < \<bar>annualize_monthly (2 / 100) - 2158 / 10000\<bar>"
  by (simp add: convertChurnToAnnual_def convertChurnToAnnual_v2_def callOpenAIStructured_def
      annualize_monthly_def power_divide)

text \<open>With a service that follows the rule, "2% monthly" gives the compounded rate; a
  blank text gives \<^verbatim>\<open>null\<close>.\<close>

theorem convertChurnToAnnual_passes_classifier_value_witness:
  "text_is_blank (JStr ''2% monthly'') = Inr False
   \<and> call_outcome compounding_platform 0 (churn_request (JStr ''2% monthly''))
        = Inr (JObj [(''logo_churn_annual'', JNum (annualize_monthly (2 / 100)))])
   \<and> fst (convertChurnToAnnual compounding_platform (JStr ''2% monthly'') world0)
        = Inr (JObj [(''logo_churn_annual'', JNum (annualize_monthly (2 / 100)))])
   \<and> convertChurnToAnnual compounding_platform (JStr '' '') world0
        = (Inr (JObj [(''logo_churn_annual'', JNull)]), world0)"
proof -
  have nb: "text_is_blank (JStr ''2% monthly'') = Inr False"
    by (simp add: text_is_blank_def js_trim_def js_whitespace_def)
  have b: "text_is_blank (JStr '' '') = Inr True"
    by (simp add: text_is_blank_def js_trim_def js_whitespace_def)
  have out: "call_outcome compounding_platform (length (fetch_log world0))
               (churn_request (JStr ''2% monthly''))
        = Inr (JObj [(''logo_churn_annual'', JNum (annualize_monthly (2 / 100)))])"
    by (simp add: call_outcome_def read_response_def compounding_platform_def
        scripted_platform_def compounding_answers_def churn_request_def envelope_def
        find_message_def obj_get_def world0_def)
  show ?thesis
    using convertChurnToAnnual_passes_classifier_value
            [of "JStr ''2% monthly''" compounding_platform world0]
          convertChurnToAnnual_passes_classifier_value
            [of "JStr '' ''" compounding_platform world0]
          nb b out
    by (simp add: obj_get_def world0_def)
qed


subsection \<open>Failure of a classification call\<close>

lemma propagates_same_log:
  "fetch_log w' = fetch_log w \<Longrightarrow> propagates p w (r, w')"
  by (simp add: propagates_def)

lemma propagates_call: "propagates p w (callOpenAIStructured p req w)"
  unfolding propagates_def callOpenAIStructured_def
  by (intro exI [of _ "[req]"]) simp

lemma propagates_and_then:
  assumes r: "propagates p w r"
    and f: "\<And>x w1. r = (Inr x, w1) \<Longrightarrow> propagates p w1 (f x w1)"
  shows "propagates p w (and_then r f)"
proof (cases r)
  case (Pair a w1)
  show ?thesis
  proof (cases a)
    case (Inl e)
    with Pair r show ?thesis by (simp add: propagates_def)
  next
    case (Inr x)
    with Pair have rx: "r = (Inr x, w1)" by simp
    from r rx obtain new1 where new1: "fetch_log w1 = fetch_log w @ new1"
      and ok1: "\<forall>i < length new1. \<forall>e.
          call_outcome p (length (fetch_log w) + i) (new1 ! i) \<noteq> Inl e"
      by (auto simp: propagates_def)
    from f [OF rx] obtain new2 where new2: "fetch_log (snd (f x w1)) = fetch_log w1 @ new2"
      and ok2: "\<forall>i < length new2. \<forall>e.
          call_outcome p (length (fetch_log w1) + i) (new2 ! i) = Inl e \<longrightarrow> fst (f x w1) = Inl e"
      by (auto simp: propagates_def)
    have "\<forall>i < length (new1 @ new2). \<forall>e.
            call_outcome p (length (fetch_log w) + i) ((new1 @ new2) ! i) = Inl e
              \<longrightarrow> fst (f x w1) = Inl e"
    proof (intro allI impI)
      fix i e
      assume i: "i < length (new1 @ new2)"
        and out: "call_outcome p (length (fetch_log w) + i) ((new1 @ new2) ! i) = Inl e"
      show "fst (f x w1) = Inl e"
      proof (cases "i < length new1")
        case True
        with out ok1 show ?thesis by (simp add: nth_append)
      next
        case False
        then have j: "i - length new1 < length new2" using i by simp
        from False have idx: "length (fetch_log w) + i = length (fetch_log w1) + (i - length new1)"
          by (simp add: new1)
        from False out have "call_outcome p (length (fetch_log w1) + (i - length new1))
                               (new2 ! (i - length new1)) = Inl e"
          by (simp add: nth_append idx)
        with ok2 j show ?thesis by blast
      qed
    qed
    moreover have "fetch_log (snd (f x w1)) = fetch_log w @ (new1 @ new2)"
      by (simp add: new1 new2)
    ultimately show ?thesis
      unfolding propagates_def rx and_then_Inr by blast
  qed
qed

lemma propagates_rewrap: "propagates p w (rewrap k res w)"
  by (simp add: rewrap_def propagates_same_log split: sum.splits)

lemma propagates_call_rewrap:
  "propagates p w (and_then (callOpenAIStructured p req w) (rewrap k))"
  by (intro propagates_and_then propagates_call propagates_rewrap)

lemma propagates_stages:
  "propagates p w (parseSimpleFieldsBatch p source w)"
  "propagates p w (analyzeACVComplexity p t context w)"
  "propagates p w (analyzeCustomerComplexity p t context w)"
  "propagates p w (convertChurnToAnnual p t w)"
  "propagates p w (normalizeMonthlyBurn p t w)"
  "propagates p w (extractLastRoundValuation p t context w)"
  by (simp_all add: parseSimpleFieldsBatch_def analyzeACVComplexity_def
      analyzeCustomerComplexity_def convertChurnToAnnual_def normalizeMonthlyBurn_def
      extractLastRoundValuation_def propagates_call propagates_call_rewrap
      propagates_same_log split: sum.splits bool.splits)

lemma propagates_stages_v2:
  "propagates p w (parseSimpleFieldsBatch_v2 p source w)"
  "propagates p w (analyzeACVComplexity_v2 p t w)"
  "propagates p w (analyzeCustomerComplexity_v2 p t w)"
  "propagates p w (convertChurnToAnnual_v2 p t w)"
  "propagates p w (normalizeMonthlyBurn_v2 p t w)"
  "propagates p w (extractLastRoundValuation_v2 p t w)"
  by (simp_all add: parseSimpleFieldsBatch_v2_def analyzeACVComplexity_v2_def
      analyzeCustomerComplexity_v2_def convertChurnToAnnual_v2_def normalizeMonthlyBurn_v2_def
      extractLastRoundValuation_v2_def propagates_call propagates_call_rewrap
      propagates_same_log split: sum.splits bool.splits)

lemma assemble_world:
  "snd (assembleCompleteRecord p docId rawFields simpleFields acvData customerData churnData
          burnData valuationData w) = w\<lparr>uuid_count := uuid_count w + 1\<rparr>"
  "snd (assembleCompleteRecord_v2 p docId simpleFields acvData customerData churnData
          burnData valuationData w) = w\<lparr>uuid_count := uuid_count w + 1\<rparr>"
  by (simp_all add: assembleCompleteRecord_def assembleCompleteRecord_v2_def Let_def
      split: sum.splits)

lemma propagates_assemble:
  "propagates p w (assembleCompleteRecord p docId rawFields simpleFields acvData customerData
      churnData burnData valuationData w)"
  "propagates p w (assembleCompleteRecord_v2 p docId simpleFields acvData customerData
      churnData burnData valuationData w)"
  by (simp_all add: propagates_def assemble_world)

lemma propagates_parse: "propagates p w (parseCompanyFromDoc p docId w)"
  unfolding parseCompanyFromDoc_def
  by (auto split: sum.splits
      intro!: propagates_and_then propagates_stages propagates_assemble propagates_same_log)

lemma propagates_parse_v2: "propagates p w (parseCompanyFromDoc_v2 p docId w)"
  unfolding parseCompanyFromDoc_v2_def
  by (auto split: sum.splits
      intro!: propagates_and_then propagates_stages_v2 propagates_assemble propagates_same_log)


text \<open>
  Against claim C4 as it is worded.  No script checks a parsed payload against the schema
  it asked for.  The scripted service answers every request with the empty object, which
  matches none of the schemas; the run on document \<open>doc-a\<close> nevertheless returns a record,
  with \<^verbatim>\<open>undefined\<close> in the fields the payloads lack.
\<close>

theorem unchecked_schema_counterexample:
  "\<not> conforms simple_schema (JObj [])
   \<and> schema (hd (fetch_log (snd (parseCompanyFromDoc lax_platform ''doc-a'' world0))))
       = simple_schema
   \<and> call_outcome lax_platform 0
         (hd (fetch_log (snd (parseCompanyFromDoc lax_platform ''doc-a'' world0))))
       = Inr (JObj [])
   \<and> fst (parseCompanyFromDoc lax_platform ''doc-a'' world0) =
       Inr [(''id'', JStr ''uuid-''), (''company_name'', JStr ''Acme''),
            (''doc_url'', JStr ''https://docs.google.com/document/d/doc-a''),
            (''date_created'', JStr ''2025-01-01T00:00:00.000Z''),
            (''arr_run_rate'', JUndefined), (''carr'', JUndefined),
            (''revenue_2024'', JUndefined), (''revenue_2023'', JUndefined),
            (''revenue_2022'', JUndefined), (''monthly_burn'', JNull),
            (''cash'', JUndefined), (''runway'', JUndefined),
            (''raising'', JUndefined), (''raised'', JUndefined),
            (''last_round_valuation'', JNull), (''acv'', JUndefined),
            (''acv_2'', JUndefined), (''customer_count'', JUndefined),
            (''customer_count_2'', JUndefined),
            (''logo_churn_annual'', JUndefined), (''cac'', JUndefined),
            (''payback_period'', JUndefined), (''ltv_to_cac'', JUndefined),
            (''gross_margin'', JUndefined),
            (''saas_recurring_percent'', JUndefined), (''nrr'', JUndefined),
            (''team_size'', JUndefined), (''year_founded'', JUndefined),
            (''location'', JUndefined), (''description'', JUndefined),
            (''competition'', JUndefined), (''revenue_notes'', JUndefined),
            (''funding_notes'', JUndefined), (''good'', JUndefined),
            (''challenges'', JUndefined), (''needs_action'', JUndefined)]"
  by code_simp

text \<open>
  Claim C4, amended.  A classification call fails when \<^verbatim>\<open>UrlFetchApp.fetch\<close>
  throws, when the response code is not 200, when the body does not parse, and when the
  message text of a well-formed response does not parse.  A run of
  \<^verbatim>\<open>parseCompanyFromDoc\<close> (either version) only adds requests to the log, and when any
  of the calls it made failed, the run throws that call's error and returns no record.
  Whether a payload that did parse matches the schema is not checked.
\<close>

theorem classification_failure_aborts_run:
  "(\<forall>e. read_response p (Inl e) = Inl e)
   \<and> (\<forall>response. responseCode response \<noteq> 200 \<longrightarrow>
         read_response p (Inr response) = Inl (ApiError (responseCode response)))
   \<and> (\<forall>response. responseCode response = 200
         \<and> JSON_parse p (JStr (contentText response)) = None \<longrightarrow>
         read_response p (Inr response) = Inl SyntaxError)
   \<and> (\<forall>response t. responseCode response = 200
         \<and> JSON_parse p (JStr (contentText response)) = Some (envelope t)
         \<and> JSON_parse p (JStr t) = None \<longrightarrow>
         read_response p (Inr response) = Inl SyntaxError)
   \<and> propagates p w (parseCompanyFromDoc p docId w)
   \<and> propagates p w (parseCompanyFromDoc_v2 p docId w)"
  by (simp add: read_response_def envelope_def find_message_def obj_get_def
      propagates_parse propagates_parse_v2)

text \<open>With the service out of order for the ACV request, the run stops at its second call
  and throws that call's error.\<close>

theorem classification_failure_aborts_run_witness:
  "length (fetch_log (snd (parseCompanyFromDoc outage_platform ''doc-a'' world0))) = 2
   \<and> call_outcome outage_platform 1
         (fetch_log (snd (parseCompanyFromDoc outage_platform ''doc-a'' world0)) ! 1)
       = Inl (ApiError 503)
   \<and> fst (parseCompanyFromDoc outage_platform ''doc-a'' world0) = Inl (ApiError 503)"
proof -
  let ?run = "parseCompanyFromDoc outage_platform ''doc-a'' world0"
  have len: "length (fetch_log (snd ?run)) = 2"
    by code_simp
  have out: "call_outcome outage_platform 1 (fetch_log (snd ?run) ! 1) = Inl (ApiError 503)"
    by code_simp
  have "propagates outage_platform world0 ?run"
    using classification_failure_aborts_run [of outage_platform world0 "''doc-a''"] by blast
  then obtain new where new: "fetch_log (snd ?run) = fetch_log world0 @ new"
    and fail: "\<forall>i < length new. \<forall>e.
        call_outcome outage_platform (length (fetch_log world0) + i) (new ! i) = Inl e
          \<longrightarrow> fst ?run = Inl e"
    unfolding propagates_def by blast
  from new have eq: "new = fetch_log (snd ?run)"
    by (simp add: world0_def)
  from fail [rule_format, of 1 "ApiError 503"] len out
  have "fst ?run = Inl (ApiError 503)"
    by (simp add: eq world0_def)
  with len out show ?thesis by blast
qed


subsection \<open>Re-running the pipeline\<close>

lemma and_then_agree:
  assumes "fst r1 = fst r2"
    and "\<And>x wa wb. agree_except ks (fst (f1 x wa)) (fst (f2 x wb))"
  shows "agree_except ks (fst (and_then r1 f1)) (fst (and_then r2 f2))"
proof (cases r1)
  case (Pair a1 wa)
  obtain a2 wb where r2: "r2 = (a2, wb)" by (cases r2)
  from assms(1) Pair r2 have a: "a2 = a1" by simp
  show ?thesis
  proof (cases a1)
    case (Inl e)
    then show ?thesis by (simp add: Pair r2 a agree_except_def)
  next
    case (Inr x)
    then show ?thesis using assms(2) by (simp add: Pair r2 a)
  qed
qed

lemma fst_and_then_rewrap:
  "fst r1 = fst r2 \<Longrightarrow> fst (and_then r1 (rewrap k)) = fst (and_then r2 (rewrap k))"
  by (cases r1; cases r2) (auto simp: and_then_def rewrap_def split: sum.splits)

lemma rerun_stages:
  assumes parse: "JSON_parse p1 = JSON_parse p2"
    and det: "\<forall>n m req. fetch p1 n req = fetch p2 m req"
  shows "fst (callOpenAIStructured p1 req wa) = fst (callOpenAIStructured p2 req wb)"
    and "fst (parseSimpleFieldsBatch p1 source wa) = fst (parseSimpleFieldsBatch p2 source wb)"
    and "fst (analyzeACVComplexity p1 t context wa) = fst (analyzeACVComplexity p2 t context wb)"
    and "fst (analyzeCustomerComplexity p1 t context wa)
           = fst (analyzeCustomerComplexity p2 t context wb)"
    and "fst (convertChurnToAnnual p1 t wa) = fst (convertChurnToAnnual p2 t wb)"
    and "fst (normalizeMonthlyBurn p1 t wa) = fst (normalizeMonthlyBurn p2 t wb)"
    and "fst (extractLastRoundValuation p1 t context wa)
           = fst (extractLastRoundValuation p2 t context wb)"
    and "fst (parseSimpleFieldsBatch_v2 p1 source wa)
           = fst (parseSimpleFieldsBatch_v2 p2 source wb)"
    and "fst (analyzeACVComplexity_v2 p1 t wa) = fst (analyzeACVComplexity_v2 p2 t wb)"
    and "fst (analyzeCustomerComplexity_v2 p1 t wa) = fst (analyzeCustomerComplexity_v2 p2 t wb)"
    and "fst (convertChurnToAnnual_v2 p1 t wa) = fst (convertChurnToAnnual_v2 p2 t wb)"
    and "fst (normalizeMonthlyBurn_v2 p1 t wa) = fst (normalizeMonthlyBurn_v2 p2 t wb)"
    and "fst (extractLastRoundValuation_v2 p1 t wa) = fst (extractLastRoundValuation_v2 p2 t wb)"
proof -
  have call: "fst (callOpenAIStructured p1 req wa) = fst (callOpenAIStructured p2 req wb)"
    for req wa wb
  proof -
    from det have "fetch p1 (length (fetch_log wa)) req = fetch p2 (length (fetch_log wb)) req"
      by blast
    then show ?thesis
      unfolding callOpenAIStructured_def call_outcome_def read_response_def parse by simp
  qed
  note rw = fst_and_then_rewrap [OF call]
  show "fst (callOpenAIStructured p1 req wa) = fst (callOpenAIStructured p2 req wb)"
    by (rule call)
  show "fst (parseSimpleFieldsBatch p1 source wa) = fst (parseSimpleFieldsBatch p2 source wb)"
    by (simp add: parseSimpleFieldsBatch_def call)
  show "fst (analyzeACVComplexity p1 t context wa) = fst (analyzeACVComplexity p2 t context wb)"
    by (simp add: analyzeACVComplexity_def call split: sum.splits bool.splits)
  show "fst (analyzeCustomerComplexity p1 t context wa)
           = fst (analyzeCustomerComplexity p2 t context wb)"
    by (simp add: analyzeCustomerComplexity_def call split: sum.splits bool.splits)
  show "fst (convertChurnToAnnual p1 t wa) = fst (convertChurnToAnnual p2 t wb)"
    by (simp add: convertChurnToAnnual_def rw split: sum.splits bool.splits)
  show "fst (normalizeMonthlyBurn p1 t wa) = fst (normalizeMonthlyBurn p2 t wb)"
    by (simp add: normalizeMonthlyBurn_def rw split: sum.splits bool.splits)
  show "fst (extractLastRoundValuation p1 t context wa)
           = fst (extractLastRoundValuation p2 t context wb)"
    by (simp add: extractLastRoundValuation_def rw split: sum.splits bool.splits)
  show "fst (parseSimpleFieldsBatch_v2 p1 source wa)
           = fst (parseSimpleFieldsBatch_v2 p2 source wb)"
    by (simp add: parseSimpleFieldsBatch_v2_def call)
  show "fst (analyzeACVComplexity_v2 p1 t wa) = fst (analyzeACVComplexity_v2 p2 t wb)"
    by (simp add: analyzeACVComplexity_v2_def call split: sum.splits bool.splits)
  show "fst (analyzeCustomerComplexity_v2 p1 t wa) = fst (analyzeCustomerComplexity_v2 p2 t wb)"
    by (simp add: analyzeCustomerComplexity_v2_def call split: sum.splits bool.splits)
  show "fst (convertChurnToAnnual_v2 p1 t wa) = fst (convertChurnToAnnual_v2 p2 t wb)"
    by (simp add: convertChurnToAnnual_v2_def rw split: sum.splits bool.splits)
  show "fst (normalizeMonthlyBurn_v2 p1 t wa) = fst (normalizeMonthlyBurn_v2 p2 t wb)"
    by (simp add: normalizeMonthlyBurn_v2_def rw split: sum.splits bool.splits)
  show "fst (extractLastRoundValuation_v2 p1 t wa) = fst (extractLastRoundValuation_v2 p2 t wb)"
    by (simp add: extractLastRoundValuation_v2_def rw split: sum.splits bool.splits)
qed

lemma assemble_agree:
  "agree_except [''id'', ''date_created'', ''doc_url'']
     (fst (assembleCompleteRecord p1 d1 rawFields simpleFields acvData customerData churnData
             burnData valuationData wa))
     (fst (assembleCompleteRecord p2 d2 rawFields simpleFields acvData customerData churnData
             burnData valuationData wb))"
  "agree_except [''id'', ''date_created'']
     (fst (assembleCompleteRecord p1 d rawFields simpleFields acvData customerData churnData
             burnData valuationData wa))
     (fst (assembleCompleteRecord p2 d rawFields simpleFields acvData customerData churnData
             burnData valuationData wb))"
  "agree_except [''id'', ''date_created'', ''doc_url'']
     (fst (assembleCompleteRecord_v2 p1 d1 simpleFields acvData customerData churnData
             burnData valuationData wa))
     (fst (assembleCompleteRecord_v2 p2 d2 simpleFields acvData customerData churnData
             burnData valuationData wb))"
  "agree_except [''id'', ''date_created'']
     (fst (assembleCompleteRecord_v2 p1 d simpleFields acvData customerData churnData
             burnData valuationData wa))
     (fst (assembleCompleteRecord_v2 p2 d simpleFields acvData customerData churnData
             burnData valuationData wb))"
  by (simp_all add: agree_except_def assembleCompleteRecord_def assembleCompleteRecord_v2_def
      Let_def drop_fields_def split: sum.splits)

lemma parse_agree:
  assumes same_text: "getText p1 d1 = getText p2 d2"
    and match: "text_match p1 = text_match p2"
    and parse: "JSON_parse p1 = JSON_parse p2"
    and det: "\<forall>n m req. fetch p1 n req = fetch p2 m req"
  shows "agree_except [''id'', ''date_created'', ''doc_url'']
           (fst (parseCompanyFromDoc p1 d1 w1)) (fst (parseCompanyFromDoc p2 d2 w2))"
proof -
  have ex: "extractRawFieldsFromDoc p1 d1 = extractRawFieldsFromDoc p2 d2"
    unfolding extractRawFieldsFromDoc_def same_text match by (rule refl)
  show ?thesis
  proof (cases "extractRawFieldsFromDoc p2 d2")
    case (Inl e)
    then show ?thesis by (simp add: parseCompanyFromDoc_def ex agree_except_def)
  next
    case (Inr rawFields)
    show ?thesis
      unfolding parseCompanyFromDoc_def ex Inr sum.case
      by (intro and_then_agree rerun_stages [OF parse det] assemble_agree)
  qed
qed

lemma parse_agree_same_document:
  assumes same_text: "getText p1 d = getText p2 d"
    and match: "text_match p1 = text_match p2"
    and parse: "JSON_parse p1 = JSON_parse p2"
    and det: "\<forall>n m req. fetch p1 n req = fetch p2 m req"
  shows "agree_except [''id'', ''date_created'']
           (fst (parseCompanyFromDoc p1 d w1)) (fst (parseCompanyFromDoc p2 d w2))"
proof -
  have ex: "extractRawFieldsFromDoc p1 d = extractRawFieldsFromDoc p2 d"
    unfolding extractRawFieldsFromDoc_def same_text match by (rule refl)
  show ?thesis
  proof (cases "extractRawFieldsFromDoc p2 d")
    case (Inl e)
    then show ?thesis by (simp add: parseCompanyFromDoc_def ex agree_except_def)
  next
    case (Inr rawFields)
    show ?thesis
      unfolding parseCompanyFromDoc_def ex Inr sum.case
      by (intro and_then_agree rerun_stages [OF parse det] assemble_agree)
  qed
qed

lemma parse_v2_agree:
  assumes same_text: "getText p1 d1 = getText p2 d2"
    and parse: "JSON_parse p1 = JSON_parse p2"
    and det: "\<forall>n m req. fetch p1 n req = fetch p2 m req"
  shows "agree_except [''id'', ''date_created'', ''doc_url'']
           (fst (parseCompanyFromDoc_v2 p1 d1 w1)) (fst (parseCompanyFromDoc_v2 p2 d2 w2))"
proof (cases "getText p2 d2")
  case (Inl e)
  then show ?thesis by (simp add: parseCompanyFromDoc_v2_def same_text agree_except_def)
next
  case (Inr docText)
  show ?thesis
    unfolding parseCompanyFromDoc_v2_def same_text Inr sum.case
    by (intro and_then_agree rerun_stages [OF parse det] assemble_agree)
qed

lemma parse_v2_agree_same_document:
  assumes same_text: "getText p1 d = getText p2 d"
    and parse: "JSON_parse p1 = JSON_parse p2"
    and det: "\<forall>n m req. fetch p1 n req = fetch p2 m req"
  shows "agree_except [''id'', ''date_created'']
           (fst (parseCompanyFromDoc_v2 p1 d w1)) (fst (parseCompanyFromDoc_v2 p2 d w2))"
proof (cases "getText p2 d")
  case (Inl e)
  then show ?thesis by (simp add: parseCompanyFromDoc_v2_def same_text agree_except_def)
next
  case (Inr docText)
  show ?thesis
    unfolding parseCompanyFromDoc_v2_def same_text Inr sum.case
    by (intro and_then_agree rerun_stages [OF parse det] assemble_agree)
qed

text \<open>
  Against claim C5 as it is worded.  Two documents with the same text, read through the same
  deterministic service, give records that differ in \<open>doc_url\<close>, which is built from the
  document id.
\<close>

theorem same_text_other_document_counterexample:
  "getText odd_platform ''doc-a'' = getText odd_platform ''doc-b''
   \<and> field_of (parseCompanyFromDoc odd_platform ''doc-a'' world0) ''doc_url''
       = Some (JStr ''https://docs.google.com/document/d/doc-a'')
   \<and> field_of (parseCompanyFromDoc odd_platform ''doc-b'' world0) ''doc_url''
       = Some (JStr ''https://docs.google.com/document/d/doc-b'')"
  by code_simp

text \<open>
  Claim C5, amended.  Take two runs of \<^verbatim>\<open>parseCompanyFromDoc\<close> (either version) whose
  documents have the same text (or fail to open alike), with the same regular-expression
  matching and JSON parsing, and with a classification service that is one deterministic
  function of the request; the identifiers, the clocks and the worlds the runs start in
  may differ.  Then both runs throw the same error, or both return a record, and the records
  agree on every field except \<open>id\<close>, \<open>date_created\<close> and \<open>doc_url\<close>.  When the two runs are
  on the same document id they agree on \<open>doc_url\<close> as well.
\<close>

theorem rerun_agrees_except_id_and_date:
  assumes same_text: "getText p1 d1 = getText p2 d2"
    and match: "text_match p1 = text_match p2"
    and parse: "JSON_parse p1 = JSON_parse p2"
    and det: "\<forall>n m req. fetch p1 n req = fetch p2 m req"
  shows "agree_except [''id'', ''date_created'', ''doc_url'']
           (fst (parseCompanyFromDoc p1 d1 w1)) (fst (parseCompanyFromDoc p2 d2 w2))
       \<and> (d1 = d2 \<longrightarrow>
            agree_except [''id'', ''date_created'']
              (fst (parseCompanyFromDoc p1 d1 w1)) (fst (parseCompanyFromDoc p2 d2 w2)))
       \<and> agree_except [''id'', ''date_created'', ''doc_url'']
           (fst (parseCompanyFromDoc_v2 p1 d1 w1)) (fst (parseCompanyFromDoc_v2 p2 d2 w2))
       \<and> (d1 = d2 \<longrightarrow>
            agree_except [''id'', ''date_created'']
              (fst (parseCompanyFromDoc_v2 p1 d1 w1)) (fst (parseCompanyFromDoc_v2 p2 d2 w2)))"
proof (intro conjI impI)
  show "agree_except [''id'', ''date_created'', ''doc_url'']
           (fst (parseCompanyFromDoc p1 d1 w1)) (fst (parseCompanyFromDoc p2 d2 w2))"
    by (rule parse_agree [OF same_text match parse det])
  show "agree_except [''id'', ''date_created'', ''doc_url'']
           (fst (parseCompanyFromDoc_v2 p1 d1 w1)) (fst (parseCompanyFromDoc_v2 p2 d2 w2))"
    by (rule parse_v2_agree [OF same_text parse det])
next
  assume same: "d1 = d2"
  from same_text have t: "getText p1 d2 = getText p2 d2" by (simp add: same)
  show "agree_except [''id'', ''date_created'']
              (fst (parseCompanyFromDoc p1 d1 w1)) (fst (parseCompanyFromDoc p2 d2 w2))"
    unfolding same by (rule parse_agree_same_document [OF t match parse det])
next
  assume same: "d1 = d2"
  from same_text have t: "getText p1 d2 = getText p2 d2" by (simp add: same)
  show "agree_except [''id'', ''date_created'']
              (fst (parseCompanyFromDoc_v2 p1 d1 w1)) (fst (parseCompanyFromDoc_v2 p2 d2 w2))"
    unfolding same by (rule parse_v2_agree_same_document [OF t parse det])
qed

text \<open>The same document, parsed at two different times.\<close>

theorem rerun_agrees_except_id_and_date_witness:
  "agree_except [''id'', ''date_created'']
     (fst (parseCompanyFromDoc odd_platform ''doc-a'' world0))
     (fst (parseCompanyFromDoc later_platform ''doc-a'' world1))
   \<and> field_of (parseCompanyFromDoc odd_platform ''doc-a'' world0) ''id'' = Some (JStr ''uuid-'')
   \<and> field_of (parseCompanyFromDoc later_platform ''doc-a'' world1) ''id''
       = Some (JStr ''later-iiiii'')
   \<and> field_of (parseCompanyFromDoc odd_platform ''doc-a'' world0) ''acv_2'' = Some (JNum 800)
   \<and> field_of (parseCompanyFromDoc later_platform ''doc-a'' world1) ''acv_2''
       = Some (JNum 800)"
proof -
  have same_text: "getText odd_platform ''doc-a'' = getText later_platform ''doc-a''"
    by (simp add: later_platform_def)
  have match: "text_match odd_platform = text_match later_platform"
    by (simp add: later_platform_def)
  have parse: "JSON_parse odd_platform = JSON_parse later_platform"
    by (simp add: later_platform_def)
  have det: "\<forall>n m req. fetch odd_platform n req = fetch later_platform m req"
    by (simp add: later_platform_def odd_platform_def scripted_platform_def)
  have ids: "field_of (parseCompanyFromDoc odd_platform ''doc-a'' world0) ''id''
               = Some (JStr ''uuid-'')"
    "field_of (parseCompanyFromDoc later_platform ''doc-a'' world1) ''id''
               = Some (JStr ''later-iiiii'')"
    "field_of (parseCompanyFromDoc odd_platform ''doc-a'' world0) ''acv_2'' = Some (JNum 800)"
    "field_of (parseCompanyFromDoc later_platform ''doc-a'' world1) ''acv_2''
               = Some (JNum 800)"
    by code_simp+
  show ?thesis
    using rerun_agrees_except_id_and_date [OF same_text match parse det, of world0 world1] ids
    by simp
qed


subsection \<open>Secondary segment fields\<close>















subsection \<open>The batch driver\<close>

lemma and_then_keeps_sheet:
  assumes "sheet (snd r) = s"
    and "\<And>x w1. sheet w1 = s \<Longrightarrow> sheet (snd (f x w1)) = s"
  shows "sheet (snd (and_then r f)) = s"
  using assms by (cases r) (auto simp: and_then_def split: sum.splits)

lemma call_keeps_sheet: "sheet (snd (callOpenAIStructured p req w)) = sheet w"
  by (simp add: callOpenAIStructured_def)

lemma rewrap_keeps_sheet: "sheet (snd (rewrap k res w)) = sheet w"
  by (simp add: rewrap_def split: sum.splits)

lemma call_rewrap_keeps_sheet:
  "sheet (snd (and_then (callOpenAIStructured p req w) (rewrap k))) = sheet w"
  by (intro and_then_keeps_sheet) (simp_all add: call_keeps_sheet rewrap_keeps_sheet)

lemma stages_keep_sheet:
  "sheet (snd (parseSimpleFieldsBatch p source w)) = sheet w"
  "sheet (snd (analyzeACVComplexity p t context w)) = sheet w"
  "sheet (snd (analyzeCustomerComplexity p t context w)) = sheet w"
  "sheet (snd (convertChurnToAnnual p t w)) = sheet w"
  "sheet (snd (normalizeMonthlyBurn p t w)) = sheet w"
  "sheet (snd (extractLastRoundValuation p t context w)) = sheet w"
  "sheet (snd (parseSimpleFieldsBatch_v2 p source w)) = sheet w"
  "sheet (snd (analyzeACVComplexity_v2 p t w)) = sheet w"
  "sheet (snd (analyzeCustomerComplexity_v2 p t w)) = sheet w"
  "sheet (snd (convertChurnToAnnual_v2 p t w)) = sheet w"
  "sheet (snd (normalizeMonthlyBurn_v2 p t w)) = sheet w"
  "sheet (snd (extractLastRoundValuation_v2 p t w)) = sheet w"
  by (simp_all add: parseSimpleFieldsBatch_def analyzeACVComplexity_def
      analyzeCustomerComplexity_def convertChurnToAnnual_def normalizeMonthlyBurn_def
      extractLastRoundValuation_def parseSimpleFieldsBatch_v2_def analyzeACVComplexity_v2_def
      analyzeCustomerComplexity_v2_def convertChurnToAnnual_v2_def normalizeMonthlyBurn_v2_def
      extractLastRoundValuation_v2_def call_keeps_sheet call_rewrap_keeps_sheet
      split: sum.splits bool.splits)

lemma parse_keeps_sheet: "sheet (snd (parseCompanyFromDoc p docId w)) = sheet w"
  unfolding parseCompanyFromDoc_def
  by (auto split: sum.splits intro!: and_then_keeps_sheet
      simp: stages_keep_sheet assemble_world)

lemma parse_v2_keeps_sheet: "sheet (snd (parseCompanyFromDoc_v2 p docId w)) = sheet w"
  unfolding parseCompanyFromDoc_v2_def
  by (auto split: sum.splits intro!: and_then_keeps_sheet
      simp: stages_keep_sheet assemble_world)

text \<open>
  Claim C10.  When \<^verbatim>\<open>parseCompanyFromDoc\<close> (either version) returns a record whose
  \<open>company_name\<close> is \<^verbatim>\<open>null\<close> or the empty string, the driver's loop body leaves
  both counters as they were and does not call \<^verbatim>\<open>saveCompanyRecord\<close>: the world
  after the document is the world the parse left, and its sheet is the sheet from before
  the document.  (The driver writes a line to the execution log, which is not part of the
  model.)
\<close>

theorem nameless_record_is_skipped:
  assumes "obj_get companyRecord ''company_name'' = JNull
           \<or> obj_get companyRecord ''company_name'' = JStr []"
  shows "(parseCompanyFromDoc p docId w = (Inr companyRecord, w1) \<longrightarrow>
            process_document parseCompanyFromDoc p docId (n, w) = (n, w1)
          \<and> sheet w1 = sheet w
          \<and> document_outcome parseCompanyFromDoc p docId w = Skipped)
       \<and> (parseCompanyFromDoc_v2 p docId w = (Inr companyRecord, w1) \<longrightarrow>
            process_document parseCompanyFromDoc_v2 p docId (n, w) = (n, w1)
          \<and> sheet w1 = sheet w
          \<and> document_outcome parseCompanyFromDoc_v2 p docId w = Skipped)"
proof -
  from assms have falsy: "\<not> truthy (obj_get companyRecord ''company_name'')"
    by auto
  show ?thesis
  proof (intro conjI impI)
    assume run: "parseCompanyFromDoc p docId w = (Inr companyRecord, w1)"
    from run falsy show "process_document parseCompanyFromDoc p docId (n, w) = (n, w1)"
      by (simp add: process_document_def)
    from run parse_keeps_sheet [of p docId w] show "sheet w1 = sheet w"
      by simp
    from run falsy show "document_outcome parseCompanyFromDoc p docId w = Skipped"
      by (simp add: document_outcome_def)
  next
    assume run: "parseCompanyFromDoc_v2 p docId w = (Inr companyRecord, w1)"
    from run falsy show "process_document parseCompanyFromDoc_v2 p docId (n, w) = (n, w1)"
      by (simp add: process_document_def)
    from run parse_v2_keeps_sheet [of p docId w] show "sheet w1 = sheet w"
      by simp
    from run falsy show "document_outcome parseCompanyFromDoc_v2 p docId w = Skipped"
      by (simp add: document_outcome_def)
  qed
qed

text \<open>A note without a company name parses to a record, and the driver passes over it.\<close>

theorem nameless_record_is_skipped_witness:
  "field_of (parseCompanyFromDoc nameless_platform ''doc-x'' world0) ''company_name''
     = Some JNull
   \<and> field_of (parseCompanyFromDoc nameless_platform ''doc-x'' world0) ''acv_2''
     = Some (JNum 800)
   \<and> fst (process_document parseCompanyFromDoc nameless_platform ''doc-x''
            (\<lparr>processedCount = 3, errorCount = 1\<rparr>, world0))
     = \<lparr>processedCount = 3, errorCount = 1\<rparr>
   \<and> sheet (snd (process_document parseCompanyFromDoc nameless_platform ''doc-x''
            (\<lparr>processedCount = 3, errorCount = 1\<rparr>, world0))) = None"
proof -
  let ?run = "parseCompanyFromDoc nameless_platform ''doc-x'' world0"
  obtain r w1 where run: "?run = (r, w1)" by (cases ?run)
  have f: "field_of ?run ''company_name'' = Some JNull"
    "field_of ?run ''acv_2'' = Some (JNum 800)"
    by code_simp+
  from f(1) run obtain companyRecord where r: "r = Inr companyRecord"
    and name: "obj_get companyRecord ''company_name'' = JNull"
    by (cases r) (auto simp: field_of_def)
  from nameless_record_is_skipped
         [of companyRecord nameless_platform "''doc-x''" world0 w1
             "\<lparr>processedCount = 3, errorCount = 1\<rparr>"] name run r
  have "process_document parseCompanyFromDoc nameless_platform ''doc-x''
            (\<lparr>processedCount = 3, errorCount = 1\<rparr>, world0)
          = (\<lparr>processedCount = 3, errorCount = 1\<rparr>, w1)" and "sheet w1 = sheet world0"
    by simp_all
  with f show ?thesis by (simp add: world0_def)
qed


lemma process_files_append:
  "process_files parse p (xs @ ys) st = process_files parse p ys (process_files parse p xs st)"
  by (induction xs arbitrary: st) simp_all

lemma process_folders_concat:
  "process_folders parse p fs st = process_files parse p (concat fs) st"
  by (induction fs arbitrary: st) (simp_all add: process_files_append)

lemma process_document_counts:
  "processedCount (fst (process_document parse p docId (n, w)))
     = processedCount n + (if document_outcome parse p docId w = Processed then 1 else 0)
   \<and> errorCount (fst (process_document parse p docId (n, w)))
     = errorCount n + (if document_outcome parse p docId w = Failed then 1 else 0)"
  by (simp add: process_document_def document_outcome_def split: prod.splits sum.splits)

lemma process_files_counts:
  "processedCount (fst (process_files parse p docs st))
     = processedCount (fst st) + count_list (outcomes parse p docs st) Processed
   \<and> errorCount (fst (process_files parse p docs st))
     = errorCount (fst st) + count_list (outcomes parse p docs st) Failed
   \<and> length (outcomes parse p docs st) = length docs"
proof (induction docs arbitrary: st)
  case Nil
  then show ?case by simp
next
  case (Cons docId docs)
  obtain n w where st: "st = (n, w)" by (cases st)
  from Cons.IH [of "process_document parse p docId st"]
    process_document_counts [of parse p docId n w]
  show ?case by (simp add: st)
qed

lemma save_to_database_fails: "success (saveCompanyToDatabase p w companyRecord) = False"
  by (simp add: saveCompanyToDatabase_def findExistingCompany_def insertNewCompany_def
      db_failure_def split: sum.splits)

lemma parse_and_save_fails: "success (fst (parseAndSaveCompany parse p docId w)) = False"
  by (simp add: parseAndSaveCompany_def save_to_database_fails split: prod.splits sum.splits)

lemma batch_fold_results:
  "fold (batch_step parse p) docIds (r, w)
     = (r\<lparr>successful := successful r
                           + length (filter success (fst (results_in_turn parse p docIds w))),
          failed := failed r
                      + length (filter (\<lambda>x. \<not> success x) (fst (results_in_turn parse p docIds w))),
          details := details r @ fst (results_in_turn parse p docIds w)\<rparr>,
        snd (results_in_turn parse p docIds w))"
proof (induction docIds arbitrary: r w)
  case Nil
  then show ?case by simp
next
  case (Cons docId docIds)
  obtain x w1 where one: "parseAndSaveCompany parse p docId w = (x, w1)"
    by (cases "parseAndSaveCompany parse p docId w")
  obtain rs w2 where rest: "results_in_turn parse p docIds w1 = (rs, w2)"
    by (cases "results_in_turn parse p docIds w1")
  have step: "batch_step parse p docId (r, w)
                = ((if success x then r\<lparr>successful := successful r + 1\<rparr>
                    else r\<lparr>failed := failed r + 1\<rparr>)\<lparr>details := details r @ [x]\<rparr>, w1)"
    by (simp add: batch_step_def one)
  show ?case
    by (cases "success x") (simp_all add: step one rest Cons.IH)
qed

lemma length_results_in_turn:
  "length (fst (results_in_turn parse p docIds w)) = length docIds"
proof (induction docIds arbitrary: w)
  case Nil
  then show ?case by simp
next
  case (Cons docId docIds)
  obtain x w1 where one: "parseAndSaveCompany parse p docId w = (x, w1)"
    by (cases "parseAndSaveCompany parse p docId w")
  obtain rs w2 where rest: "results_in_turn parse p docIds w1 = (rs, w2)"
    by (cases "results_in_turn parse p docIds w1")
  from Cons.IH [of w1] rest have "length rs = length docIds" by simp
  then show ?case by (simp add: one rest)
qed

text \<open>
  Against claim C8 as it is worded.  A document whose record has no company name does not
  fail, and it is not processed either: the driver saves nothing and counts nothing.
\<close>

theorem nameless_document_is_not_processed_counterexample:
  "concat (folders nameless_platform) = [''doc-x'']
   \<and> field_of (parseCompanyFromDoc nameless_platform ''doc-x'' world0) ''company_name''
       = Some JNull
   \<and> processAllCompaniesInMasterFolder parseCompanyFromDoc nameless_platform world0
       = (Inr \<lparr>processedCount = 0, errorCount = 0\<rparr>,
          snd (parseCompanyFromDoc nameless_platform ''doc-x'' world0))
   \<and> sheet (snd (processAllCompaniesInMasterFolder parseCompanyFromDoc nameless_platform world0))
       = None"
  by code_simp

text \<open>
  Claim C8, amended.  With the master folder configured,
  \<^verbatim>\<open>processAllCompaniesInMasterFolder\<close> never throws, whatever the documents do: it returns
  the counters and the world that the loop over all documents of all subfolders leaves.  Each
  document is handled in the state the documents before it left, whatever became of them,
  and the remaining documents are handled after it.  For one document: when parsing throws,
  the error count goes up by one and the world is the one the parse left; when the record has
  a company name and saving throws, the error count goes up by one and the world is the one
  the save left; when the record has a company name and saving returns, the processed count
  goes up by one and the world is the one the save left, so the document is parsed and saved;
  when the record has no company name the document is skipped, nothing is saved and no
  counter changes.  So the processed count is the number of documents parsed and saved, and
  the error count the number of documents whose parsing or saving threw.
  \<^verbatim>\<open>batchParseAndSave\<close> likewise returns, for every list, the results of
  \<^verbatim>\<open>parseAndSaveCompany\<close> on each document in turn, with the numbers of successful
  and failed ones; a document whose parsing throws gives a failure result with the
  error's text, and the next document starts from the world that parse left (with the
  placeholder database operations of the utility no document is ever successful).
\<close>

theorem batch_isolates_failures:
  "(\<forall>folderId. MASTER_FOLDER_ID p = Some folderId \<and> folderId \<noteq> [] \<longrightarrow>
      processAllCompaniesInMasterFolder parse p w
        = (Inr (fst (process_files parse p (concat (folders p))
                       (\<lparr>processedCount = 0, errorCount = 0\<rparr>, w))),
           snd (process_files parse p (concat (folders p))
                  (\<lparr>processedCount = 0, errorCount = 0\<rparr>, w))))
   \<and> process_files parse p (before @ docId # later) st
       = process_files parse p later
           (process_document parse p docId (process_files parse p before st))
   \<and> (\<forall>e w1. parse p docId w = (Inl e, w1) \<longrightarrow>
         process_document parse p docId (n, w) = (n\<lparr>errorCount := errorCount n + 1\<rparr>, w1))
   \<and> (\<forall>companyRecord w1 e w2.
         parse p docId w = (Inr companyRecord, w1)
         \<and> truthy (obj_get companyRecord ''company_name'')
         \<and> saveCompanyRecord p companyRecord w1 = (Inl e, w2) \<longrightarrow>
         process_document parse p docId (n, w) = (n\<lparr>errorCount := errorCount n + 1\<rparr>, w2))
   \<and> (\<forall>companyRecord w1 w2.
         parse p docId w = (Inr companyRecord, w1)
         \<and> truthy (obj_get companyRecord ''company_name'')
         \<and> saveCompanyRecord p companyRecord w1 = (Inr (), w2) \<longrightarrow>
         process_document parse p docId (n, w)
           = (n\<lparr>processedCount := processedCount n + 1\<rparr>, w2))
   \<and> (\<forall>companyRecord w1.
         parse p docId w = (Inr companyRecord, w1)
         \<and> \<not> truthy (obj_get companyRecord ''company_name'') \<longrightarrow>
         process_document parse p docId (n, w) = (n, w1))
   \<and> processedCount (fst (process_files parse p docs st))
       = processedCount (fst st) + count_list (outcomes parse p docs st) Processed
   \<and> errorCount (fst (process_files parse p docs st))
       = errorCount (fst st) + count_list (outcomes parse p docs st) Failed
   \<and> length (outcomes parse p docs st) = length docs
   \<and> batchParseAndSave parse p docIds w
       = (\<lparr>total_count = length docIds,
            successful = length (filter success (fst (results_in_turn parse p docIds w))),
            failed = length (filter (\<lambda>x. \<not> success x) (fst (results_in_turn parse p docIds w))),
            details = fst (results_in_turn parse p docIds w)\<rparr>,
          snd (results_in_turn parse p docIds w))
   \<and> length (fst (results_in_turn parse p docIds w)) = length docIds
   \<and> (\<forall>e w1. parse p docId w = (Inl e, w1) \<longrightarrow>
         parseAndSaveCompany parse p docId w
           = (\<lparr>success = False, error_text = Some (error_toString e)\<rparr>, w1))
   \<and> (\<forall>companyRecord w1. parse p docId w = (Inr companyRecord, w1) \<longrightarrow>
         snd (parseAndSaveCompany parse p docId w) = w1
         \<and> \<not> success (fst (parseAndSaveCompany parse p docId w)))"
proof (intro conjI allI impI)
  fix folderId
  assume "MASTER_FOLDER_ID p = Some folderId \<and> folderId \<noteq> []"
  then show "processAllCompaniesInMasterFolder parse p w
        = (Inr (fst (process_files parse p (concat (folders p))
                       (\<lparr>processedCount = 0, errorCount = 0\<rparr>, w))),
           snd (process_files parse p (concat (folders p))
                  (\<lparr>processedCount = 0, errorCount = 0\<rparr>, w)))"
    by (auto simp: processAllCompaniesInMasterFolder_def process_folders_concat
        split: prod.splits)
next
  show "process_files parse p (before @ docId # later) st
       = process_files parse p later
           (process_document parse p docId (process_files parse p before st))"
    by (simp add: process_files_append)
next
  fix e w1
  assume "parse p docId w = (Inl e, w1)"
  then show "process_document parse p docId (n, w) = (n\<lparr>errorCount := errorCount n + 1\<rparr>, w1)"
    by (simp add: process_document_def)
next
  fix companyRecord w1 e w2
  assume "parse p docId w = (Inr companyRecord, w1)
         \<and> truthy (obj_get companyRecord ''company_name'')
         \<and> saveCompanyRecord p companyRecord w1 = (Inl e, w2)"
  then show "process_document parse p docId (n, w) = (n\<lparr>errorCount := errorCount n + 1\<rparr>, w2)"
    by (simp add: process_document_def)
next
  fix companyRecord w1 w2
  assume "parse p docId w = (Inr companyRecord, w1)
         \<and> truthy (obj_get companyRecord ''company_name'')
         \<and> saveCompanyRecord p companyRecord w1 = (Inr (), w2)"
  then show "process_document parse p docId (n, w)
           = (n\<lparr>processedCount := processedCount n + 1\<rparr>, w2)"
    by (simp add: process_document_def)
next
  fix companyRecord w1
  assume "parse p docId w = (Inr companyRecord, w1)
         \<and> \<not> truthy (obj_get companyRecord ''company_name'')"
  then show "process_document parse p docId (n, w) = (n, w1)"
    by (simp add: process_document_def)
next
  note c = process_files_counts [of parse p docs st]
  from c show "processedCount (fst (process_files parse p docs st))
       = processedCount (fst st) + count_list (outcomes parse p docs st) Processed" by blast
  from c show "errorCount (fst (process_files parse p docs st))
       = errorCount (fst st) + count_list (outcomes parse p docs st) Failed" by blast
  from c show "length (outcomes parse p docs st) = length docs" by blast
next
  show "batchParseAndSave parse p docIds w
       = (\<lparr>total_count = length docIds,
            successful = length (filter success (fst (results_in_turn parse p docIds w))),
            failed = length (filter (\<lambda>x. \<not> success x) (fst (results_in_turn parse p docIds w))),
            details = fst (results_in_turn parse p docIds w)\<rparr>,
          snd (results_in_turn parse p docIds w))"
    by (simp add: batchParseAndSave_def batch_fold_results)
next
  show "length (fst (results_in_turn parse p docIds w)) = length docIds"
    by (rule length_results_in_turn)
next
  fix e w1
  assume "parse p docId w = (Inl e, w1)"
  then show "parseAndSaveCompany parse p docId w
           = (\<lparr>success = False, error_text = Some (error_toString e)\<rparr>, w1)"
    by (simp add: parseAndSaveCompany_def)
next
  fix companyRecord w1
  assume "parse p docId w = (Inr companyRecord, w1)"
  then show "snd (parseAndSaveCompany parse p docId w) = w1"
    by (simp add: parseAndSaveCompany_def split: sum.splits)
  show "\<not> success (fst (parseAndSaveCompany parse p docId w))"
    by (simp add: parse_and_save_fails)
qed

text \<open>
  Three documents in two subfolders, on a spreadsheet without a sheet: saving the first
  throws, the second cannot be opened, the third is parsed and saved, into the second row of
  the sheet.  And single documents: one that cannot be opened, one that is saved into a sheet
  with headers, one whose save throws, one without a company name.
\<close>

theorem batch_isolates_failures_witness:
  "MASTER_FOLDER_ID batch_platform = Some ''folder-1''
   \<and> concat (folders batch_platform) = [''doc-a'', ''doc-gone'', ''doc-b'']
   \<and> outcomes parseCompanyFromDoc batch_platform [''doc-a'', ''doc-gone'', ''doc-b'']
         (\<lparr>processedCount = 0, errorCount = 0\<rparr>, world0) = [Failed, Failed, Processed]
   \<and> fst (processAllCompaniesInMasterFolder parseCompanyFromDoc batch_platform world0)
       = Inr \<lparr>processedCount = 1, errorCount = 2\<rparr>
   \<and> map_option getLastRow
        (sheet (snd (processAllCompaniesInMasterFolder parseCompanyFromDoc batch_platform world0)))
       = Some 2
   \<and> process_document parseCompanyFromDoc batch_platform ''doc-gone''
        (\<lparr>processedCount = 0, errorCount = 0\<rparr>, world0)
       = (\<lparr>processedCount = 0, errorCount = 1\<rparr>, world0)
   \<and> fst (process_document parseCompanyFromDoc batch_platform ''doc-b''
             (\<lparr>processedCount = 0, errorCount = 0\<rparr>,
              world0\<lparr>sheet := Some [[CStr ''id'', CStr ''company_name'']]\<rparr>))
       = \<lparr>processedCount = 1, errorCount = 0\<rparr>
   \<and> sheet (snd (process_document parseCompanyFromDoc batch_platform ''doc-b''
             (\<lparr>processedCount = 0, errorCount = 0\<rparr>,
              world0\<lparr>sheet := Some [[CStr ''id'', CStr ''company_name'']]\<rparr>)))
       = Some [[CStr ''id'', CStr ''company_name''], [CStr ''uuid-'', CStr ''Acme'']]
   \<and> fst (process_document parseCompanyFromDoc batch_platform ''doc-a''
             (\<lparr>processedCount = 0, errorCount = 0\<rparr>, world0))
       = \<lparr>processedCount = 0, errorCount = 1\<rparr>
   \<and> fst (process_document parseCompanyFromDoc nameless_platform ''doc-x''
             (\<lparr>processedCount = 0, errorCount = 0\<rparr>, world0))
       = \<lparr>processedCount = 0, errorCount = 0\<rparr>
   \<and> fst (batchParseAndSave parseCompanyFromDoc batch_platform [''doc-gone'', ''doc-a''] world0)
       = \<lparr>total_count = 2, successful = 0, failed = 2,
          details = [\<lparr>success = False, error_text = Some ''Exception: Document is missing''\<rparr>,
                     \<lparr>success = False, error_text = None\<rparr>]\<rparr>"
proof -
  let ?p = batch_platform
  let ?parse = parseCompanyFromDoc
  let ?zero = "\<lparr>processedCount = 0, errorCount = 0\<rparr>"
  let ?wh = "world0\<lparr>sheet := Some [[CStr ''id'', CStr ''company_name'']]\<rparr>"
  have cfg: "MASTER_FOLDER_ID ?p = Some ''folder-1''"
    by (simp add: batch_platform_def odd_platform_def scripted_platform_def)
  have docs: "concat (folders ?p) = [''doc-a'', ''doc-gone'', ''doc-b'']"
    by (simp add: batch_platform_def)
  have outs: "outcomes ?parse ?p [''doc-a'', ''doc-gone'', ''doc-b''] (?zero, world0)
                = [Failed, Failed, Processed]"
    by code_simp
  have rows: "map_option getLastRow
        (sheet (snd (processAllCompaniesInMasterFolder ?parse ?p world0))) = Some 2"
    by code_simp
  note all = batch_isolates_failures
               [where p = ?p and parse = ?parse and w = world0 and docId = "''doc-gone''"
                  and n = ?zero and docs = "[''doc-a'', ''doc-gone'', ''doc-b'']"
                  and st = "(?zero, world0)" and docIds = "[''doc-gone'', ''doc-a'']"
                  and before = "[''doc-a'']" and later = "[''doc-b'']"]
  from all cfg have run: "processAllCompaniesInMasterFolder ?parse ?p world0
        = (Inr (fst (process_files ?parse ?p (concat (folders ?p)) (?zero, world0))),
           snd (process_files ?parse ?p (concat (folders ?p)) (?zero, world0)))"
    by blast
  from all have
    pc: "processedCount (fst (process_files ?parse ?p [''doc-a'', ''doc-gone'', ''doc-b'']
                                (?zero, world0)))
           = processedCount (fst (?zero, world0))
             + count_list (outcomes ?parse ?p [''doc-a'', ''doc-gone'', ''doc-b'']
                             (?zero, world0)) Processed"
    and ec: "errorCount (fst (process_files ?parse ?p [''doc-a'', ''doc-gone'', ''doc-b'']
                                (?zero, world0)))
           = errorCount (fst (?zero, world0))
             + count_list (outcomes ?parse ?p [''doc-a'', ''doc-gone'', ''doc-b'']
                             (?zero, world0)) Failed"
    by blast+
  have "processedCount (fst (process_files ?parse ?p [''doc-a'', ''doc-gone'', ''doc-b'']
                                (?zero, world0))) = 1"
    and "errorCount (fst (process_files ?parse ?p [''doc-a'', ''doc-gone'', ''doc-b'']
                                (?zero, world0))) = 2"
    unfolding pc ec outs by simp_all
  then have "fst (process_files ?parse ?p [''doc-a'', ''doc-gone'', ''doc-b''] (?zero, world0))
               = \<lparr>processedCount = 1, errorCount = 2\<rparr>"
    by (cases "fst (process_files ?parse ?p [''doc-a'', ''doc-gone'', ''doc-b''] (?zero, world0))")
       simp
  with run docs have counts:
    "fst (processAllCompaniesInMasterFolder ?parse ?p world0)
       = Inr \<lparr>processedCount = 1, errorCount = 2\<rparr>"
    by simp
  have gone: "?parse ?p ''doc-gone'' world0
                = (Inl (ServiceException ''Document is missing''), world0)"
    by code_simp
  with all have missing: "process_document ?parse ?p ''doc-gone'' (?zero, world0)
       = (\<lparr>processedCount = 0, errorCount = 1\<rparr>, world0)"
    by simp
  have rs: "fst (results_in_turn ?parse ?p [''doc-gone'', ''doc-a''] world0)
              = [\<lparr>success = False, error_text = Some ''Exception: Document is missing''\<rparr>,
                 \<lparr>success = False, error_text = None\<rparr>]"
    by code_simp
  from all have "batchParseAndSave ?parse ?p [''doc-gone'', ''doc-a''] world0
       = (\<lparr>total_count = length [''doc-gone'', ''doc-a''],
            successful = length (filter success
                           (fst (results_in_turn ?parse ?p [''doc-gone'', ''doc-a''] world0))),
            failed = length (filter (\<lambda>x. \<not> success x)
                           (fst (results_in_turn ?parse ?p [''doc-gone'', ''doc-a''] world0))),
            details = fst (results_in_turn ?parse ?p [''doc-gone'', ''doc-a''] world0)\<rparr>,
          snd (results_in_turn ?parse ?p [''doc-gone'', ''doc-a''] world0))"
    by blast
  then have batch: "fst (batchParseAndSave ?parse ?p [''doc-gone'', ''doc-a''] world0)
       = \<lparr>total_count = 2, successful = 0, failed = 2,
          details = [\<lparr>success = False, error_text = Some ''Exception: Document is missing''\<rparr>,
                     \<lparr>success = False, error_text = None\<rparr>]\<rparr>"
    unfolding rs by simp
  have saved: "fst (process_document ?parse ?p ''doc-b'' (?zero, ?wh))
                 = \<lparr>processedCount = 1, errorCount = 0\<rparr>"
  proof -
    obtain r w1 where parsed: "?parse ?p ''doc-b'' ?wh = (r, w1)" by (cases "?parse ?p ''doc-b'' ?wh")
    have "field_of (?parse ?p ''doc-b'' ?wh) ''company_name'' = Some (JStr ''Acme'')"
      by code_simp
    with parsed obtain companyRecord where r: "r = Inr companyRecord"
      and name: "truthy (obj_get companyRecord ''company_name'')"
      by (cases r) (auto simp: field_of_def)
    have "document_outcome ?parse ?p ''doc-b'' ?wh = Processed" by code_simp
    with parsed r name obtain w2 where "saveCompanyRecord ?p companyRecord w1 = (Inr (), w2)"
      by (cases "saveCompanyRecord ?p companyRecord w1")
         (auto simp: document_outcome_def split: sum.splits)
    with batch_isolates_failures
           [where p = ?p and parse = ?parse and w = ?wh and docId = "''doc-b''" and n = ?zero]
         parsed r name
    have "process_document ?parse ?p ''doc-b'' (?zero, ?wh)
            = (?zero\<lparr>processedCount := processedCount ?zero + 1\<rparr>, w2)"
      by blast
    then show ?thesis by simp
  qed
  have row: "sheet (snd (process_document ?parse ?p ''doc-b'' (?zero, ?wh)))
       = Some [[CStr ''id'', CStr ''company_name''], [CStr ''uuid-'', CStr ''Acme'']]"
    by code_simp
  have thrown: "fst (process_document ?parse ?p ''doc-a'' (?zero, world0))
                 = \<lparr>processedCount = 0, errorCount = 1\<rparr>"
  proof -
    obtain r w1 where parsed: "?parse ?p ''doc-a'' world0 = (r, w1)"
      by (cases "?parse ?p ''doc-a'' world0")
    have "field_of (?parse ?p ''doc-a'' world0) ''company_name'' = Some (JStr ''Acme'')"
      by code_simp
    with parsed obtain companyRecord where r: "r = Inr companyRecord"
      and name: "truthy (obj_get companyRecord ''company_name'')"
      by (cases r) (auto simp: field_of_def)
    have "document_outcome ?parse ?p ''doc-a'' world0 = Failed" by code_simp
    with parsed r name obtain e w2 where "saveCompanyRecord ?p companyRecord w1 = (Inl e, w2)"
      by (cases "saveCompanyRecord ?p companyRecord w1")
         (auto simp: document_outcome_def split: sum.splits)
    with batch_isolates_failures
           [where p = ?p and parse = ?parse and w = world0 and docId = "''doc-a''" and n = ?zero]
         parsed r name
    have "process_document ?parse ?p ''doc-a'' (?zero, world0)
            = (?zero\<lparr>errorCount := errorCount ?zero + 1\<rparr>, w2)"
      by blast
    then show ?thesis by simp
  qed
  have skipped: "fst (process_document ?parse nameless_platform ''doc-x'' (?zero, world0)) = ?zero"
  proof -
    obtain r w1 where parsed: "?parse nameless_platform ''doc-x'' world0 = (r, w1)"
      by (cases "?parse nameless_platform ''doc-x'' world0")
    have "field_of (?parse nameless_platform ''doc-x'' world0) ''company_name'' = Some JNull"
      by code_simp
    with parsed obtain companyRecord where r: "r = Inr companyRecord"
      and name: "\<not> truthy (obj_get companyRecord ''company_name'')"
      by (cases r) (auto simp: field_of_def)
    with batch_isolates_failures
           [where p = nameless_platform and parse = ?parse and w = world0
              and docId = "''doc-x''" and n = ?zero]
         parsed
    have "process_document ?parse nameless_platform ''doc-x'' (?zero, world0) = (?zero, w1)"
      by blast
    then show ?thesis by simp
  qed
  from cfg docs outs counts rows missing saved row thrown skipped batch
  show ?thesis by blast
qed

subsection \<open>The sheet\<close>

lemma last_pos_le: "last_pos P xs \<le> length xs"
  by (induction xs) (auto simp: Let_def)

lemma last_pos_holds: "0 < last_pos P xs \<Longrightarrow> P (xs ! (last_pos P xs - 1))"
  by (induction xs) (auto simp: Let_def split: if_splits)

lemma last_pos_after: "last_pos P xs \<le> i \<Longrightarrow> i < length xs \<Longrightarrow> \<not> P (xs ! i)"
proof (induction xs arbitrary: i)
  case Nil
  then show ?case by simp
next
  case (Cons x xs)
  show ?case
  proof (cases i)
    case 0
    with Cons.prems show ?thesis by (auto simp: Let_def split: if_splits)
  next
    case (Suc j)
    with Cons.prems have "last_pos P xs \<le> j" "j < length xs"
      by (auto simp: Let_def split: if_splits)
    with Cons.IH Suc show ?thesis by simp
  qed
qed

lemma last_pos_unique:
  assumes "n \<le> length xs" and "0 < n \<longrightarrow> P (xs ! (n - 1))"
    and "\<forall>i. n \<le> i \<and> i < length xs \<longrightarrow> \<not> P (xs ! i)"
  shows "last_pos P xs = n"
proof (rule ccontr)
  assume ne: "last_pos P xs \<noteq> n"
  show False
  proof (cases "last_pos P xs < n")
    case True
    then have "0 < n" by simp
    with assms(2) have "P (xs ! (n - 1))" by simp
    moreover from True assms(1) have "last_pos P xs \<le> n - 1" "n - 1 < length xs" by simp_all
    ultimately show False using last_pos_after by blast
  next
    case False
    with ne have gt: "n < last_pos P xs" by simp
    then have "P (xs ! (last_pos P xs - 1))" using last_pos_holds [of P xs] by simp
    moreover from gt last_pos_le [of P xs] have "n \<le> last_pos P xs - 1 \<and> last_pos P xs - 1 < length xs"
      by arith
    ultimately show False using assms(3) by blast
  qed
qed

lemma last_pos_zero_iff: "last_pos P xs = 0 \<longleftrightarrow> (\<forall>x \<in> set xs. \<not> P x)"
  by (induction xs) (auto simp: Let_def)

lemma has_content_iff: "has_content row \<longleftrightarrow> (\<exists>c \<in> set row. c \<noteq> blank)"
  by (simp add: has_content_def list_ex_iff)

lemma cell_at_beyond_last_row:
  assumes "getLastRow g < r"
  shows "cell_at g r c = blank"
proof (cases "1 \<le> r \<and> r \<le> length g \<and> 1 \<le> c \<and> c \<le> length (g ! (r - 1))")
  case False
  show ?thesis unfolding cell_at_def by (rule if_not_P) (rule False)
next
  case True
  from assms True have "last_pos has_content g \<le> r - 1" "r - 1 < length g"
    unfolding getLastRow_def by arith+
  then have "\<not> has_content (g ! (r - 1))"
    by (rule last_pos_after)
  moreover from True have "c - 1 < length (g ! (r - 1))" by arith
  then have "g ! (r - 1) ! (c - 1) \<in> set (g ! (r - 1))" by (rule nth_mem)
  ultimately have "g ! (r - 1) ! (c - 1) = blank"
    by (auto simp: has_content_iff)
  with True show ?thesis by (simp add: cell_at_def)
qed

lemma cell_at_write_row:
  assumes "1 \<le> row"
  shows "cell_at (write_row p g row vals) r c =
           (if r = row \<and> 1 \<le> c \<and> c \<le> length vals then to_cell p (vals ! (c - 1))
            else cell_at g r c)"
proof -
  define g' where "g' = g @ replicate (row - length g) []"
  have len: "row \<le> length g'" by (simp add: g'_def)
  have w: "write_row p g row vals
             = g'[row - 1 := map (to_cell p) vals @ drop (length vals) (g' ! (row - 1))]"
    by (simp add: write_row_def g'_def Let_def)
  have same: "cell_at g' r c = cell_at g r c" for r c
    by (auto simp: cell_at_def g'_def nth_append)
  show ?thesis
  proof (cases "r = row")
    case False
    then have "r - 1 \<noteq> row - 1 \<or> r = 0" using assms by auto
    then have "cell_at (write_row p g row vals) r c = cell_at g' r c"
      by (auto simp: w cell_at_def)
    with False same show ?thesis by simp
  next
    case True
    show ?thesis
    proof (cases "1 \<le> c \<and> c \<le> length vals")
      case inside: True
      then have "c - 1 < length vals" by arith
      with inside True assms len show ?thesis
        by (simp add: w cell_at_def nth_append)
    next
      case False
      with True assms len have "cell_at (write_row p g row vals) r c = cell_at g' r c"
        by (auto simp: w cell_at_def nth_append)
      with False same show ?thesis by auto
    qed
  qed
qed

lemma length_write_row: "length (write_row p g row vals) = max (length g) row"
  by (simp add: write_row_def Let_def)

lemma indexOf_ge: "- 1 \<le> indexOf xs v"
  by (induction xs) (auto simp: Let_def)

lemma indexOf_absent: "indexOf xs v = - 1 \<longleftrightarrow> (\<forall>x \<in> set xs. \<not> strict_equals x v)"
proof (induction xs)
  case Nil
  then show ?case by simp
next
  case (Cons x xs)
  from indexOf_ge [of xs v] have "indexOf xs v < 0 \<longleftrightarrow> indexOf xs v = - 1" by arith
  with Cons.IH show ?case by (auto simp: Let_def)
qed

lemma indexOf_first:
  "indexOf xs v = int i \<longleftrightarrow>
     i < length xs \<and> strict_equals (xs ! i) v \<and> (\<forall>j < i. \<not> strict_equals (xs ! j) v)"
proof (induction xs arbitrary: i)
  case Nil
  then show ?case by simp
next
  case (Cons x xs)
  show ?case
  proof (cases "strict_equals x v")
    case True
    then show ?thesis by (cases i) auto
  next
    case False
    show ?thesis
    proof (cases i)
      case 0
      with False indexOf_ge [of xs v] show ?thesis by (auto simp: Let_def)
    next
      case (Suc k)
      have "indexOf (x # xs) v = int (Suc k) \<longleftrightarrow> indexOf xs v = int k"
        using False indexOf_ge [of xs v] by (auto simp: Let_def)
      also have "\<dots> \<longleftrightarrow> k < length xs \<and> strict_equals (xs ! k) v
                         \<and> (\<forall>j < k. \<not> strict_equals (xs ! j) v)"
        by (rule Cons.IH)
      also have "\<dots> \<longleftrightarrow> Suc k < length (x # xs) \<and> strict_equals ((x # xs) ! Suc k) v
                         \<and> (\<forall>j < Suc k. \<not> strict_equals ((x # xs) ! j) v)"
        using False by (auto simp: less_Suc_eq_0_disj)
      finally show ?thesis by (simp add: Suc)
    qed
  qed
qed

lemma indexOf_found:
  assumes "\<exists>x \<in> set xs. strict_equals x v"
  shows "\<exists>i. indexOf xs v = int i"
proof -
  from assms have "indexOf xs v \<noteq> - 1" by (simp add: indexOf_absent)
  with indexOf_ge [of xs v] have "0 \<le> indexOf xs v" by simp
  then show ?thesis by (metis nonneg_int_cases)
qed

lemma getHeaders_row:
  assumes "0 < getLastRow g" and "getHeaders g = Inr headers"
  shows "headers = map (cell_at g 1) [1 ..< Suc (getLastColumn g)] \<and> 0 < getLastColumn g"
proof (cases "getLastColumn g")
  case 0
  with assms show ?thesis by (simp add: getHeaders_def getValues_def)
next
  case (Suc k)
  with assms show ?thesis by (auto simp: getHeaders_def getValues_def)
qed

lemma id_column_values:
  "0 < L \<Longrightarrow>
   getValues g 2 (Suc c) L 1 = Inr (map (\<lambda>r. [cell_at g r (Suc c)]) [2 ..< 2 + L])"
  by (simp add: getValues_def)

lemma concat_singletons: "concat (map (\<lambda>r. [f r]) rs) = map f rs"
  by (induction rs) simp_all

lemma save_on_headed_sheet:
  assumes cfg: "SPREADSHEET_ID p = Some sid" "sid \<noteq> []"
    and sh: "sheet w = Some g"
    and rows: "0 < getLastRow g"
    and hd: "getHeaders g = Inr headers"
    and idc: "indexOf headers (JStr ''id'') = int c"
    and ids: "ids = map (\<lambda>r. cell_at g r (Suc c)) [2 ..< 2 + getLastRow g]"
  shows "saveCompanyRecord p companyRecord w =
           (if indexOf ids (obj_get companyRecord ''id'') + 2 > 1
            then (Inr (), w\<lparr>sheet := Some (write_row p g
                                   (nat (indexOf ids (obj_get companyRecord ''id'') + 2))
                                   (row_of_record p headers companyRecord))\<rparr>)
            else (Inr (), w\<lparr>sheet := Some (appendRow p g
                                               (row_of_record p headers companyRecord))\<rparr>))"
proof -
  from getHeaders_row [OF rows hd] have ne: "length headers \<noteq> 0" by simp
  have n: "nat (int c + 1) = Suc c" by simp
  have lr: "length (row_of_record p headers companyRecord) = length headers"
    by (simp add: row_of_record_def)
  have gv: "getValues g 2 (Suc c) (getLastRow g) (Suc 0) = Inr (map (\<lambda>x. [x]) ids)"
    using id_column_values [OF rows, of g c] unfolding ids by (simp add: comp_def del: upt_Suc)
  have cc: "concat (map (\<lambda>x. [x]) ids) = ids"
    by (induction ids) simp_all
  have ge: "- 1 \<le> indexOf ids (obj_get companyRecord ''id'')"
    by (rule indexOf_ge)
  show ?thesis
    unfolding saveCompanyRecord_def
    using cfg sh hd ne idc ge
    by (simp add: Let_def n gv cc setRowValues_def lr)
qed

lemma id_column_nth:
  "j < L \<Longrightarrow> map (\<lambda>r. cell_at g r (Suc c)) [2 ..< 2 + L] ! j = cell_at g (2 + j) (Suc c)"
  by (simp del: upt_Suc)

lemma save_updates_in_place:
  assumes cfg: "SPREADSHEET_ID p = Some sid" "sid \<noteq> []"
    and sh: "sheet w = Some g"
    and hd: "getHeaders g = Inr headers"
    and idc: "indexOf headers (JStr ''id'') = int c"
    and row: "2 \<le> r" "r \<le> getLastRow g"
      "strict_equals (cell_at g r (Suc c)) (obj_get companyRecord ''id'')"
  shows "\<exists>r0. 2 \<le> r0 \<and> r0 \<le> r
           \<and> strict_equals (cell_at g r0 (Suc c)) (obj_get companyRecord ''id'')
           \<and> (\<forall>r'. 2 \<le> r' \<and> r' < r0 \<longrightarrow>
                  \<not> strict_equals (cell_at g r' (Suc c)) (obj_get companyRecord ''id''))
           \<and> saveCompanyRecord p companyRecord w
               = (Inr (), w\<lparr>sheet := Some (write_row p g r0
                                               (row_of_record p headers companyRecord))\<rparr>)
           \<and> length (write_row p g r0 (row_of_record p headers companyRecord)) = length g"
proof -
  define L where "L = getLastRow g"
  define v where "v = obj_get companyRecord ''id''"
  define ids where "ids = map (\<lambda>r. cell_at g r (Suc c)) [2 ..< 2 + L]"
  from row have rows: "0 < getLastRow g" by simp
  have len: "length ids = L" by (simp add: ids_def del: upt_Suc)
  have nth: "ids ! j = cell_at g (2 + j) (Suc c)" if "j < L" for j
    unfolding ids_def using that by (rule id_column_nth)
  from row have rj: "r - 2 < L" "2 + (r - 2) = r" unfolding L_def by arith+
  with nth [of "r - 2"] row(3) have hit: "strict_equals (ids ! (r - 2)) v"
    by (simp add: v_def)
  with rj len have "\<exists>x \<in> set ids. strict_equals x v"
    by (metis nth_mem)
  then obtain i where i: "indexOf ids v = int i"
    using indexOf_found by blast
  then have il: "i < L" and im: "strict_equals (ids ! i) v"
    and imin: "\<forall>j < i. \<not> strict_equals (ids ! j) v"
    using indexOf_first [of ids v i] len by simp_all
  from imin hit have ir: "i \<le> r - 2"
    by (meson not_le_imp_less)
  have before: "\<not> strict_equals (cell_at g r' (Suc c)) v" if "2 \<le> r' \<and> r' < i + 2" for r'
  proof -
    from that have "r' - 2 < i" "2 + (r' - 2) = r'" by arith+
    with imin nth [of "r' - 2"] il show ?thesis by (metis less_trans)
  qed
  have save: "saveCompanyRecord p companyRecord w
               = (Inr (), w\<lparr>sheet := Some (write_row p g (i + 2)
                                               (row_of_record p headers companyRecord))\<rparr>)"
    using save_on_headed_sheet [OF cfg sh rows hd idc, of ids companyRecord] i
    by (simp add: ids_def L_def v_def nat_add_distrib)
  from ir rj row have "i + 2 \<le> r" by simp
  moreover from this row last_pos_le [of has_content g] have "i + 2 \<le> length g"
    by (simp add: getLastRow_def)
  then have "length (write_row p g (i + 2) (row_of_record p headers companyRecord)) = length g"
    by (simp add: length_write_row)
  moreover from im nth [OF il] have "strict_equals (cell_at g (i + 2) (Suc c)) v"
    by (simp add: add.commute)
  ultimately show ?thesis
    using before save unfolding v_def by (intro exI [of _ "i + 2"]) simp
qed

lemma last_pos_bound:
  assumes "\<forall>i. k \<le> i \<and> i < length xs \<longrightarrow> \<not> P (xs ! i)"
  shows "last_pos P xs \<le> k"
proof (rule ccontr)
  assume "\<not> last_pos P xs \<le> k"
  then have gt: "k < last_pos P xs" by simp
  then have "P (xs ! (last_pos P xs - 1))" using last_pos_holds [of P xs] by simp
  moreover from gt last_pos_le [of P xs]
  have "k \<le> last_pos P xs - 1 \<and> last_pos P xs - 1 < length xs" by arith
  ultimately show False using assms by blast
qed

lemma fold_max_ge_start: "a \<le> fold (\<lambda>row m. max m (f row)) g (a::nat)"
proof (induction g arbitrary: a)
  case Nil
  then show ?case by simp
next
  case (Cons row g)
  have "a \<le> max a (f row)" by simp
  also have "\<dots> \<le> fold (\<lambda>row m. max m (f row)) g (max a (f row))" by (rule Cons.IH)
  finally show ?case by simp
qed

lemma fold_max_ge: "row \<in> set g \<Longrightarrow> f row \<le> fold (\<lambda>row m. max m (f row)) g (a::nat)"
proof (induction g arbitrary: a)
  case Nil
  then show ?case by simp
next
  case (Cons x g)
  show ?case
  proof (cases "row = x")
    case True
    have "f x \<le> max a (f x)" by simp
    also have "\<dots> \<le> fold (\<lambda>row m. max m (f row)) g (max a (f x))"
      by (rule fold_max_ge_start)
    finally show ?thesis by (simp add: True)
  next
    case False
    with Cons.prems have "row \<in> set g" by simp
    from Cons.IH [OF this] show ?thesis by simp
  qed
qed

lemma fold_max_le:
  "a \<le> k \<Longrightarrow> \<forall>row \<in> set g. f row \<le> k \<Longrightarrow> fold (\<lambda>row m. max m (f row)) g (a::nat) \<le> k"
  by (induction g arbitrary: a) simp_all

lemma getLastColumn_ge: "row \<in> set g \<Longrightarrow> last_pos (\<lambda>c. c \<noteq> blank) row \<le> getLastColumn g"
  unfolding getLastColumn_def by (rule fold_max_ge)

lemma getLastColumn_le:
  "\<forall>row \<in> set g. last_pos (\<lambda>c. c \<noteq> blank) row \<le> k \<Longrightarrow> getLastColumn g \<le> k"
  unfolding getLastColumn_def by (rule fold_max_le) simp_all

lemma no_content_last_pos: "\<not> has_content row \<Longrightarrow> last_pos (\<lambda>c. c \<noteq> blank) row = 0"
  by (simp add: last_pos_zero_iff has_content_iff)

lemma nth_write_row_other:
  assumes "i < length (write_row p g row vals)" and "i \<noteq> row - 1"
  shows "write_row p g row vals ! i = (if i < length g then g ! i else [])"
  using assms by (auto simp: write_row_def Let_def nth_append)

lemma nth_write_row_same:
  assumes "1 \<le> row"
  shows "write_row p g row vals ! (row - 1)
           = map (to_cell p) vals @ drop (length vals) (if row \<le> length g then g ! (row - 1) else [])"
  using assms by (auto simp: write_row_def Let_def nth_append)

lemma write_row_twice:
  assumes "1 \<le> row"
  shows "write_row p (write_row p g row vals) row vals = write_row p g row vals"
proof -
  have len: "row \<le> length (write_row p g row vals)"
    by (simp add: length_write_row)
  then have pad: "write_row p g row vals @ replicate (row - length (write_row p g row vals)) []
          = write_row p g row vals" by simp
  have row: "map (to_cell p) vals @ drop (length vals) (write_row p g row vals ! (row - 1))
          = write_row p g row vals ! (row - 1)"
    unfolding nth_write_row_same [OF assms] by simp
  show ?thesis
    unfolding write_row_def [of p "write_row p g row vals"] Let_def pad row
    by (rule list_update_id)
qed

lemma row_after_last_has_no_content:
  "getLastRow g \<le> i \<Longrightarrow> i < length g \<Longrightarrow> \<not> has_content (g ! i)"
  unfolding getLastRow_def by (rule last_pos_after)

lemma appended_row:
  "appendRow p g vals ! getLastRow g
     = map (to_cell p) vals
       @ drop (length vals) (if Suc (getLastRow g) \<le> length g then g ! getLastRow g else [])"
  using nth_write_row_same [of "Suc (getLastRow g)" p g vals] by (simp add: appendRow_def)

lemma getLastRow_appendRow:
  assumes "c < length vals" and "to_cell p (vals ! c) \<noteq> blank"
  shows "getLastRow (appendRow p g vals) = Suc (getLastRow g)"
  unfolding getLastRow_def [of "appendRow p g vals"]
proof (rule last_pos_unique)
  show "Suc (getLastRow g) \<le> length (appendRow p g vals)"
    by (simp add: appendRow_def length_write_row)
  have "to_cell p (vals ! c) \<in> set (appendRow p g vals ! getLastRow g)"
    using assms(1) by (simp add: appended_row)
  with assms(2) have "has_content (appendRow p g vals ! getLastRow g)"
    by (auto simp: has_content_iff)
  then show "0 < Suc (getLastRow g)
               \<longrightarrow> has_content (appendRow p g vals ! (Suc (getLastRow g) - 1))"
    by simp
  show "\<forall>i. Suc (getLastRow g) \<le> i \<and> i < length (appendRow p g vals)
              \<longrightarrow> \<not> has_content (appendRow p g vals ! i)"
  proof (intro allI impI)
    fix i
    assume i: "Suc (getLastRow g) \<le> i \<and> i < length (appendRow p g vals)"
    then have ne: "i \<noteq> Suc (getLastRow g) - 1" by simp
    from i have "appendRow p g vals ! i = (if i < length g then g ! i else [])"
      unfolding appendRow_def using ne by (intro nth_write_row_other) simp_all
    moreover have "\<not> has_content (g ! i)" if "i < length g"
      using i that by (intro row_after_last_has_no_content) simp_all
    ultimately show "\<not> has_content (appendRow p g vals ! i)"
      by (simp add: has_content_def)
  qed
qed

lemma last_pos_overwritten:
  assumes "\<not> has_content old"
  shows "last_pos (\<lambda>c. c \<noteq> blank) (new @ drop (length new) old) \<le> length new"
proof (rule last_pos_bound, intro allI impI)
  fix j
  assume j: "length new \<le> j \<and> j < length (new @ drop (length new) old)"
  then have "(new @ drop (length new) old) ! j = drop (length new) old ! (j - length new)"
    by (simp add: nth_append)
  moreover from j have "j - length new < length (drop (length new) old)"
    by auto
  then have "drop (length new) old ! (j - length new) \<in> set (drop (length new) old)"
    by (rule nth_mem)
  then have "drop (length new) old ! (j - length new) \<in> set old"
    by (rule in_set_dropD)
  ultimately show "\<not> (new @ drop (length new) old) ! j \<noteq> blank"
    using assms by (auto simp: has_content_iff)
qed

lemma getLastColumn_appendRow:
  assumes "length vals \<le> getLastColumn g"
  shows "getLastColumn (appendRow p g vals) = getLastColumn g"
proof (rule antisym)
  let ?L = "getLastRow g"
  let ?g1 = "appendRow p g vals"
  define old where "old = (if Suc ?L \<le> length g then g ! ?L else [])"
  have old: "\<not> has_content old"
  proof (cases "Suc ?L \<le> length g")
    case True
    then have "\<not> has_content (g ! ?L)"
      by (intro row_after_last_has_no_content) simp_all
    with True show ?thesis by (simp add: old_def)
  next
    case False
    then show ?thesis by (simp add: has_content_def old_def)
  qed
  have new_row: "?g1 ! ?L = map (to_cell p) vals @ drop (length (map (to_cell p) vals)) old"
    by (simp add: appended_row old_def)
  show "getLastColumn ?g1 \<le> getLastColumn g"
  proof (rule getLastColumn_le, intro ballI)
    fix row
    assume "row \<in> set ?g1"
    then obtain i where i: "i < length ?g1" "row = ?g1 ! i"
      by (auto simp: in_set_conv_nth)
    show "last_pos (\<lambda>c. c \<noteq> blank) row \<le> getLastColumn g"
    proof (cases "i = ?L")
      case True
      from last_pos_overwritten [OF old, of "map (to_cell p) vals"]
      have "last_pos (\<lambda>c. c \<noteq> blank) (?g1 ! ?L) \<le> length vals"
        by (simp add: new_row)
      with assms True i show ?thesis by simp
    next
      case False
      with i have "row = (if i < length g then g ! i else [])"
        unfolding appendRow_def by (simp add: nth_write_row_other)
      then show ?thesis by (auto intro: getLastColumn_ge)
    qed
  qed
  show "getLastColumn g \<le> getLastColumn ?g1"
  proof (rule getLastColumn_le, intro ballI)
    fix row
    assume "row \<in> set g"
    then obtain i where i: "i < length g" "row = g ! i"
      by (auto simp: in_set_conv_nth)
    show "last_pos (\<lambda>c. c \<noteq> blank) row \<le> getLastColumn ?g1"
    proof (cases "i = ?L")
      case True
      with i have "\<not> has_content row"
        by (simp add: row_after_last_has_no_content)
      then show ?thesis by (simp add: no_content_last_pos)
    next
      case False
      from i have il: "i < length ?g1" by (simp add: appendRow_def length_write_row)
      with False i have "?g1 ! i = row"
        unfolding appendRow_def by (simp add: nth_write_row_other)
      with il have "row \<in> set ?g1" by (metis nth_mem)
      then show ?thesis by (rule getLastColumn_ge)
    qed
  qed
qed

lemma cell_at_appendRow:
  "cell_at (appendRow p g vals) r c =
     (if r = Suc (getLastRow g) \<and> 1 \<le> c \<and> c \<le> length vals then to_cell p (vals ! (c - 1))
      else cell_at g r c)"
  unfolding appendRow_def by (rule cell_at_write_row) simp

lemma strict_equals_id: "strict_equals h (JStr t) \<longleftrightarrow> h = CStr t"
  by (cases h) auto

lemma kept_not_undefined: "kept_as_written p v \<Longrightarrow> v \<noteq> JUndefined"
  by (auto simp: kept_as_written_def blank_def)

lemma kept_not_blank: "kept_as_written p v \<Longrightarrow> \<not> strict_equals blank v"
  by (cases v) (auto simp: kept_as_written_def blank_def)

lemma id_cell_of_row:
  assumes idc: "indexOf headers (JStr ''id'') = int c"
    and kept: "kept_as_written p (obj_get companyRecord ''id'')"
  shows "c < length (row_of_record p headers companyRecord)
       \<and> row_of_record p headers companyRecord ! c = obj_get companyRecord ''id''"
proof -
  from idc have ch: "c < length headers" and hc: "headers ! c = CStr ''id''"
    using indexOf_first [of headers "JStr ''id''" c] by (simp_all add: strict_equals_id)
  with kept_not_undefined [OF kept] show ?thesis
    by (simp add: row_of_record_def)
qed

lemma getHeaders_appendRow:
  assumes rows: "0 < getLastRow g" and hd: "getHeaders g = Inr headers"
    and len: "length vals = length headers"
    and content: "c < length vals" "to_cell p (vals ! c) \<noteq> blank"
  shows "getHeaders (appendRow p g vals) = Inr headers"
proof -
  from getHeaders_row [OF rows hd]
  have h: "headers = map (cell_at g 1) [1 ..< Suc (getLastColumn g)]" and pos: "0 < getLastColumn g"
    by simp_all
  from h have lh: "length headers = getLastColumn g" by simp
  have lr: "getLastRow (appendRow p g vals) = Suc (getLastRow g)"
    by (rule getLastRow_appendRow [OF content])
  have lc: "getLastColumn (appendRow p g vals) = getLastColumn g"
    by (rule getLastColumn_appendRow) (simp add: len lh)
  have row1: "cell_at (appendRow p g vals) (Suc 0) k = cell_at g (Suc 0) k" for k
    using rows by (simp add: cell_at_appendRow)
  have "map (cell_at (appendRow p g vals) 1) [1 ..< Suc (getLastColumn g)] = headers"
    unfolding h by (rule map_cong) (simp_all add: row1)
  moreover have "[Suc 0 ..< Suc (Suc 0)] = [Suc 0]" by simp
  ultimately show ?thesis
    using pos by (simp add: getHeaders_def lr lc getValues_def del: upt_Suc)
qed

lemma getLastRow_write_row_inside:
  assumes row: "1 \<le> row" "row \<le> getLastRow g"
    and content: "c < length vals" "to_cell p (vals ! c) \<noteq> blank"
  shows "getLastRow (write_row p g row vals) = getLastRow g"
  unfolding getLastRow_def [of "write_row p g row vals"]
proof (rule last_pos_unique)
  let ?g' = "write_row p g row vals"
  from last_pos_le [of has_content g] have Ll: "getLastRow g \<le> length g"
    by (simp add: getLastRow_def)
  with row have len: "length ?g' = length g" by (simp add: length_write_row)
  show "getLastRow g \<le> length ?g'" using Ll len by simp
  have new: "has_content (?g' ! (row - 1))"
  proof -
    from content have "to_cell p (vals ! c) \<in> set (?g' ! (row - 1))"
      unfolding nth_write_row_same [OF row(1)] by simp
    with content(2) show ?thesis unfolding has_content_iff by blast
  qed
  show "0 < getLastRow g \<longrightarrow> has_content (?g' ! (getLastRow g - 1))"
  proof (cases "getLastRow g - 1 = row - 1")
    case True
    with new show ?thesis by simp
  next
    case False
    from row Ll have "getLastRow g - 1 < length ?g'" using len by arith
    from nth_write_row_other [OF this False] row Ll
    have "?g' ! (getLastRow g - 1) = g ! (getLastRow g - 1)"
      by (simp split: if_splits)
    with last_pos_holds [of has_content g] show ?thesis
      by (simp add: getLastRow_def)
  qed
  show "\<forall>i. getLastRow g \<le> i \<and> i < length ?g' \<longrightarrow> \<not> has_content (?g' ! i)"
  proof (intro allI impI)
    fix i
    assume i: "getLastRow g \<le> i \<and> i < length ?g'"
    with row have ne: "i \<noteq> row - 1" by arith
    from i have "i < length ?g'" by simp
    from nth_write_row_other [OF this ne] i len
    have "?g' ! i = g ! i" by simp
    with row_after_last_has_no_content [of g i] i len show "\<not> has_content (?g' ! i)"
      by simp
  qed
qed

lemma overwrite_keeps_rows_with_id:
  assumes idc: "indexOf headers (JStr ''id'') = int c"
    and kept: "kept_as_written p (obj_get companyRecord ''id'')"
    and r0: "2 \<le> r0" "r0 \<le> getLastRow g"
      "strict_equals (cell_at g r0 (Suc c)) (obj_get companyRecord ''id'')"
    and g': "g' = write_row p g r0 (row_of_record p headers companyRecord)"
  shows "getLastRow g' = getLastRow g
       \<and> rows_with_id g' (Suc c) (obj_get companyRecord ''id'')
           = rows_with_id g (Suc c) (obj_get companyRecord ''id'')"
proof -
  let ?new = "row_of_record p headers companyRecord"
  let ?v = "obj_get companyRecord ''id''"
  from id_cell_of_row [OF idc kept] have cn: "c < length ?new" and nc: "?new ! c = ?v"
    by simp_all
  from kept have readback: "strict_equals (to_cell p ?v) ?v" and full: "to_cell p ?v \<noteq> blank"
    by (simp_all add: kept_as_written_def)
  from r0 have one: "1 \<le> r0" by simp
  have lr: "getLastRow g' = getLastRow g"
    unfolding g' using one r0(2) cn by (rule getLastRow_write_row_inside) (simp add: nc full)
  have at: "cell_at g' r (Suc c) = (if r = r0 then to_cell p ?v else cell_at g r (Suc c))" for r
    unfolding g' cell_at_write_row [OF one] using cn nc by simp
  have "strict_equals (cell_at g' r (Suc c)) ?v = strict_equals (cell_at g r (Suc c)) ?v" for r
    using readback r0(3) by (simp add: at)
  then show ?thesis
    by (simp add: rows_with_id_def lr)
qed

lemma save_twice:
  assumes cfg: "SPREADSHEET_ID p = Some sid" "sid \<noteq> []"
    and sh: "sheet w = Some g"
    and rows: "0 < getLastRow g"
    and hd: "getHeaders g = Inr headers"
    and idc: "indexOf headers (JStr ''id'') = int c"
    and kept: "kept_as_written p (obj_get companyRecord ''id'')"
    and none: "rows_with_id g (Suc c) (obj_get companyRecord ''id'') = []"
    and g1: "g1 = appendRow p g (row_of_record p headers companyRecord)"
  shows "saveCompanyRecord p companyRecord w = (Inr (), w\<lparr>sheet := Some g1\<rparr>)
       \<and> saveCompanyRecord p companyRecord (w\<lparr>sheet := Some g1\<rparr>)
           = (Inr (), w\<lparr>sheet := Some g1\<rparr>)
       \<and> getLastRow g1 = Suc (getLastRow g)
       \<and> rows_with_id g1 (Suc c) (obj_get companyRecord ''id'') = [Suc (getLastRow g)]"
proof -
  let ?L = "getLastRow g"
  let ?new = "row_of_record p headers companyRecord"
  let ?v = "obj_get companyRecord ''id''"
  from idc have ch: "c < length headers"
    using indexOf_first [of headers "JStr ''id''" c] by simp
  have ln: "length ?new = length headers" by (simp add: row_of_record_def)
  from id_cell_of_row [OF idc kept] have nc: "?new ! c = ?v" by simp
  from kept have readback: "strict_equals (to_cell p ?v) ?v" and full: "to_cell p ?v \<noteq> blank"
    by (simp_all add: kept_as_written_def)
  have content: "c < length ?new" "to_cell p (?new ! c) \<noteq> blank"
    using ch ln nc full by simp_all
  have nomatch: "\<not> strict_equals (cell_at g r (Suc c)) ?v" if "2 \<le> r" for r
  proof (cases "r \<le> ?L")
    case True
    with that have "r \<in> set [2 ..< Suc ?L]" by (simp del: upt_Suc)
    with none show ?thesis
      unfolding rows_with_id_def by (metis filter_empty_conv)
  next
    case False
    then have "cell_at g r (Suc c) = blank"
      by (intro cell_at_beyond_last_row) simp
    with kept_not_blank [OF kept] show ?thesis by simp
  qed
  define ids where "ids = map (\<lambda>r. cell_at g r (Suc c)) [2 ..< 2 + ?L]"
  have "\<forall>x \<in> set ids. \<not> strict_equals x ?v"
    unfolding ids_def using nomatch by auto
  then have "indexOf ids ?v = - 1"
    by (simp add: indexOf_absent)
  with save_on_headed_sheet [OF cfg sh rows hd idc ids_def, of companyRecord]
  have first: "saveCompanyRecord p companyRecord w = (Inr (), w\<lparr>sheet := Some g1\<rparr>)"
    by (simp add: g1)
  have lr: "getLastRow g1 = Suc ?L"
    unfolding g1 by (rule getLastRow_appendRow [OF content])
  have hd1: "getHeaders g1 = Inr headers"
    unfolding g1 by (rule getHeaders_appendRow [OF rows hd ln content])
  have at: "cell_at g1 r (Suc c) = (if r = Suc ?L then to_cell p ?v else cell_at g r (Suc c))" for r
    using ch ln nc by (simp add: g1 cell_at_appendRow)
  have sh1: "sheet (w\<lparr>sheet := Some g1\<rparr>) = Some g1" by simp
  have match: "strict_equals (cell_at g1 (Suc ?L) (Suc c)) ?v"
    by (simp add: at readback)
  from rows have two: "2 \<le> Suc ?L" by simp
  have top: "Suc ?L \<le> getLastRow g1" by (simp add: lr)
  from save_updates_in_place [OF cfg sh1 hd1 idc two top match]
  obtain r0 where r0: "2 \<le> r0" "r0 \<le> Suc ?L"
    "strict_equals (cell_at g1 r0 (Suc c)) ?v"
    and second: "saveCompanyRecord p companyRecord (w\<lparr>sheet := Some g1\<rparr>)
               = (Inr (), w\<lparr>sheet := Some g1\<rparr>\<lparr>sheet := Some (write_row p g1 r0 ?new)\<rparr>)"
    by blast
  have "r0 = Suc ?L"
  proof (rule ccontr)
    assume ne: "r0 \<noteq> Suc ?L"
    with r0(3) have "strict_equals (cell_at g r0 (Suc c)) ?v"
      by (simp add: at)
    with nomatch [OF r0(1)] show False by simp
  qed
  moreover have "write_row p g1 (Suc ?L) ?new = g1"
    unfolding g1 appendRow_def by (rule write_row_twice) simp
  ultimately have second': "saveCompanyRecord p companyRecord (w\<lparr>sheet := Some g1\<rparr>)
               = (Inr (), w\<lparr>sheet := Some g1\<rparr>)"
    using second by simp
  have "filter (\<lambda>r. strict_equals (cell_at g1 r (Suc c)) ?v) [2 ..< Suc ?L] = []"
    using nomatch by (auto simp: filter_empty_conv at)
  then have one: "rows_with_id g1 (Suc c) ?v = [Suc ?L]"
    using two by (simp add: rows_with_id_def lr at readback)
  from first second' lr one show ?thesis by blast
qed

lemma headers_need_rows:
  assumes "getHeaders g = Inr headers" and "headers \<noteq> []"
  shows "0 < getLastRow g"
  using assms by (cases "getLastRow g = 0") (simp_all add: getHeaders_def)

lemma cell_at_other_row:
  "1 \<le> row \<Longrightarrow> r \<noteq> row \<Longrightarrow> cell_at (write_row p g row vals) r k = cell_at g r k"
  by (simp add: cell_at_write_row)

text \<open>
  Claim C6.  Take a sheet whose header row has an \<open>id\<close> column (the first one, column
  \<open>c + 1\<close>) and a record with \<open>id\<close> value \<open>v\<close>.  Whenever some data row \<open>r\<close> (from row 2
  to the last row with content) has a cell strictly equal to \<open>v\<close> in that column,
  \<^verbatim>\<open>saveCompanyRecord\<close> succeeds and overwrites a row \<open>r0\<close> that has that id (the first
  such row) with the record's values: the sheet gets no further row, every other row stays
  as it was, and the rows with that id stay the same rows.  And when no data row has the id,
  saving the record appends one row; saving the same record again finds that row and writes
  it over with the same values, so the sheet after the second save is the sheet after
  the first, with exactly one row of that id, the appended one.  (The second part is for an id
  that a cell gives back as it was written.)
\<close>

theorem save_is_idempotent_in_id:
  assumes cfg: "SPREADSHEET_ID p = Some sid" "sid \<noteq> []"
    and sh: "sheet w = Some g"
    and hd: "getHeaders g = Inr headers"
    and idc: "indexOf headers (JStr ''id'') = int c"
    and v: "v = obj_get companyRecord ''id''"
    and new: "newRow = row_of_record p headers companyRecord"
  shows "(\<forall>r. 2 \<le> r \<and> r \<le> getLastRow g \<and> strict_equals (cell_at g r (Suc c)) v \<longrightarrow>
            (\<exists>r0. 2 \<le> r0 \<and> r0 \<le> r \<and> strict_equals (cell_at g r0 (Suc c)) v
               \<and> saveCompanyRecord p companyRecord w
                   = (Inr (), w\<lparr>sheet := Some (write_row p g r0 newRow)\<rparr>)
               \<and> length (write_row p g r0 newRow) = length g
               \<and> (\<forall>r' k. r' \<noteq> r0 \<longrightarrow> cell_at (write_row p g r0 newRow) r' k = cell_at g r' k)
               \<and> (kept_as_written p v \<longrightarrow>
                     getLastRow (write_row p g r0 newRow) = getLastRow g
                   \<and> rows_with_id (write_row p g r0 newRow) (Suc c) v = rows_with_id g (Suc c) v)))
       \<and> (kept_as_written p v \<and> rows_with_id g (Suc c) v = [] \<longrightarrow>
            saveCompanyRecord p companyRecord w
              = (Inr (), w\<lparr>sheet := Some (appendRow p g newRow)\<rparr>)
          \<and> saveCompanyRecord p companyRecord (w\<lparr>sheet := Some (appendRow p g newRow)\<rparr>)
              = (Inr (), w\<lparr>sheet := Some (appendRow p g newRow)\<rparr>)
          \<and> getLastRow (appendRow p g newRow) = Suc (getLastRow g)
          \<and> rows_with_id (appendRow p g newRow) (Suc c) v = [Suc (getLastRow g)])"
proof (intro conjI allI impI)
  fix r
  assume row: "2 \<le> r \<and> r \<le> getLastRow g \<and> strict_equals (cell_at g r (Suc c)) v"
  then have r: "2 \<le> r" "r \<le> getLastRow g"
    "strict_equals (cell_at g r (Suc c)) (obj_get companyRecord ''id'')"
    by (simp_all add: v)
  from save_updates_in_place [OF cfg sh hd idc r]
  obtain r0 where r0: "2 \<le> r0" "r0 \<le> r"
      "strict_equals (cell_at g r0 (Suc c)) (obj_get companyRecord ''id'')"
    and save: "saveCompanyRecord p companyRecord w
               = (Inr (), w\<lparr>sheet := Some (write_row p g r0 newRow)\<rparr>)"
    and len: "length (write_row p g r0 newRow) = length g"
    unfolding new by blast
  from r0(1) have one: "1 \<le> r0" by simp
  from r0(2) r(2) have top: "r0 \<le> getLastRow g" by simp
  have others: "\<forall>r' k. r' \<noteq> r0 \<longrightarrow> cell_at (write_row p g r0 newRow) r' k = cell_at g r' k"
    using cell_at_other_row [OF one] by blast
  have kept: "kept_as_written p v \<longrightarrow>
                getLastRow (write_row p g r0 newRow) = getLastRow g
              \<and> rows_with_id (write_row p g r0 newRow) (Suc c) v = rows_with_id g (Suc c) v"
    using overwrite_keeps_rows_with_id [OF idc _ r0(1) top r0(3) refl, of p]
    unfolding new v by blast
  from r0 save len others kept
  show "\<exists>r0. 2 \<le> r0 \<and> r0 \<le> r \<and> strict_equals (cell_at g r0 (Suc c)) v
               \<and> saveCompanyRecord p companyRecord w
                   = (Inr (), w\<lparr>sheet := Some (write_row p g r0 newRow)\<rparr>)
               \<and> length (write_row p g r0 newRow) = length g
               \<and> (\<forall>r' k. r' \<noteq> r0 \<longrightarrow> cell_at (write_row p g r0 newRow) r' k = cell_at g r' k)
               \<and> (kept_as_written p v \<longrightarrow>
                     getLastRow (write_row p g r0 newRow) = getLastRow g
                   \<and> rows_with_id (write_row p g r0 newRow) (Suc c) v = rows_with_id g (Suc c) v)"
    unfolding v by blast
next
  assume fresh: "kept_as_written p v \<and> rows_with_id g (Suc c) v = []"
  from idc have "headers \<noteq> []" by auto
  with hd have rows: "0 < getLastRow g" by (rule headers_need_rows)
  from fresh have kept: "kept_as_written p (obj_get companyRecord ''id'')"
    and none: "rows_with_id g (Suc c) (obj_get companyRecord ''id'') = []"
    by (simp_all add: v)
  note twice = save_twice [OF cfg sh rows hd idc kept none refl, folded new v]
  from twice show "saveCompanyRecord p companyRecord w
              = (Inr (), w\<lparr>sheet := Some (appendRow p g newRow)\<rparr>)" by blast
  from twice show "saveCompanyRecord p companyRecord (w\<lparr>sheet := Some (appendRow p g newRow)\<rparr>)
              = (Inr (), w\<lparr>sheet := Some (appendRow p g newRow)\<rparr>)" by blast
  from twice show "getLastRow (appendRow p g newRow) = Suc (getLastRow g)" by blast
  from twice show "rows_with_id (appendRow p g newRow) (Suc c) v = [Suc (getLastRow g)]" by blast
qed

text \<open>A record of a company the sheet has is written over its row; a record of a company
  the sheet does not have is appended once, however often it is saved.\<close>

theorem save_is_idempotent_in_id_witness:
  "saveCompanyRecord odd_platform acme_update (world0\<lparr>sheet := Some companies_sheet\<rparr>)
     = (Inr (), world0\<lparr>sheet := Some
          [[CStr ''id'', CStr ''company_name'', CStr ''acv''],
           [CStr ''u1'', CStr ''Acme Inc'', CNum 900],
           [CStr ''u2'', CStr ''Bolt'', CNum 1200]]\<rparr>)
   \<and> saveCompanyRecord odd_platform new_company (world0\<lparr>sheet := Some companies_sheet\<rparr>)
     = (Inr (), world0\<lparr>sheet := Some
          [[CStr ''id'', CStr ''company_name'', CStr ''acv''],
           [CStr ''u1'', CStr ''Acme'', CNum 800],
           [CStr ''u2'', CStr ''Bolt'', CNum 1200],
           [CStr ''u3'', CStr ''Crest'', CStr '''']]\<rparr>)
   \<and> saveCompanyRecord odd_platform new_company (world0\<lparr>sheet := Some
          [[CStr ''id'', CStr ''company_name'', CStr ''acv''],
           [CStr ''u1'', CStr ''Acme'', CNum 800],
           [CStr ''u2'', CStr ''Bolt'', CNum 1200],
           [CStr ''u3'', CStr ''Crest'', CStr '''']]\<rparr>)
     = (Inr (), world0\<lparr>sheet := Some
          [[CStr ''id'', CStr ''company_name'', CStr ''acv''],
           [CStr ''u1'', CStr ''Acme'', CNum 800],
           [CStr ''u2'', CStr ''Bolt'', CNum 1200],
           [CStr ''u3'', CStr ''Crest'', CStr '''']]\<rparr>)
   \<and> rows_with_id [[CStr ''id'', CStr ''company_name'', CStr ''acv''],
           [CStr ''u1'', CStr ''Acme'', CNum 800],
           [CStr ''u2'', CStr ''Bolt'', CNum 1200],
           [CStr ''u3'', CStr ''Crest'', CStr '''']] 1 (JStr ''u3'') = [4]"
proof -
  let ?p = odd_platform
  let ?w = "world0\<lparr>sheet := Some companies_sheet\<rparr>"
  let ?headers = "[CStr ''id'', CStr ''company_name'', CStr ''acv'']"
  have cfg: "SPREADSHEET_ID ?p = Some ''sheet-1''" "''sheet-1'' \<noteq> []"
    by (simp_all add: odd_platform_def scripted_platform_def)
  have sh: "sheet ?w = Some companies_sheet" by simp
  have hd: "getHeaders companies_sheet = Inr ?headers" by code_simp
  have idc: "indexOf ?headers (JStr ''id'') = int 0" by simp
  have last: "getLastRow companies_sheet = 3" by code_simp
  have u1: "obj_get acme_update ''id'' = JStr ''u1''" by code_simp
  have u3: "obj_get new_company ''id'' = JStr ''u3''" by code_simp
  have row1: "row_of_record ?p ?headers acme_update = [JStr ''u1'', JStr ''Acme Inc'', JNum 900]"
    by code_simp
  have row3: "row_of_record ?p ?headers new_company = [JStr ''u3'', JStr ''Crest'', JNull]"
    by code_simp
  have hit: "2 \<le> (2::nat) \<and> 2 \<le> getLastRow companies_sheet
             \<and> strict_equals (cell_at companies_sheet 2 (Suc 0)) (JStr ''u1'')"
    unfolding last by code_simp
  have kept: "kept_as_written ?p (JStr ''u3'')" by (simp add: kept_as_written_def blank_def)
  have none: "rows_with_id companies_sheet (Suc 0) (JStr ''u3'') = []" by code_simp
  have written: "write_row ?p companies_sheet 2 [JStr ''u1'', JStr ''Acme Inc'', JNum 900]
      = [[CStr ''id'', CStr ''company_name'', CStr ''acv''],
         [CStr ''u1'', CStr ''Acme Inc'', CNum 900],
         [CStr ''u2'', CStr ''Bolt'', CNum 1200]]"
    by code_simp
  have appended: "appendRow ?p companies_sheet [JStr ''u3'', JStr ''Crest'', JNull]
      = [[CStr ''id'', CStr ''company_name'', CStr ''acv''],
         [CStr ''u1'', CStr ''Acme'', CNum 800],
         [CStr ''u2'', CStr ''Bolt'', CNum 1200],
         [CStr ''u3'', CStr ''Crest'', CStr '''']]"
    by code_simp
  from save_is_idempotent_in_id [OF cfg sh hd idc u1 [symmetric] row1 [symmetric]] hit
  obtain r0 where "2 \<le> r0" "r0 \<le> 2"
    and save: "saveCompanyRecord ?p acme_update ?w
         = (Inr (), ?w\<lparr>sheet := Some (write_row ?p companies_sheet r0
                                         [JStr ''u1'', JStr ''Acme Inc'', JNum 900])\<rparr>)"
    by blast
  then have "r0 = 2" by simp
  with save written have first: "saveCompanyRecord ?p acme_update ?w
     = (Inr (), world0\<lparr>sheet := Some
          [[CStr ''id'', CStr ''company_name'', CStr ''acv''],
           [CStr ''u1'', CStr ''Acme Inc'', CNum 900],
           [CStr ''u2'', CStr ''Bolt'', CNum 1200]]\<rparr>)"
    by simp
  from save_is_idempotent_in_id [OF cfg sh hd idc u3 [symmetric] row3 [symmetric]] kept none
  have twice: "saveCompanyRecord ?p new_company ?w
         = (Inr (), ?w\<lparr>sheet := Some (appendRow ?p companies_sheet
                                         [JStr ''u3'', JStr ''Crest'', JNull])\<rparr>)"
    "saveCompanyRecord ?p new_company
         (?w\<lparr>sheet := Some (appendRow ?p companies_sheet [JStr ''u3'', JStr ''Crest'', JNull])\<rparr>)
         = (Inr (), ?w\<lparr>sheet := Some (appendRow ?p companies_sheet
                                         [JStr ''u3'', JStr ''Crest'', JNull])\<rparr>)"
    "rows_with_id (appendRow ?p companies_sheet [JStr ''u3'', JStr ''Crest'', JNull]) (Suc 0)
         (JStr ''u3'') = [Suc (getLastRow companies_sheet)]"
    by blast+
  from first twice show ?thesis
    unfolding appended last by simp
qed

lemma no_headers_no_rows:
  assumes "getHeaders g = Inr []"
  shows "getLastRow g = 0"
proof (rule ccontr)
  assume "getLastRow g \<noteq> 0"
  then have rows: "0 < getLastRow g" by simp
  from getHeaders_row [OF rows assms] show False by (auto split: if_splits)
qed

lemma header_row_only:
  assumes "getLastRow g = 0"
  shows "getLastRow (write_row p g 1 vals) \<le> 1"
  unfolding getLastRow_def [of "write_row p g 1 vals"]
proof (rule last_pos_bound, intro allI impI)
  fix i
  assume i: "1 \<le> i \<and> i < length (write_row p g 1 vals)"
  then have "i < length (write_row p g 1 vals)" and "i \<noteq> 1 - 1" by simp_all
  from nth_write_row_other [OF this]
  have row: "write_row p g 1 vals ! i = (if i < length g then g ! i else [])" .
  show "\<not> has_content (write_row p g 1 vals ! i)"
  proof (cases "i < length g")
    case True
    with row row_after_last_has_no_content [of g i] assms show ?thesis by simp
  next
    case False
    with row show ?thesis by (simp add: has_content_def)
  qed
qed

text \<open>
  The first save into a sheet without a header row, whatever the record.  The header row is
  written from \<^verbatim>\<open>Object.keys(companyRecord)\<close>; the assignment to the
  \<^verbatim>\<open>const\<close> binding \<^verbatim>\<open>headers\<close> on the next line throws, so the record's row is
  never written.  For a record without keys \<^verbatim>\<open>getRange\<close> throws before anything is
  written.
\<close>

lemma save_without_headers:
  assumes cfg: "SPREADSHEET_ID p = Some sid" "sid \<noteq> []"
    and g0: "g0 = (case sheet w of None \<Rightarrow> [] | Some g \<Rightarrow> g)"
    and none: "getHeaders g0 = Inr []"
    and keys: "keys = Object_keys companyRecord"
  shows "fst (saveCompanyRecord p companyRecord w) \<noteq> Inr ()
       \<and> (keys \<noteq> [] \<longrightarrow>
            saveCompanyRecord p companyRecord w
              = (Inl TypeError, w\<lparr>sheet := Some (write_row p g0 1 (map JStr keys))\<rparr>)
          \<and> (\<forall>k < length keys. cell_at (write_row p g0 1 (map JStr keys)) 1 (Suc k)
                                  = CStr (keys ! k))
          \<and> (\<forall>r k. r \<noteq> 1 \<longrightarrow> cell_at (write_row p g0 1 (map JStr keys)) r k = cell_at g0 r k)
          \<and> getLastRow (write_row p g0 1 (map JStr keys)) \<le> 1)
       \<and> (keys = [] \<longrightarrow>
            saveCompanyRecord p companyRecord w
              = (Inl (ServiceException ''The coordinates or dimensions of the range are invalid.''),
                 w\<lparr>sheet := Some g0\<rparr>))"
proof -
  from none have last: "getLastRow g0 = 0" by (rule no_headers_no_rows)
  have full: "saveCompanyRecord p companyRecord w
              = (Inl TypeError, w\<lparr>sheet := Some (write_row p g0 1 (map JStr keys))\<rparr>)"
    if "keys \<noteq> []"
    using that cfg none unfolding saveCompanyRecord_def g0 [symmetric] Let_def keys
    by (simp add: setHeaders_def setRowValues_def)
  have empty: "saveCompanyRecord p companyRecord w
              = (Inl (ServiceException ''The coordinates or dimensions of the range are invalid.''),
                 w\<lparr>sheet := Some g0\<rparr>)"
    if "keys = []"
    using that cfg none unfolding saveCompanyRecord_def g0 [symmetric] Let_def keys
    by (simp add: setHeaders_def setRowValues_def)
  have fails: "fst (saveCompanyRecord p companyRecord w) \<noteq> Inr ()"
    using full empty by (cases "keys = []") simp_all
  have cells: "\<forall>k < length keys. cell_at (write_row p g0 1 (map JStr keys)) 1 (Suc k)
                                  = CStr (keys ! k)"
    by (simp add: cell_at_write_row)
  have others: "\<forall>r k. r \<noteq> 1 \<longrightarrow> cell_at (write_row p g0 1 (map JStr keys)) r k = cell_at g0 r k"
    by (simp add: cell_at_write_row)
  from fails full empty cells others header_row_only [OF last, of p "map JStr keys"]
  show ?thesis by blast
qed

text \<open>A record with integer-like keys: the header row has them first, in ascending order.\<close>

lemma header_row_follows_Object_keys:
  "saveCompanyRecord odd_platform [(''id'', JStr ''u4''), (''10'', JNum 1), (''2'', JNum 2)]
       (world0\<lparr>sheet := Some []\<rparr>)
     = (Inl TypeError, world0\<lparr>sheet := Some [[CStr ''2'', CStr ''10'', CStr ''id'']]\<rparr>)"
  by code_simp

text \<open>
  Claim C9.  The script at a record with two keys and an empty sheet.  The comment of
  \<^verbatim>\<open>saveCompanyRecord\<close> says that a record whose id is not on the sheet is appended as a
  new row, and the header-initialisation branch is there to make that work on an empty sheet.
  The call throws instead: the assignment \<^verbatim>\<open>headers = recordHeaders\<close> to a
  \<^verbatim>\<open>const\<close> binding raises a TypeError, and the record is not appended.  It does not
  throw before writing anything, as the claim has it: \<^verbatim>\<open>setHeaders\<close> has run on the
  line before, so the sheet is left with the header row.  Saving the same record again
  therefore finds the headers and appends the record.
\<close>

theorem first_save_writes_headers_then_throws:
  "getHeaders [] = Inr []
   \<and> saveCompanyRecord odd_platform new_company (world0\<lparr>sheet := Some []\<rparr>)
     = (Inl TypeError, world0\<lparr>sheet := Some [[CStr ''id'', CStr ''company_name'']]\<rparr>)
   \<and> sheet (snd (saveCompanyRecord odd_platform new_company (world0\<lparr>sheet := Some []\<rparr>)))
     \<noteq> Some []
   \<and> saveCompanyRecord odd_platform new_company
        (snd (saveCompanyRecord odd_platform new_company (world0\<lparr>sheet := Some []\<rparr>)))
     = (Inr (), world0\<lparr>sheet := Some [[CStr ''id'', CStr ''company_name''],
                                         [CStr ''u3'', CStr ''Crest'']]\<rparr>)
   \<and> saveCompanyRecord odd_platform new_company world0
     = (Inl TypeError, world0\<lparr>sheet := Some [[CStr ''id'', CStr ''company_name'']]\<rparr>)"
  by code_simp

end
